theory Spec2Isabelle
  imports Main "HOL-Library.AList"
begin

section \<open>JavaScript values\<close>

text \<open>
  The handler of \<^verbatim>\<open>api/jadwal.js\<close> works on untyped values: the request body, the
  decoded blob and the objects it throws. A value is one of the JSON shapes plus
  \<^verbatim>\<open>undefined\<close>. An object is an association list in insertion order; its keys are
  meant to be distinct, and a lookup takes the first entry of a key.

  Numbers are the safe integers, from \<^verbatim>\<open>-(2^53 - 1)\<close> to \<^verbatim>\<open>2^53 - 1\<close>: each of them is a
  number of the language, two of them are equal as numbers exactly when they are
  equal as integers, and each prints as its decimal digits. A number with a
  fraction or of a larger magnitude is not represented.
\<close>

typedef safeInt = "{n :: int. \<bar>n\<bar> \<le> 9007199254740991}"
  by (rule exI[of _ 0]) simp

setup_lifting type_definition_safeInt

instantiation safeInt :: equal
begin

lift_definition equal_safeInt :: "safeInt \<Rightarrow> safeInt \<Rightarrow> bool" is "(=)" .

instance
  by standard (transfer, simp)

end

datatype jsval =
    JUndefined
  | JNull
  | JBool bool
  | JNum safeInt
  | JStr string
  | JArr "jsval list"
  | JObj "(string \<times> jsval) list"

text \<open>\<^verbatim>\<open>!v\<close> is \<open>\<not> truthy v\<close>.\<close>

fun truthy :: "jsval \<Rightarrow> bool" where
  "truthy JUndefined = False"
| "truthy JNull = False"
| "truthy (JBool b) = b"
| "truthy (JNum n) = (Rep_safeInt n \<noteq> 0)"
| "truthy (JStr s) = (s \<noteq> [])"
| "truthy (JArr xs) = True"
| "truthy (JObj kvs) = True"

text \<open>Reading a property of \<^verbatim>\<open>null\<close> or \<^verbatim>\<open>undefined\<close> throws a TypeError.\<close>

definition nullish :: "jsval \<Rightarrow> bool" where
  "nullish v = (v = JUndefined \<or> v = JNull)"

text \<open>
  \<^verbatim>\<open>v.k\<close> for a value that is not nullish. Only the own properties of an object are
  modelled: the property names the handler reads are never found on a string, a
  number or an array.
\<close>

fun getProp :: "jsval \<Rightarrow> string \<Rightarrow> jsval" where
  "getProp (JObj kvs) k = (case map_of kvs k of Some v \<Rightarrow> v | None \<Rightarrow> JUndefined)"
| "getProp v k = JUndefined"

text \<open>\<^verbatim>\<open>v.k = w\<close>: an existing key keeps its place, a new key goes last.\<close>

fun setProp :: "jsval \<Rightarrow> string \<Rightarrow> jsval \<Rightarrow> jsval" where
  "setProp (JObj kvs) k v = JObj (AList.update k v kvs)"
| "setProp w k v = w"

fun hasOwn :: "jsval \<Rightarrow> string \<Rightarrow> bool" where
  "hasOwn (JObj kvs) k = (map_of kvs k \<noteq> None)"
| "hasOwn v k = False"

text \<open>
  \<^verbatim>\<open>a === b\<close> between a value of the decoded blob and a value of the request: two
  objects or arrays of different origin are never the same reference.
\<close>

fun strictEq :: "jsval \<Rightarrow> jsval \<Rightarrow> bool" where
  "strictEq JUndefined JUndefined = True"
| "strictEq JNull JNull = True"
| "strictEq (JBool a) (JBool b) = (a = b)"
| "strictEq (JNum a) (JNum b) = (a = b)"
| "strictEq (JStr a) (JStr b) = (a = b)"
| "strictEq a b = False"

text \<open>\<^verbatim>\<open>xs.includes(v)\<close> for an array literal of strings.\<close>

definition arrayIncludes :: "jsval list \<Rightarrow> jsval \<Rightarrow> bool" where
  "arrayIncludes xs v = list_ex (\<lambda>x. strictEq x v) xs"

text \<open>\<^verbatim>\<open>a || b\<close>.\<close>

definition orElse :: "jsval \<Rightarrow> jsval \<Rightarrow> jsval" where
  "orElse a b = (if truthy a then a else b)"

definition digitChar :: "nat \<Rightarrow> char" where
  "digitChar d = ''0123456789'' ! d"

function decimal :: "nat \<Rightarrow> string" where
  "decimal n = (if n < 10 then [digitChar n] else decimal (n div 10) @ [digitChar (n mod 10)])"
  by pat_completeness auto
termination
  by (relation "measure (\<lambda>n. n)") auto

declare decimal.simps [simp del]

fun joinWith :: "string \<Rightarrow> string list \<Rightarrow> string" where
  "joinWith sep [] = []"
| "joinWith sep [x] = x"
| "joinWith sep (x # y # ys) = x @ sep @ joinWith sep (y # ys)"

definition showInt :: "int \<Rightarrow> string" where
  "showInt i = (if i < 0 then ''-'' @ decimal (nat (- i)) else decimal (nat i))"

text \<open>
  What the code throws: the object a request to GitHub is rejected with (a status
  code, a message, and \<^verbatim>\<open>details\<close> or \<^verbatim>\<open>errors\<close>), or a native error with the
  runtime's message.
\<close>

record rejection =
  statusCode :: nat
  message :: jsval
  details :: jsval
  errors :: jsval

datatype thrown =
    Rejected rejection
  | TypeError string
  | SyntaxError string

text \<open>The results of a list of steps run in order: the first failure, or all values.\<close>

fun collect :: "('e + 'a) list \<Rightarrow> 'e + 'a list" where
  "collect [] = Inr []"
| "collect (Inl e # rs) = Inl e"
| "collect (Inr a # rs) = (case collect rs of Inl e \<Rightarrow> Inl e | Inr as \<Rightarrow> Inr (a # as))"

definition cannotConvert :: thrown where
  "cannotConvert = TypeError ''Cannot convert object to primitive value''"

text \<open>
  The string a value turns into inside a template literal and as the argument of
  \<^verbatim>\<open>RegExp.prototype.test\<close>. An array joins its elements with a comma, a nullish
  element giving the empty string. An object goes through its \<^verbatim>\<open>toString\<close>: the
  inherited one gives \<^verbatim>\<open>[object Object]\<close>; an own property of that name is a value
  of a JSON text, so it cannot be called, and then neither can the conversion
  fall back on \<^verbatim>\<open>valueOf\<close>: a TypeError is thrown.
\<close>

fun toString :: "jsval \<Rightarrow> thrown + string" where
  "toString JUndefined = Inr ''undefined''"
| "toString JNull = Inr ''null''"
| "toString (JBool b) = Inr (if b then ''true'' else ''false'')"
| "toString (JNum n) = Inr (showInt (Rep_safeInt n))"
| "toString (JStr s) = Inr s"
| "toString (JArr xs) =
     (case collect (map (\<lambda>x. if x = JUndefined \<or> x = JNull then Inr [] else toString x) xs) of
        Inl e \<Rightarrow> Inl e
      | Inr parts \<Rightarrow> Inr (joinWith '','' parts))"
| "toString (JObj kvs) =
     (if map_of kvs ''toString'' = None then Inr ''[object Object]'' else Inl cannotConvert)"

section \<open>Time-of-day syntax and dates\<close>

definition isDigit :: "char \<Rightarrow> bool" where
  "isDigit c = (c \<in> set ''0123456789'')"

definition digitVal :: "char \<Rightarrow> nat" where
  "digitVal c = of_char c - 48"

text \<open>
  The regular expression \<^verbatim>\<open>/^([01]?[0-9]|2[0-3]):[0-5][0-9]$/\<close>. A match has four or
  five characters: the hour is one digit, or two digits from 00 to 23.
\<close>

definition timePattern :: "string \<Rightarrow> bool" where
  "timePattern s =
     (case s of
        [h, c, m1, m2] \<Rightarrow>
          isDigit h \<and> c = CHR '':'' \<and> m1 \<in> set ''012345'' \<and> isDigit m2
      | [h1, h2, c, m1, m2] \<Rightarrow>
          ((h1 \<in> set ''01'' \<and> isDigit h2) \<or> (h1 = CHR ''2'' \<and> h2 \<in> set ''0123''))
          \<and> c = CHR '':'' \<and> m1 \<in> set ''012345'' \<and> isDigit m2
      | _ \<Rightarrow> False)"

definition twoDigits :: "char \<Rightarrow> char \<Rightarrow> nat option" where
  "twoDigits a b =
     (if isDigit a \<and> isDigit b then Some (10 * digitVal a + digitVal b) else None)"

text \<open>
  \<^verbatim>\<open>new Date("1970-01-01T" + t)\<close> on Node.js. After the date and the \<^verbatim>\<open>T\<close> the
  runtime reads the ECMAScript date-time format and nothing else:
  \<^verbatim>\<open>HH:mm\<close>, \<^verbatim>\<open>HH:mm:ss\<close> or \<^verbatim>\<open>HH:mm:ss.f\<close> (one or more fraction digits, the first
  three count), then nothing, \<^verbatim>\<open>Z\<close> or an offset \<^verbatim>\<open>+HH:mm\<close>, \<^verbatim>\<open>-HH:mm\<close>. The hour is
  00 to 24, and 24 only as 24:00:00.000. Any other text gives an invalid date,
  \<open>None\<close> here.
\<close>

definition parseOffset :: "string \<Rightarrow> int option option" where
  "parseOffset t =
     (case t of
        [] \<Rightarrow> Some None
      | [z] \<Rightarrow> (if z = CHR ''Z'' then Some (Some 0) else None)
      | [sg, a, b, c, d, e] \<Rightarrow>
          (if (sg = CHR ''+'' \<or> sg = CHR ''-'') \<and> c = CHR '':'' then
             (case (twoDigits a b, twoDigits d e) of
                (Some h, Some m) \<Rightarrow>
                  (if h \<le> 23 \<and> m \<le> 59 then
                     Some (Some ((if sg = CHR ''-'' then - 1 else 1) * int (h * 60 + m)))
                   else None)
              | _ \<Rightarrow> None)
           else None)
      | _ \<Rightarrow> None)"

definition fractionMs :: "string \<Rightarrow> nat" where
  "fractionMs ds =
     (case map digitVal (take 3 ds) of
        [a] \<Rightarrow> 100 * a
      | [a, b] \<Rightarrow> 100 * a + 10 * b
      | [a, b, c] \<Rightarrow> 100 * a + 10 * b + c
      | _ \<Rightarrow> 0)"

definition finishTime ::
  "nat \<Rightarrow> nat \<Rightarrow> nat \<Rightarrow> nat \<Rightarrow> string \<Rightarrow> (nat \<times> int option) option" where
  "finishTime h m s ms t =
     (if h = 24 \<and> (m \<noteq> 0 \<or> s \<noteq> 0 \<or> ms \<noteq> 0) then None
      else (case parseOffset t of
              None \<Rightarrow> None
            | Some off \<Rightarrow> Some (((h * 60 + m) * 60 + s) * 1000 + ms, off)))"

text \<open>The milliseconds since midnight and the explicit offset in minutes, if any.\<close>

definition parseTimePart :: "string \<Rightarrow> (nat \<times> int option) option" where
  "parseTimePart t =
     (case t of
        a # b # c # d # e # rest \<Rightarrow>
          (case (twoDigits a b, twoDigits d e) of
             (Some h, Some m) \<Rightarrow>
               (if c = CHR '':'' \<and> h \<le> 24 \<and> m \<le> 59 then
                  (case rest of
                     f # rest1 \<Rightarrow>
                       (if f = CHR '':'' then
                          (case rest1 of
                             s1 # s2 # rest2 \<Rightarrow>
                               (case twoDigits s1 s2 of
                                  Some s \<Rightarrow>
                                    (if s \<le> 59 then
                                       (case rest2 of
                                          g # rest3 \<Rightarrow>
                                            (if g = CHR ''.'' then
                                               (let ds = takeWhile isDigit rest3 in
                                                if ds = [] then None
                                                else finishTime h m s (fractionMs ds)
                                                       (dropWhile isDigit rest3))
                                             else finishTime h m s 0 rest2)
                                        | [] \<Rightarrow> finishTime h m s 0 [])
                                     else None)
                                | None \<Rightarrow> None)
                           | _ \<Rightarrow> None)
                        else finishTime h m 0 0 rest)
                   | [] \<Rightarrow> finishTime h m 0 0 [])
                else None)
           | _ \<Rightarrow> None)
      | _ \<Rightarrow> None)"

text \<open>
  The time value of the date in milliseconds, counted from 1970-01-01T00:00Z. A
  text with no offset is local time: \<open>tz\<close> is the offset of the process's time
  zone on that day, in milliseconds east of UTC. An explicit offset is in
  minutes.
\<close>

definition newDate1970 :: "int \<Rightarrow> string \<Rightarrow> int option" where
  "newDate1970 tz t =
     (case parseTimePart t of
        None \<Rightarrow> None
      | Some (ms, off) \<Rightarrow>
          Some (int ms - (case off of None \<Rightarrow> tz | Some explicit \<Rightarrow> 60000 * explicit)))"

text \<open>\<^verbatim>\<open>a <= b\<close> on two dates: false as soon as one of them is invalid (NaN).\<close>

definition dateLe :: "int option \<Rightarrow> int option \<Rightarrow> bool" where
  "dateLe a b = (case (a, b) of (Some x, Some y) \<Rightarrow> x \<le> y | _ \<Rightarrow> False)"

section \<open>Validation\<close>

definition msgClass :: string where
  "msgClass = ''Kelas harus diisi dan harus '' @ [CHR 0x27] @ ''XI A'' @ [CHR 0x27]
                @ '' atau '' @ [CHR 0x27] @ ''XI B'' @ [CHR 0x27]"

definition msgDay :: string where
  "msgDay = ''Hari harus diisi dan harus Senin, Selasa, Rabu, Kamis, atau Jumat''"

definition msgSubject :: string where
  "msgSubject = ''Mata pelajaran wajib diisi''"

definition msgTeacher :: string where
  "msgTeacher = ''Nama guru wajib diisi''"

definition msgStart :: string where
  "msgStart = ''Waktu mulai harus diisi dengan format HH:mm''"

definition msgEnd :: string where
  "msgEnd = ''Waktu selesai harus diisi dengan format HH:mm''"

definition msgOrder :: string where
  "msgOrder = ''Waktu selesai harus setelah waktu mulai''"

definition nullishName :: "jsval \<Rightarrow> string" where
  "nullishName v = (if v = JNull then ''null'' else ''undefined'')"

definition cannotRead :: "jsval \<Rightarrow> string \<Rightarrow> thrown" where
  "cannotRead v k =
     TypeError (''Cannot read properties of '' @ nullishName v @ '' (reading ''
                @ [CHR 0x27] @ k @ [CHR 0x27] @ '')'')"

definition cannotDestructure :: "jsval \<Rightarrow> string \<Rightarrow> thrown" where
  "cannotDestructure v k =
     TypeError (''Cannot destructure property '' @ [CHR 0x27] @ k @ [CHR 0x27]
                @ '' of '' @ [CHR 0x27] @ ''req.query'' @ [CHR 0x27] @ '' as it is ''
                @ nullishName v @ ''.'')"

text \<open>The conditions of the four \<^verbatim>\<open>if\<close> statements that look at one field and cannot throw.\<close>

definition classInvalid :: "jsval \<Rightarrow> bool" where
  "classInvalid schedule =
     (\<not> truthy (getProp schedule ''class'')
      \<or> \<not> arrayIncludes [JStr ''XI A'', JStr ''XI B''] (getProp schedule ''class''))"

definition dayInvalid :: "jsval \<Rightarrow> bool" where
  "dayInvalid schedule =
     (\<not> truthy (getProp schedule ''day'')
      \<or> \<not> arrayIncludes [JStr ''Senin'', JStr ''Selasa'', JStr ''Rabu'', JStr ''Kamis'',
                          JStr ''Jumat''] (getProp schedule ''day''))"

definition subjectInvalid :: "jsval \<Rightarrow> bool" where
  "subjectInvalid schedule = (\<not> truthy (getProp schedule ''subject''))"

definition teacherInvalid :: "jsval \<Rightarrow> bool" where
  "teacherInvalid schedule = (\<not> truthy (getProp schedule ''teacher''))"

text \<open>
  The conditions on the two times. \<^verbatim>\<open>test\<close> turns its argument into a string first,
  which throws for a value that has no string.
\<close>

definition startTimeInvalid :: "jsval \<Rightarrow> thrown + bool" where
  "startTimeInvalid schedule =
     (if \<not> truthy (getProp schedule ''startTime'') then Inr True
      else (case toString (getProp schedule ''startTime'') of
              Inl e \<Rightarrow> Inl e
            | Inr s \<Rightarrow> Inr (\<not> timePattern s)))"

definition endTimeInvalid :: "jsval \<Rightarrow> thrown + bool" where
  "endTimeInvalid schedule =
     (if \<not> truthy (getProp schedule ''endTime'') then Inr True
      else (case toString (getProp schedule ''endTime'') of
              Inl e \<Rightarrow> Inl e
            | Inr s \<Rightarrow> Inr (\<not> timePattern s)))"

text \<open>
  The seventh check: both times are given, and the end, read as a date, is not
  after the start.
\<close>

definition orderInvalid :: "int \<Rightarrow> jsval \<Rightarrow> thrown + bool" where
  "orderInvalid tz schedule =
     (if truthy (getProp schedule ''startTime'') \<and> truthy (getProp schedule ''endTime'') then
        (case toString (getProp schedule ''startTime'') of
           Inl e \<Rightarrow> Inl e
         | Inr s \<Rightarrow>
             (case toString (getProp schedule ''endTime'') of
                Inl e \<Rightarrow> Inl e
              | Inr f \<Rightarrow>
                  (let start = newDate1970 tz (s @ '':00'');
                       finish = newDate1970 tz (f @ '':00'')
                   in Inr (dateLe finish start))))
      else Inr False)"

text \<open>
  \<^verbatim>\<open>validateSchedule(schedule)\<close>. The first property read throws when the argument
  is nullish; otherwise the seven checks run one after the other, each pushing
  its message, unless one of the last three throws.
\<close>

definition validateSchedule :: "int \<Rightarrow> jsval \<Rightarrow> thrown + string list" where
  "validateSchedule tz schedule =
    (if nullish schedule then Inl (cannotRead schedule ''class'')
     else
      (let errors = [];
           errors = (if classInvalid schedule then errors @ [msgClass] else errors);
           errors = (if dayInvalid schedule then errors @ [msgDay] else errors);
           errors = (if subjectInvalid schedule then errors @ [msgSubject] else errors);
           errors = (if teacherInvalid schedule then errors @ [msgTeacher] else errors)
       in case startTimeInvalid schedule of
            Inl e \<Rightarrow> Inl e
          | Inr badStart \<Rightarrow>
              (let errors = (if badStart then errors @ [msgStart] else errors)
               in case endTimeInvalid schedule of
                    Inl e \<Rightarrow> Inl e
                  | Inr badEnd \<Rightarrow>
                      (let errors = (if badEnd then errors @ [msgEnd] else errors)
                       in case orderInvalid tz schedule of
                            Inl e \<Rightarrow> Inl e
                          | Inr badOrder \<Rightarrow>
                              Inr (if badOrder then errors @ [msgOrder] else errors)))))"

section \<open>Requests to the blob store\<close>

text \<open>
  One HTTPS request to \<^verbatim>\<open>api.github.com\<close>: the path, the method, the headers, and
  the \<^verbatim>\<open>data\<close> object whose JSON text is written as the request body when it is
  given.
\<close>

record apiCall =
  apiPath :: string
  apiMethod :: string
  apiHeaders :: "(string \<times> string) list"
  apiData :: "jsval option"

text \<open>
  What comes back: a response (status code, \<^verbatim>\<open>content-type\<close> header, body text),
  or the \<^verbatim>\<open>error\<close> event with its message.
\<close>

datatype httpOutcome =
    HttpResponse nat "string option" string
  | NetworkError string

text \<open>
  A computation that talks to the store: it is done, or it sends a request and
  goes on with whatever comes back. Every \<^verbatim>\<open>await githubRequest(...)\<close> of the
  source is one \<open>Request\<close> node.
\<close>

datatype 'a io =
    Done 'a
  | Request apiCall "httpOutcome \<Rightarrow> 'a io"

primrec andThen :: "'a io \<Rightarrow> ('a \<Rightarrow> 'b io) \<Rightarrow> 'b io" where
  "andThen (Done a) f = f a"
| "andThen (Request c k) f = Request c (\<lambda>out. andThen (k out) f)"

text \<open>
  Running a computation against the answers of the store, in order: the requests
  sent, and the result if the answers sufficed.
\<close>

primrec runIO :: "'a io \<Rightarrow> httpOutcome list \<Rightarrow> apiCall list \<times> 'a option" where
  "runIO (Done a) = (\<lambda>outs. ([], Some a))"
| "runIO (Request c k) =
     (\<lambda>outs. case outs of
               [] \<Rightarrow> ([c], None)
             | out # rest \<Rightarrow> (case runIO (k out) rest of (cs, r) \<Rightarrow> (c # cs, r)))"

text \<open>
  The process and the runtime library: the \<^verbatim>\<open>GITHUB_TOKEN\<close> variable,
  \<^verbatim>\<open>Date.now()\<close> (a count of milliseconds, far below the 21 digits up to which a
  number prints in full), the text \<^verbatim>\<open>Math.random().toString(36).substr(2, 9)\<close>, the
  offset of the local time zone on 1970-01-01 in milliseconds,
  \<^verbatim>\<open>JSON.parse\<close>, \<^verbatim>\<open>JSON.stringify(v, null, 2)\<close>,
  \<^verbatim>\<open>Buffer.from(text).toString("base64")\<close> and
  \<^verbatim>\<open>Buffer.from(v, "base64").toString("utf8")\<close>.
\<close>

record env =
  TOKEN :: "string option"
  dateNow :: nat
  randomSuffix :: string
  tzOffset :: int
  jsonParse :: "string \<Rightarrow> thrown + jsval"
  jsonStringify :: "jsval \<Rightarrow> string"
  base64Encode :: "string \<Rightarrow> string"
  base64Decode :: "jsval \<Rightarrow> thrown + string"

definition errorMessage :: "thrown \<Rightarrow> jsval" where
  "errorMessage e =
     (case e of Rejected r \<Rightarrow> message r | TypeError m \<Rightarrow> JStr m | SyntaxError m \<Rightarrow> JStr m)"

definition REPO :: string where
  "REPO = ''klandestin-s/api-school.man3''"

definition FILEPATH :: string where
  "FILEPATH = ''jadwal.json''"

definition BRANCH :: string where
  "BRANCH = ''main''"

definition parseErrorRejection :: "thrown \<Rightarrow> thrown" where
  "parseErrorRejection e =
     Rejected \<lparr>statusCode = 500, message = JStr ''JSON parse error'',
               details = errorMessage e, errors = JUndefined\<rparr>"

text \<open>
  The \<^verbatim>\<open>end\<close> callback of \<^verbatim>\<open>githubRequest\<close> in \<^verbatim>\<open>api/jadwal.js\<close>: the promise is
  resolved (\<open>Inr\<close>) or rejected (\<open>Inl\<close>). Whatever the \<^verbatim>\<open>try\<close> block throws is
  rejected as a JSON parse error.
\<close>

definition onEnd :: "env \<Rightarrow> nat \<Rightarrow> string \<Rightarrow> thrown + jsval" where
  "onEnd env status body =
     (case jsonParse env (if body = [] then ''{}'' else body) of
        Inl e \<Rightarrow> Inl (parseErrorRejection e)
      | Inr json \<Rightarrow>
          (if 200 \<le> status \<and> status < 300 then Inr json
           else if nullish json then Inl (parseErrorRejection (cannotRead json ''message''))
           else Inl (Rejected
                  \<lparr>statusCode = status,
                   message = orElse (getProp json ''message'')
                               (JStr (''GitHub API error: '' @ decimal status)),
                   details = JUndefined,
                   errors = getProp json ''errors''\<rparr>)))"

definition onError :: "string \<Rightarrow> thrown" where
  "onError msg =
     Rejected \<lparr>statusCode = 500, message = JStr ''Network error'',
               details = JStr msg, errors = JUndefined\<rparr>"

definition settle :: "env \<Rightarrow> httpOutcome \<Rightarrow> thrown + jsval" where
  "settle env out =
     (case out of
        HttpResponse status ctype body \<Rightarrow> onEnd env status body
      | NetworkError msg \<Rightarrow> Inl (onError msg))"

definition requestOptions :: "env \<Rightarrow> string \<Rightarrow> string \<Rightarrow> jsval option \<Rightarrow> apiCall" where
  "requestOptions env path method data =
     \<lparr>apiPath = path, apiMethod = method,
      apiHeaders =
        [(''User-Agent'', ''Vercel-App''),
         (''Authorization'',
            ''token '' @ (case TOKEN env of Some t \<Rightarrow> t | None \<Rightarrow> ''undefined'')),
         (''Accept'', ''application/vnd.github.v3+json''),
         (''Content-Type'', ''application/json'')],
      apiData = data\<rparr>"

definition githubRequest ::
  "env \<Rightarrow> string \<Rightarrow> string \<Rightarrow> jsval option \<Rightarrow> (thrown + jsval) io" where
  "githubRequest env path method data =
     Request (requestOptions env path method data) (\<lambda>out. Done (settle env out))"

text \<open>The same callback in the second source file: no look at the status code.\<close>

fun isInfixOf :: "string \<Rightarrow> string \<Rightarrow> bool" where
  "isInfixOf p [] = (p = [])"
| "isInfixOf p (c # cs) = (take (length p) (c # cs) = p \<or> isInfixOf p cs)"

definition onEnd_part000 :: "env \<Rightarrow> string option \<Rightarrow> string \<Rightarrow> thrown + jsval" where
  "onEnd_part000 env ctype body =
     (case ctype of
        None \<Rightarrow> Inl (parseErrorRejection (cannotRead JUndefined ''includes''))
      | Some ct \<Rightarrow>
          (if isInfixOf ''application/json'' ct then
             (case jsonParse env (if body = [] then ''{}'' else body) of
                Inl e \<Rightarrow> Inl (parseErrorRejection e)
              | Inr json \<Rightarrow> Inr json)
           else Inr (JStr body)))"

definition settle_part000 :: "env \<Rightarrow> httpOutcome \<Rightarrow> thrown + jsval" where
  "settle_part000 env out =
     (case out of
        HttpResponse status ctype body \<Rightarrow> onEnd_part000 env ctype body
      | NetworkError msg \<Rightarrow> Inl (onError msg))"

definition githubRequest_part000 ::
  "env \<Rightarrow> string \<Rightarrow> string \<Rightarrow> jsval option \<Rightarrow> (thrown + jsval) io" where
  "githubRequest_part000 env path method data =
     Request (requestOptions env path method data) (\<lambda>out. Done (settle_part000 env out))"

section \<open>Reading the blob\<close>

record snapshot =
  schedules :: jsval
  sha :: jsval

definition emptySnapshot :: snapshot where
  "emptySnapshot = \<lparr>schedules = JArr [], sha = JNull\<rparr>"

text \<open>The \<^verbatim>\<open>try\<close> block of \<^verbatim>\<open>getCurrentSchedules\<close> once the request has resolved.\<close>

definition readFile :: "env \<Rightarrow> jsval \<Rightarrow> thrown + snapshot" where
  "readFile env fileData =
     (if nullish fileData then Inl (cannotRead fileData ''content'')
      else if \<not> truthy (getProp fileData ''content'') then Inr emptySnapshot
      else (case base64Decode env (getProp fileData ''content'') of
              Inl e \<Rightarrow> Inl e
            | Inr content \<Rightarrow>
                (case jsonParse env content of
                   Inl e \<Rightarrow> Inl e
                 | Inr v \<Rightarrow> Inr \<lparr>schedules = v, sha = getProp fileData ''sha''\<rparr>)))"

text \<open>The \<^verbatim>\<open>catch\<close> block: a rejection with status 404 is the empty snapshot.\<close>

definition catchNotFound :: "thrown \<Rightarrow> thrown + snapshot" where
  "catchNotFound error =
     (case error of
        Rejected r \<Rightarrow> (if statusCode r = 404 then Inr emptySnapshot else Inl error)
      | _ \<Rightarrow> Inl error)"

definition snapshotOf :: "env \<Rightarrow> thrown + jsval \<Rightarrow> thrown + snapshot" where
  "snapshotOf env settled =
     (case settled of
        Inl e \<Rightarrow> catchNotFound e
      | Inr fileData \<Rightarrow>
          (case readFile env fileData of Inl e \<Rightarrow> catchNotFound e | Inr s \<Rightarrow> Inr s))"

definition getPath :: string where
  "getPath = ''/repos/'' @ REPO @ ''/contents/'' @ FILEPATH @ ''?ref='' @ BRANCH"

definition putPath :: string where
  "putPath = ''/repos/'' @ REPO @ ''/contents/'' @ FILEPATH"

definition getCurrentSchedules :: "env \<Rightarrow> (thrown + snapshot) io" where
  "getCurrentSchedules env =
     andThen (githubRequest env getPath ''GET'' None) (\<lambda>settled. Done (snapshotOf env settled))"

definition snapshotOf_part000 :: "env \<Rightarrow> thrown + jsval \<Rightarrow> thrown + snapshot" where
  "snapshotOf_part000 env settled =
     (case settled of
        Inl e \<Rightarrow> catchNotFound e
      | Inr fileData \<Rightarrow>
          (case fileData of
             JStr text \<Rightarrow> Inr emptySnapshot
           | _ \<Rightarrow> (case readFile env fileData of Inl e \<Rightarrow> catchNotFound e | Inr s \<Rightarrow> Inr s)))"

definition getCurrentSchedules_part000 :: "env \<Rightarrow> (thrown + snapshot) io" where
  "getCurrentSchedules_part000 env =
     andThen (githubRequest_part000 env getPath ''GET'' None)
       (\<lambda>settled. Done (snapshotOf_part000 env settled))"

text \<open>What a fresh read returns when the store answers \<open>out\<close>.\<close>

definition readResult :: "env \<Rightarrow> httpOutcome \<Rightarrow> thrown + snapshot" where
  "readResult env out = snapshotOf env (settle env out)"

definition readResult_part000 :: "env \<Rightarrow> httpOutcome \<Rightarrow> thrown + snapshot" where
  "readResult_part000 env out = snapshotOf_part000 env (settle_part000 env out)"

section \<open>The handler\<close>

record request =
  httpMethod :: string
  reqBody :: jsval
  reqQuery :: jsval

text \<open>
  The response: \<^verbatim>\<open>res.status(n).json(v)\<close>, or \<^verbatim>\<open>res.status(n).end()\<close> with nothing
  sent. The three CORS headers are set on every response and are left out.
\<close>

record httpResponse =
  status :: nat
  sent :: "jsval option"

definition jsonResponse :: "nat \<Rightarrow> jsval \<Rightarrow> httpResponse" where
  "jsonResponse n v = \<lparr>status = n, sent = Some v\<rparr>"

definition errorReply :: "string \<Rightarrow> jsval" where
  "errorReply msg = JObj [(''error'', JStr msg)]"

text \<open>The outer \<^verbatim>\<open>catch\<close> block of the handler.\<close>

definition catchAll :: "thrown \<Rightarrow> httpResponse" where
  "catchAll error =
     jsonResponse
       (case error of
          Rejected r \<Rightarrow> (if statusCode r \<noteq> 0 then statusCode r else 500)
        | _ \<Rightarrow> 500)
       (JObj
         [(''error'', orElse (errorMessage error) (JStr ''Internal server error'')),
          (''details'',
             orElse
               (case error of
                  Rejected r \<Rightarrow> orElse (details r) (errors r)
                | _ \<Rightarrow> JUndefined)
               (JStr ''No additional details''))])"

definition generateScheduleId :: "env \<Rightarrow> string" where
  "generateScheduleId env = ''jadwal_'' @ decimal (dateNow env) @ ''_'' @ randomSuffix env"

text \<open>\<^verbatim>\<open>updateGitHubFile(schedules, message, sha)\<close>.\<close>

definition updatePayload :: "env \<Rightarrow> jsval list \<Rightarrow> string \<Rightarrow> jsval \<Rightarrow> jsval" where
  "updatePayload env scheds msg token =
     (let payload =
            JObj [(''message'', JStr msg),
                  (''content'', JStr (base64Encode env (jsonStringify env (JArr scheds)))),
                  (''branch'', JStr BRANCH)]
      in if truthy token then setProp payload ''sha'' token else payload)"

definition updateGitHubFile ::
  "env \<Rightarrow> jsval list \<Rightarrow> string \<Rightarrow> jsval \<Rightarrow> (thrown + jsval) io" where
  "updateGitHubFile env scheds msg token =
     githubRequest env putPath ''PUT'' (Some (updatePayload env scheds msg token))"

text \<open>\<^verbatim>\<open>[...schedules]\<close>: an array gives its elements, a string its characters.\<close>

definition spread :: "jsval \<Rightarrow> thrown + jsval list" where
  "spread v =
     (case v of
        JArr xs \<Rightarrow> Inr xs
      | JStr s \<Rightarrow> Inr (map (\<lambda>c. JStr [c]) s)
      | _ \<Rightarrow> Inl (TypeError ''schedules is not iterable''))"

text \<open>
  \<^verbatim>\<open>xs.findIndex((s) => s.id === id)\<close>: the first index that matches, \<open>None\<close> for
  \<^verbatim>\<open>-1\<close>; a nullish element met on the way throws. \<open>sameId\<close> is the arrow function
  on an element that is not nullish.
\<close>

definition sameId :: "jsval \<Rightarrow> jsval \<Rightarrow> bool" where
  "sameId ident s = strictEq (getProp s ''id'') ident"

fun findIndexById :: "jsval \<Rightarrow> jsval list \<Rightarrow> thrown + nat option" where
  "findIndexById ident [] = Inr None"
| "findIndexById ident (s # rest) =
     (if nullish s then Inl (cannotRead s ''id'')
      else if sameId ident s then Inr (Some 0)
      else (case findIndexById ident rest of
              Inl e \<Rightarrow> Inl e
            | Inr None \<Rightarrow> Inr None
            | Inr (Some i) \<Rightarrow> Inr (Some (Suc i))))"

text \<open>The same on the decoded blob, which need not be an array.\<close>

definition findIndex :: "jsval \<Rightarrow> jsval \<Rightarrow> thrown + (jsval list \<times> nat option)" where
  "findIndex v ident =
     (case v of
        JArr xs \<Rightarrow>
          (case findIndexById ident xs of Inl e \<Rightarrow> Inl e | Inr r \<Rightarrow> Inr (xs, r))
      | _ \<Rightarrow>
          (if nullish v then Inl (cannotRead v ''findIndex'')
           else Inl (TypeError ''schedules.findIndex is not a function'')))"

text \<open>
  The template literal of the commit message: the verb, then the subject and the
  class of the record, each turned into a string.
\<close>

definition commitMessage :: "string \<Rightarrow> jsval \<Rightarrow> thrown + string" where
  "commitMessage verb schedule =
     (case toString (getProp schedule ''subject'') of
        Inl e \<Rightarrow> Inl e
      | Inr subject \<Rightarrow>
          (case toString (getProp schedule ''class'') of
             Inl e \<Rightarrow> Inl e
           | Inr cls \<Rightarrow> Inr (verb @ '' jadwal: '' @ subject @ '' untuk '' @ cls)))"

definition successReply :: "string \<Rightarrow> jsval \<Rightarrow> jsval" where
  "successReply msg schedule =
     JObj [(''success'', JBool True), (''message'', JStr msg), (''schedule'', schedule)]"

text \<open>
  Each branch returns the request body as the call leaves it, and the response.
  An exception anywhere inside the \<^verbatim>\<open>try\<close> block ends in \<open>catchAll\<close>.
\<close>

definition handleGet :: "env \<Rightarrow> jsval \<Rightarrow> (jsval \<times> httpResponse) io" where
  "handleGet env body =
     andThen (getCurrentSchedules env)
       (\<lambda>r. case r of
               Inl e \<Rightarrow> Done (body, catchAll e)
             | Inr snap \<Rightarrow> Done (body, jsonResponse 200 (orElse (schedules snap) (JArr []))))"

definition handlePost :: "env \<Rightarrow> jsval \<Rightarrow> (jsval \<times> httpResponse) io" where
  "handlePost env newSchedule =
     (case validateSchedule (tzOffset env) newSchedule of
        Inl e \<Rightarrow> Done (newSchedule, catchAll e)
      | Inr errs \<Rightarrow>
          (if length errs > 0 then
             Done (newSchedule, jsonResponse 400 (errorReply (joinWith '', '' errs)))
           else
             (let newSchedule = setProp newSchedule ''id'' (JStr (generateScheduleId env)) in
              andThen (getCurrentSchedules env)
                (\<lambda>r. case r of
                        Inl e \<Rightarrow> Done (newSchedule, catchAll e)
                      | Inr snap \<Rightarrow>
                          (case spread (schedules snap) of
                             Inl e \<Rightarrow> Done (newSchedule, catchAll e)
                           | Inr xs \<Rightarrow>
                               (let updatedSchedules = xs @ [newSchedule] in
                                case commitMessage ''Tambah'' newSchedule of
                                  Inl e \<Rightarrow> Done (newSchedule, catchAll e)
                                | Inr msg \<Rightarrow>
                                    andThen (updateGitHubFile env updatedSchedules msg (sha snap))
                                      (\<lambda>w. case w of
                                              Inl e \<Rightarrow> Done (newSchedule, catchAll e)
                                            | Inr ok \<Rightarrow>
                                                Done (newSchedule,
                                                      jsonResponse 201
                                                        (successReply
                                                           ''Jadwal berhasil ditambahkan''
                                                           newSchedule)))))))))"

definition handlePut :: "env \<Rightarrow> jsval \<Rightarrow> (jsval \<times> httpResponse) io" where
  "handlePut env updatedSchedule =
     (if nullish updatedSchedule then
        Done (updatedSchedule, catchAll (cannotRead updatedSchedule ''id''))
      else if \<not> truthy (getProp updatedSchedule ''id'') then
        Done (updatedSchedule, jsonResponse 400 (errorReply ''ID jadwal wajib diisi''))
      else
        (case validateSchedule (tzOffset env) updatedSchedule of
           Inl e \<Rightarrow> Done (updatedSchedule, catchAll e)
         | Inr errs \<Rightarrow>
             (if length errs > 0 then
                Done (updatedSchedule, jsonResponse 400 (errorReply (joinWith '', '' errs)))
              else
                andThen (getCurrentSchedules env)
                  (\<lambda>r. case r of
                          Inl e \<Rightarrow> Done (updatedSchedule, catchAll e)
                        | Inr snap \<Rightarrow>
                            (case findIndex (schedules snap)
                                    (getProp updatedSchedule ''id'') of
                               Inl e \<Rightarrow> Done (updatedSchedule, catchAll e)
                             | Inr (xs, None) \<Rightarrow>
                                 Done (updatedSchedule,
                                       jsonResponse 404 (errorReply ''Jadwal tidak ditemukan''))
                             | Inr (xs, Some scheduleIndex) \<Rightarrow>
                                 (case commitMessage ''Update'' updatedSchedule of
                                    Inl e \<Rightarrow> Done (updatedSchedule, catchAll e)
                                  | Inr msg \<Rightarrow>
                                      andThen
                                        (updateGitHubFile env (xs[scheduleIndex := updatedSchedule])
                                           msg (sha snap))
                                        (\<lambda>w. case w of
                                                Inl e \<Rightarrow> Done (updatedSchedule, catchAll e)
                                              | Inr ok \<Rightarrow>
                                                  Done (updatedSchedule,
                                                        jsonResponse 200
                                                          (successReply
                                                             ''Jadwal berhasil diperbarui''
                                                             updatedSchedule)))))))))"

definition handleDelete :: "env \<Rightarrow> jsval \<Rightarrow> jsval \<Rightarrow> (jsval \<times> httpResponse) io" where
  "handleDelete env body query =
     (if nullish query then Done (body, catchAll (cannotDestructure query ''id''))
      else
        (let ident = getProp query ''id'' in
         if \<not> truthy ident then
           Done (body, jsonResponse 400 (errorReply ''ID jadwal wajib diisi''))
         else
           andThen (getCurrentSchedules env)
             (\<lambda>r. case r of
                     Inl e \<Rightarrow> Done (body, catchAll e)
                   | Inr snap \<Rightarrow>
                       (case findIndex (schedules snap) ident of
                          Inl e \<Rightarrow> Done (body, catchAll e)
                        | Inr (xs, None) \<Rightarrow>
                            Done (body, jsonResponse 404 (errorReply ''Jadwal tidak ditemukan''))
                        | Inr (xs, Some scheduleIndex) \<Rightarrow>
                            (let deletedSchedule = xs ! scheduleIndex;
                                 remaining = take scheduleIndex xs @ drop (Suc scheduleIndex) xs
                             in case commitMessage ''Hapus'' deletedSchedule of
                                  Inl e \<Rightarrow> Done (body, catchAll e)
                                | Inr msg \<Rightarrow>
                                    andThen (updateGitHubFile env remaining msg (sha snap))
                                      (\<lambda>w. case w of
                                              Inl e \<Rightarrow> Done (body, catchAll e)
                                            | Inr ok \<Rightarrow>
                                                Done (body,
                                                      jsonResponse 200
                                                        (successReply ''Jadwal berhasil dihapus''
                                                           deletedSchedule))))))))"

definition handler :: "env \<Rightarrow> request \<Rightarrow> (jsval \<times> httpResponse) io" where
  "handler env req =
     (if httpMethod req = ''OPTIONS'' then Done (reqBody req, \<lparr>status = 200, sent = None\<rparr>)
      else if TOKEN env = None \<or> TOKEN env = Some [] then
        Done (reqBody req,
              jsonResponse 500
                (errorReply ''Missing GitHub token. Set GITHUB_TOKEN environment variable.''))
      else if httpMethod req = ''GET'' then handleGet env (reqBody req)
      else if httpMethod req = ''POST'' then handlePost env (reqBody req)
      else if httpMethod req = ''PUT'' then handlePut env (reqBody req)
      else if httpMethod req = ''DELETE'' then handleDelete env (reqBody req) (reqQuery req)
      else
        Done (reqBody req,
              jsonResponse 405
                (errorReply
                   ''Method not allowed. Supported methods: GET, POST, PUT, DELETE'')))"

section \<open>Clock texts\<close>

text \<open>
  The text of an hour and a minute: \<open>hhmm 9 5\<close> is \<^verbatim>\<open>09:05\<close>, and \<open>hmm 9 5\<close> is \<^verbatim>\<open>9:05\<close>,
  the hour without its leading zero.
\<close>

definition pad2 :: "nat \<Rightarrow> string" where
  "pad2 n = [digitChar (n div 10), digitChar (n mod 10)]"

definition hhmm :: "nat \<Rightarrow> nat \<Rightarrow> string" where
  "hhmm h m = pad2 h @ '':'' @ pad2 m"

definition hmm :: "nat \<Rightarrow> nat \<Rightarrow> string" where
  "hmm h m = digitChar h # '':'' @ pad2 m"

text \<open>
  The form the specification words for a time: two-digit \<^verbatim>\<open>HH:MM\<close>, hours 00 to
  23, minutes 00 to 59.
\<close>

definition twoDigitTime :: "string \<Rightarrow> bool" where
  "twoDigitTime t =
     (case t of
        [a, b, c, d, e] \<Rightarrow>
          isDigit a \<and> isDigit b \<and> c = CHR '':'' \<and> isDigit d \<and> isDigit e
          \<and> 10 * digitVal a + digitVal b \<le> 23 \<and> 10 * digitVal d + digitVal e \<le> 59
      | _ \<Rightarrow> False)"

section \<open>Texts of the data model\<close>

text \<open>
  A field of a schedule record as the data model has it: a text, or missing.
\<close>

definition field :: "string option \<Rightarrow> jsval" where
  "field t = (case t of None \<Rightarrow> JUndefined | Some s \<Rightarrow> JStr s)"

text \<open>A value that can be turned into a string without an exception.\<close>

definition printable :: "jsval \<Rightarrow> bool" where
  "printable v = (case toString v of Inl e \<Rightarrow> False | Inr s \<Rightarrow> True)"

section \<open>Sample values\<close>

text \<open>A record that is valid but for its two times, which are given.\<close>

definition scheduleAt :: "string \<Rightarrow> string \<Rightarrow> jsval" where
  "scheduleAt start finish =
     JObj [(''class'', JStr ''XI A''), (''day'', JStr ''Senin''),
           (''subject'', JStr ''Matematika''), (''teacher'', JStr ''Bu Sari''),
           (''startTime'', JStr start), (''endTime'', JStr finish)]"

text \<open>A record that breaks four rules at once.\<close>

definition badSchedule :: jsval where
  "badSchedule =
     JObj [(''class'', JStr ''XI C''), (''day'', JStr ''Minggu''),
           (''subject'', JStr []), (''teacher'', JStr ''Bu Sari''),
           (''startTime'', JStr ''10:00''), (''endTime'', JStr ''09:00'')]"

text \<open>
  A sample runtime for the examples. Its \<^verbatim>\<open>JSON.stringify\<close> writes compact JSON (the
  sample strings need no escapes). Its \<^verbatim>\<open>JSON.parse\<close> is a table: it reads back the
  texts of the values listed in \<open>knownValues\<close>, and it rejects every other text
  with the message V8 has for a text that is wrong at its first character, as an
  HTML page is. Its base64 is a marker in front of the text.
\<close>

definition quoted :: "string \<Rightarrow> string" where
  "quoted s = CHR 0x22 # s @ [CHR 0x22]"

fun render :: "jsval \<Rightarrow> string" where
  "render JUndefined = ''undefined''"
| "render JNull = ''null''"
| "render (JBool b) = (if b then ''true'' else ''false'')"
| "render (JNum n) = showInt (Rep_safeInt n)"
| "render (JStr s) = quoted s"
| "render (JArr xs) = ''['' @ joinWith '','' (map render xs) @ '']''"
| "render (JObj kvs) =
     ''{'' @ joinWith '','' (map (\<lambda>kv. quoted (fst kv) @ '':'' @ render (snd kv)) kvs) @ ''}''"

definition sampleEncode :: "string \<Rightarrow> string" where
  "sampleEncode text = ''base64:'' @ text"

definition sampleDecode :: "jsval \<Rightarrow> thrown + string" where
  "sampleDecode v =
     (case v of
        JStr s \<Rightarrow> Inr (if take 7 s = ''base64:'' then drop 7 s else [])
      | _ \<Rightarrow> Inl (TypeError ''The first argument must be of type string''))"

definition storedFirst :: jsval where
  "storedFirst = setProp (scheduleAt ''07:00'' ''08:30'') ''id'' (JStr ''jadwal_1_a'')"

definition storedSecond :: jsval where
  "storedSecond = setProp (scheduleAt ''09:00'' ''10:00'') ''id'' (JStr ''jadwal_2_b'')"

definition storedList :: "jsval list" where
  "storedList = [storedFirst, storedSecond]"

definition fileJson :: jsval where
  "fileJson =
     JObj [(''content'', JStr (sampleEncode (render (JArr storedList)))),
           (''sha'', JStr ''abc123'')]"

definition notFoundJson :: jsval where
  "notFoundJson = JObj [(''message'', JStr ''Not Found'')]"

definition committedJson :: jsval where
  "committedJson = JObj [(''content'', JObj [(''sha'', JStr ''def456'')])]"

text \<open>
  What the store answers for a blob that exists and is empty: no content, and the
  token of the empty blob.
\<close>

definition emptyFileJson :: jsval where
  "emptyFileJson =
     JObj [(''content'', JStr []),
           (''sha'', JStr ''e69de29bb2d1d6434b8b29ae775ad8c2e48c5391'')]"

text \<open>The blob once the first record has been deleted from it.\<close>

definition reducedFileJson :: jsval where
  "reducedFileJson =
     JObj [(''content'', JStr (sampleEncode (render (JArr [storedSecond])))),
           (''sha'', JStr ''def456'')]"

definition knownValues :: "jsval list" where
  "knownValues =
     [JObj [], JArr [], notFoundJson, committedJson, JArr storedList, fileJson,
      emptyFileJson, JArr [storedSecond], reducedFileJson]"

text \<open>
  The message of V8's parser for a text that is wrong at its first character: the
  character, and the text itself when it is shorter than 21 characters, else its
  first ten characters.
\<close>

definition unexpectedToken :: "string \<Rightarrow> string" where
  "unexpectedToken text =
     ''Unexpected token '' @ [CHR 0x27, hd text, CHR 0x27] @ '', ''
       @ (if length text < 21 then quoted text @ '' is not valid JSON''
          else quoted (take 10 text) @ ''... is not valid JSON'')"

definition sampleParse :: "string \<Rightarrow> thrown + jsval" where
  "sampleParse text =
     (case find (\<lambda>v. render v = text) knownValues of
        Some v \<Rightarrow> Inr v
      | None \<Rightarrow>
          Inl (SyntaxError (if text = [] then ''Unexpected end of JSON input''
                            else unexpectedToken text)))"

definition sampleEnv :: env where
  "sampleEnv =
     \<lparr>TOKEN = Some ''ghp_sample'', dateNow = 17000, randomSuffix = ''k3x9q2m1z'',
      tzOffset = 25200000, jsonParse = sampleParse, jsonStringify = render,
      base64Encode = sampleEncode, base64Decode = sampleDecode\<rparr>"

definition jsonType :: "string option" where
  "jsonType = Some ''application/json; charset=utf-8''"

text \<open>The answers of the store used in the examples.\<close>

definition fileAnswer :: httpOutcome where
  "fileAnswer = HttpResponse 200 jsonType (render fileJson)"

definition notFoundAnswer :: httpOutcome where
  "notFoundAnswer = HttpResponse 404 jsonType (render notFoundJson)"

definition committedAnswer :: httpOutcome where
  "committedAnswer = HttpResponse 200 jsonType (render committedJson)"

definition emptyBlobAnswer :: httpOutcome where
  "emptyBlobAnswer = HttpResponse 200 jsonType (render emptyFileJson)"

definition reducedAnswer :: httpOutcome where
  "reducedAnswer = HttpResponse 200 jsonType (render reducedFileJson)"

text \<open>Requests: a create, an update of the second record, a delete of the first.\<close>

definition postGood :: request where
  "postGood =
     \<lparr>httpMethod = ''POST'', reqBody = scheduleAt ''10:00'' ''11:00'',
      reqQuery = JObj []\<rparr>"

definition putSecond :: request where
  "putSecond =
     \<lparr>httpMethod = ''PUT'',
      reqBody = setProp (scheduleAt ''10:00'' ''11:00'') ''id'' (JStr ''jadwal_2_b''),
      reqQuery = JObj []\<rparr>"

definition deleteFirst :: request where
  "deleteFirst =
     \<lparr>httpMethod = ''DELETE'', reqBody = JUndefined,
      reqQuery = JObj [(''id'', JStr ''jadwal_1_a'')]\<rparr>"

definition htmlBody :: string where
  "htmlBody = ''<!DOCTYPE html><html><body>Bad Gateway</body></html>''"

text \<open>What V8 says of this page: the offending character, and the first ten.\<close>

definition htmlMessage :: string where
  "htmlMessage = ''Unexpected token '' @ [CHR 0x27] @ ''<'' @ [CHR 0x27] @ '', '' @ [CHR 0x22]
     @ ''<!DOCTYPE '' @ [CHR 0x22] @ ''... is not valid JSON''"

definition htmlAnswer :: httpOutcome where
  "htmlAnswer = HttpResponse 502 (Some ''text/html'') htmlBody"

definition postBad :: request where
  "postBad = \<lparr>httpMethod = ''POST'', reqBody = badSchedule, reqQuery = JObj []\<rparr>"

text \<open>
  What it would mean for a thrown value to carry the raw response body: one of
  its texts is the body or contains it.
\<close>

definition carriesBody :: "thrown \<Rightarrow> string \<Rightarrow> bool" where
  "carriesBody e body =
     (case e of
        Rejected r \<Rightarrow>
          list_ex (\<lambda>v. case v of JStr s \<Rightarrow> isInfixOf body s | _ \<Rightarrow> False)
            [message r, details r, errors r]
      | TypeError m \<Rightarrow> isInfixOf body m
      | SyntaxError m \<Rightarrow> isInfixOf body m)"

section \<open>Properties\<close>

subsection \<open>Digits and clock texts\<close>

lemma digitChar_simps:
  "digitChar 0 = CHR ''0''" "digitChar 1 = CHR ''1''" "digitChar 2 = CHR ''2''"
  "digitChar 3 = CHR ''3''" "digitChar 4 = CHR ''4''" "digitChar 5 = CHR ''5''"
  "digitChar 6 = CHR ''6''" "digitChar 7 = CHR ''7''" "digitChar 8 = CHR ''8''"
  "digitChar 9 = CHR ''9''" "digitChar (Suc 0) = CHR ''1''"
  by (simp_all add: digitChar_def)

lemma below_ten: "(d::nat) < 10 \<Longrightarrow> d = 0 \<or> d = 1 \<or> d = 2 \<or> d = 3 \<or> d = 4 \<or> d = 5 \<or> d = 6 \<or> d = 7 \<or> d = 8 \<or> d = 9"
  by arith

lemma isDigit_digitChar: "d < 10 \<Longrightarrow> isDigit (digitChar d)"
  using below_ten[of d] by (auto simp: isDigit_def digitChar_simps)

lemma digitVal_digitChar: "d < 10 \<Longrightarrow> digitVal (digitChar d) = d"
  using below_ten[of d] by (auto simp: digitVal_def digitChar_simps)

lemma isDigit_iff: "isDigit c \<longleftrightarrow> (\<exists>d<10. c = digitChar d)"
proof
  assume "isDigit c"
  then have "c = digitChar 0 \<or> c = digitChar 1 \<or> c = digitChar 2 \<or> c = digitChar 3 \<or> c = digitChar 4
     \<or> c = digitChar 5 \<or> c = digitChar 6 \<or> c = digitChar 7 \<or> c = digitChar 8 \<or> c = digitChar 9"
    by (simp add: isDigit_def digitChar_simps)
  then show "\<exists>d<10. c = digitChar d"
  proof (elim disjE)
  qed (rule exI[of _ 0], simp, rule exI[of _ 1], simp, rule exI[of _ 2], simp, rule exI[of _ 3], simp,
       rule exI[of _ 4], simp, rule exI[of _ 5], simp, rule exI[of _ 6], simp, rule exI[of _ 7], simp,
       rule exI[of _ 8], simp, rule exI[of _ 9], simp)
next
  assume "\<exists>d<10. c = digitChar d"
  then show "isDigit c" using isDigit_digitChar by blast
qed

lemma upto5_digit: "c \<in> set ''012345'' \<longleftrightarrow> (\<exists>k\<le>5. c = digitChar k)"
proof
  assume "c \<in> set ''012345''"
  then have "c = digitChar 0 \<or> c = digitChar 1 \<or> c = digitChar 2 \<or> c = digitChar 3 \<or> c = digitChar 4
     \<or> c = digitChar 5"
    by (simp add: digitChar_simps)
  then show "\<exists>k\<le>5. c = digitChar k"
  proof (elim disjE)
  qed (rule exI[of _ 0], simp, rule exI[of _ 1], simp, rule exI[of _ 2], simp, rule exI[of _ 3], simp,
       rule exI[of _ 4], simp, rule exI[of _ 5], simp)
next
  assume "\<exists>k\<le>5. c = digitChar k"
  then obtain k where k: "k \<le> 5" "c = digitChar k" by blast
  then have "k = 0 \<or> k = 1 \<or> k = 2 \<or> k = 3 \<or> k = 4 \<or> k = 5" by arith
  with k show "c \<in> set ''012345''" by (auto simp: digitChar_simps)
qed

lemma digitChar_inj: "a < 10 \<Longrightarrow> b < 10 \<Longrightarrow> digitChar a = digitChar b \<Longrightarrow> a = b"
  by (metis digitVal_digitChar)

lemma hourChars:
  "((a \<in> set ''01'' \<and> isDigit b) \<or> (a = CHR ''2'' \<and> b \<in> set ''0123''))
   \<longleftrightarrow> (\<exists>h\<le>23. a = digitChar (h div 10) \<and> b = digitChar (h mod 10))"
proof
  assume "(a \<in> set ''01'' \<and> isDigit b) \<or> (a = CHR ''2'' \<and> b \<in> set ''0123'')"
  then consider (low) x y where "x \<le> 1" "y < 10" "a = digitChar x" "b = digitChar y"
    | (high) y where "y \<le> 3" "a = digitChar 2" "b = digitChar y"
  proof (elim disjE conjE)
    assume A: "a \<in> set ''01''" and B: "isDigit b"
    from B obtain y where y: "y < 10" "b = digitChar y" unfolding isDigit_iff by blast
    from A have "a = digitChar 0 \<or> a = digitChar 1" by (simp add: digitChar_simps)
    then obtain x where "x \<le> 1" "a = digitChar x" by (metis le_numeral_extra(4) zero_le)
    with y show thesis using that(1) by blast
  next
    assume A: "a = CHR ''2''" and B: "b \<in> set ''0123''"
    from B have "b = digitChar 0 \<or> b = digitChar 1 \<or> b = digitChar 2 \<or> b = digitChar 3"
      by (simp add: digitChar_simps)
    then obtain y where "y \<le> 3" "b = digitChar y"
      by (metis le_numeral_extra(4) zero_le one_le_numeral numeral_le_iff semiring_norm(68,69,72,73) Suc_1 numeral_3_eq_3 le_SucI order_refl)
    with A show thesis using that(2) by (simp add: digitChar_simps)
  qed
  then show "\<exists>h\<le>23. a = digitChar (h div 10) \<and> b = digitChar (h mod 10)"
  proof cases
    case low
    then show ?thesis by (intro exI[of _ "10 * x + y"]) auto
  next
    case high
    moreover have "(20 + y) div 10 = 2" "(20 + y) mod 10 = y" using high(1) by arith+
    ultimately show ?thesis by (intro exI[of _ "20 + y"]) auto
  qed
next
  assume "\<exists>h\<le>23. a = digitChar (h div 10) \<and> b = digitChar (h mod 10)"
  then obtain h where h: "h \<le> 23" "a = digitChar (h div 10)" "b = digitChar (h mod 10)" by blast
  have "h div 10 = 0 \<or> h div 10 = 1 \<or> (h div 10 = 2 \<and> (h mod 10 = 0 \<or> h mod 10 = 1 \<or> h mod 10 = 2 \<or> h mod 10 = 3))"
    using h(1) by arith
  moreover have "isDigit b" using h(3) by (simp add: isDigit_digitChar)
  ultimately show "(a \<in> set ''01'' \<and> isDigit b) \<or> (a = CHR ''2'' \<and> b \<in> set ''0123'')"
    using h(2,3) by (auto simp: digitChar_simps)
qed

lemma minuteChars:
  "(c \<in> set ''012345'' \<and> isDigit d) \<longleftrightarrow> (\<exists>m\<le>59. c = digitChar (m div 10) \<and> d = digitChar (m mod 10))"
proof
  assume "c \<in> set ''012345'' \<and> isDigit d"
  then have "\<exists>k\<le>5. c = digitChar k" "\<exists>y<10. d = digitChar y"
    using upto5_digit[of c] isDigit_iff[of d] by simp_all
  then obtain k y where "k \<le> 5" "c = digitChar k" "y < 10" "d = digitChar y"
    by blast
  then show "\<exists>m\<le>59. c = digitChar (m div 10) \<and> d = digitChar (m mod 10)"
    by (intro exI[of _ "10 * k + y"]) auto
next
  assume "\<exists>m\<le>59. c = digitChar (m div 10) \<and> d = digitChar (m mod 10)"
  then obtain m where m: "m \<le> 59" "c = digitChar (m div 10)" "d = digitChar (m mod 10)" by blast
  have "m div 10 \<le> 5" using m(1) by arith
  then show "c \<in> set ''012345'' \<and> isDigit d"
    using m(2,3) upto5_digit isDigit_digitChar by auto
qed

lemma timePattern4:
  "timePattern [h, c, m1, m2] = (isDigit h \<and> c = CHR '':'' \<and> m1 \<in> set ''012345'' \<and> isDigit m2)"
  by (simp add: timePattern_def)

lemma timePattern5:
  "timePattern [h1, h2, c, m1, m2] =
     (((h1 \<in> set ''01'' \<and> isDigit h2) \<or> (h1 = CHR ''2'' \<and> h2 \<in> set ''0123''))
      \<and> c = CHR '':'' \<and> m1 \<in> set ''012345'' \<and> isDigit m2)"
  by (simp add: timePattern_def)

lemma timePattern_iff:
  "timePattern t \<longleftrightarrow> (\<exists>h m. h \<le> 23 \<and> m \<le> 59 \<and> (t = hhmm h m \<or> (h \<le> 9 \<and> t = hmm h m)))"
proof
  assume tp: "timePattern t"
  then consider (four) a c m1 m2 where "t = [a, c, m1, m2]"
    | (five) a b c m1 m2 where "t = [a, b, c, m1, m2]"
    by (auto simp: timePattern_def split: list.splits)
  then show "\<exists>h m. h \<le> 23 \<and> m \<le> 59 \<and> (t = hhmm h m \<or> (h \<le> 9 \<and> t = hmm h m))"
  proof cases
    case four
    with tp have "isDigit a" "c = CHR '':''" "m1 \<in> set ''012345'' \<and> isDigit m2"
      by (simp_all add: timePattern4)
    then have "\<exists>x<10. a = digitChar x"
        "\<exists>m\<le>59. m1 = digitChar (m div 10) \<and> m2 = digitChar (m mod 10)"
      using isDigit_iff[of a] minuteChars[of m1 m2] by simp_all
    then obtain x m where "x < 10" "a = digitChar x" "m \<le> 59" "m1 = digitChar (m div 10)"
        "m2 = digitChar (m mod 10)"
      by blast
    with four \<open>c = CHR '':''\<close> have "x \<le> 23 \<and> m \<le> 59 \<and> x \<le> 9 \<and> t = hmm x m"
      by (simp add: hmm_def pad2_def)
    then show ?thesis by blast
  next
    case five
    with tp have "(a \<in> set ''01'' \<and> isDigit b) \<or> (a = CHR ''2'' \<and> b \<in> set ''0123'')"
        "c = CHR '':''" "m1 \<in> set ''012345'' \<and> isDigit m2"
      by (simp_all add: timePattern5)
    then have "\<exists>h\<le>23. a = digitChar (h div 10) \<and> b = digitChar (h mod 10)"
        "\<exists>m\<le>59. m1 = digitChar (m div 10) \<and> m2 = digitChar (m mod 10)"
      using hourChars[of a b] minuteChars[of m1 m2] by simp_all
    then obtain h m where "h \<le> 23" "a = digitChar (h div 10)" "b = digitChar (h mod 10)"
        "m \<le> 59" "m1 = digitChar (m div 10)" "m2 = digitChar (m mod 10)"
      by blast
    with five \<open>c = CHR '':''\<close> have "h \<le> 23 \<and> m \<le> 59 \<and> t = hhmm h m"
      by (simp add: hhmm_def pad2_def)
    then show ?thesis by blast
  qed
next
  assume "\<exists>h m. h \<le> 23 \<and> m \<le> 59 \<and> (t = hhmm h m \<or> (h \<le> 9 \<and> t = hmm h m))"
  then obtain h m where hm: "h \<le> 23" "m \<le> 59" "t = hhmm h m \<or> (h \<le> 9 \<and> t = hmm h m)"
    by blast
  from hm(2) have mc: "digitChar (m div 10) \<in> set ''012345'' \<and> isDigit (digitChar (m mod 10))"
    using minuteChars[of "digitChar (m div 10)" "digitChar (m mod 10)"] by blast
  from hm(3) show "timePattern t"
  proof
    assume t: "t = hhmm h m"
    from hm(1) have "(digitChar (h div 10) \<in> set ''01'' \<and> isDigit (digitChar (h mod 10)))
        \<or> (digitChar (h div 10) = CHR ''2'' \<and> digitChar (h mod 10) \<in> set ''0123'')"
      using hourChars[of "digitChar (h div 10)" "digitChar (h mod 10)"] by blast
    with mc show ?thesis unfolding t hhmm_def pad2_def by (simp only: append.simps timePattern5)
  next
    assume "h \<le> 9 \<and> t = hmm h m"
    then have "isDigit (digitChar h)" "t = hmm h m" by (simp_all add: isDigit_digitChar)
    with mc show ?thesis unfolding hmm_def pad2_def by (simp only: append.simps timePattern4)
  qed
qed

lemma twoDigitTime_iff:
  "twoDigitTime t \<longleftrightarrow> (\<exists>h m. h \<le> 23 \<and> m \<le> 59 \<and> t = hhmm h m)"
proof
  assume td: "twoDigitTime t"
  then obtain a b c d e where t: "t = [a, b, c, d, e]"
    by (auto simp: twoDigitTime_def split: list.splits)
  with td have f: "isDigit a" "isDigit b" "c = CHR '':''" "isDigit d" "isDigit e"
      "10 * digitVal a + digitVal b \<le> 23" "10 * digitVal d + digitVal e \<le> 59"
    by (simp_all add: twoDigitTime_def)
  from f(1,2,4,5) obtain x y z w where d: "x < 10" "a = digitChar x" "y < 10" "b = digitChar y"
      "z < 10" "d = digitChar z" "w < 10" "e = digitChar w"
    using isDigit_iff by metis
  with f(6,7) have "10 * x + y \<le> 23" "10 * z + w \<le> 59" by (simp_all add: digitVal_digitChar)
  moreover have "t = hhmm (10 * x + y) (10 * z + w)"
    using t d f(3) by (simp add: hhmm_def pad2_def)
  ultimately show "\<exists>h m. h \<le> 23 \<and> m \<le> 59 \<and> t = hhmm h m" by blast
next
  assume "\<exists>h m. h \<le> 23 \<and> m \<le> 59 \<and> t = hhmm h m"
  then obtain h m where hm: "h \<le> 23" "m \<le> 59" "t = hhmm h m" by blast
  then have "h div 10 < 10" "h mod 10 < 10" "m div 10 < 10" "m mod 10 < 10" by arith+
  then show "twoDigitTime t"
    using hm by (simp add: twoDigitTime_def hhmm_def pad2_def isDigit_digitChar digitVal_digitChar)
qed

subsection \<open>Validation\<close>

lemma msg_distinct:
  "distinct [msgClass, msgDay, msgSubject, msgTeacher, msgStart, msgEnd, msgOrder]"
  by (simp add: msgClass_def msgDay_def msgSubject_def msgTeacher_def msgStart_def msgEnd_def
      msgOrder_def)

lemma msg_neq:
  "msgClass \<noteq> msgDay" "msgClass \<noteq> msgSubject" "msgClass \<noteq> msgTeacher"
  "msgClass \<noteq> msgStart" "msgClass \<noteq> msgEnd" "msgClass \<noteq> msgOrder"
  "msgDay \<noteq> msgSubject" "msgDay \<noteq> msgTeacher" "msgDay \<noteq> msgStart"
  "msgDay \<noteq> msgEnd" "msgDay \<noteq> msgOrder" "msgSubject \<noteq> msgTeacher"
  "msgSubject \<noteq> msgStart" "msgSubject \<noteq> msgEnd" "msgSubject \<noteq> msgOrder"
  "msgTeacher \<noteq> msgStart" "msgTeacher \<noteq> msgEnd" "msgTeacher \<noteq> msgOrder"
  "msgStart \<noteq> msgEnd" "msgStart \<noteq> msgOrder" "msgEnd \<noteq> msgOrder"
  using msg_distinct by simp_all

lemma printable_iff: "printable v \<longleftrightarrow> (\<exists>s. toString v = Inr s)"
  by (cases "toString v") (simp_all add: printable_def)

lemma printable_simps:
  "printable JUndefined" "printable JNull" "printable (JBool b)" "printable (JNum n)"
  "printable (JStr s)" "printable (field t)"
  by (simp_all add: printable_def field_def split: option.splits)

lemma falsy_printable: "\<not> truthy v \<Longrightarrow> printable v"
  by (cases v) (simp_all add: printable_def)

lemma toString_failure: "toString v = Inl e \<Longrightarrow> e = cannotConvert"
proof (induction v arbitrary: e rule: toString.induct)
  case (6 xs)
  have "collect (map (\<lambda>x. if x = JUndefined \<or> x = JNull then Inr [] else toString x) ys) = Inl e
        \<Longrightarrow> set ys \<subseteq> set xs \<Longrightarrow> e = cannotConvert" for ys
  proof (induction ys)
    case Nil
    then show ?case by simp
  next
    case (Cons y ys)
    show ?case
    proof (cases "y = JUndefined \<or> y = JNull")
      case True
      with Cons show ?thesis by (auto split: sum.splits)
    next
      case False
      show ?thesis
      proof (cases "toString y")
        case (Inl e')
        with False Cons.prems have "e' = e" by simp
        with Inl False Cons.prems "6.IH"[of y e] show ?thesis by auto
      next
        case (Inr s)
        with False Cons show ?thesis by (auto split: sum.splits)
      qed
    qed
  qed
  with "6.prems" show ?case by (auto split: sum.splits)
qed (auto split: if_splits)

text \<open>
  With both times turned into strings, validation returns the messages of the
  seven conditions one after the other.
\<close>

lemma validateSchedule_Inr:
  assumes "\<not> nullish schedule"
    and "toString (getProp schedule ''startTime'') = Inr s"
    and "toString (getProp schedule ''endTime'') = Inr f"
  shows "validateSchedule tz schedule =
     Inr ((if classInvalid schedule then [msgClass] else [])
        @ (if dayInvalid schedule then [msgDay] else [])
        @ (if subjectInvalid schedule then [msgSubject] else [])
        @ (if teacherInvalid schedule then [msgTeacher] else [])
        @ (if \<not> truthy (getProp schedule ''startTime'') \<or> \<not> timePattern s then [msgStart] else [])
        @ (if \<not> truthy (getProp schedule ''endTime'') \<or> \<not> timePattern f then [msgEnd] else [])
        @ (if truthy (getProp schedule ''startTime'') \<and> truthy (getProp schedule ''endTime'')
              \<and> dateLe (newDate1970 tz (f @ '':00'')) (newDate1970 tz (s @ '':00''))
           then [msgOrder] else []))"
  using assms
  by (simp add: validateSchedule_def startTimeInvalid_def endTimeInvalid_def orderInvalid_def
      Let_def)

lemma validateSchedule_throws:
  assumes "validateSchedule tz schedule = Inl e"
  shows "\<exists>m. e = TypeError m"
proof (cases "nullish schedule")
  case True
  with assms show ?thesis by (auto simp: validateSchedule_def cannotRead_def)
next
  case False
  have "e = cannotConvert"
  proof (cases "toString (getProp schedule ''startTime'')")
    case (Inl e1)
    then have e1: "e1 = cannotConvert" by (rule toString_failure)
    from Inl have "truthy (getProp schedule ''startTime'')"
      using falsy_printable[of "getProp schedule ''startTime''"] by (auto simp: printable_def)
    with assms False Inl e1 show ?thesis
      by (simp add: validateSchedule_def startTimeInvalid_def Let_def)
  next
    case (Inr s)
    show ?thesis
    proof (cases "toString (getProp schedule ''endTime'')")
      case (Inl e2)
      then show ?thesis using toString_failure[OF Inl] assms False Inr
        by (auto simp: validateSchedule_def startTimeInvalid_def endTimeInvalid_def
            orderInvalid_def Let_def split: if_splits)
    next
      case Inr2: (Inr f)
      from validateSchedule_Inr[OF False Inr Inr2, of tz] assms show ?thesis by simp
    qed
  qed
  then show ?thesis by (simp add: cannotConvert_def)
qed

lemma validateSchedule_returns:
  assumes "\<not> nullish schedule"
    and "printable (getProp schedule ''startTime'')" and "printable (getProp schedule ''endTime'')"
  shows "\<exists>errs. validateSchedule tz schedule = Inr errs"
  using assms validateSchedule_Inr unfolding printable_iff by blast

text \<open>
  Validation of a record returns a list exactly when both times can be turned
  into strings; otherwise it throws the TypeError of the conversion.
\<close>

lemma validateSchedule_returns_iff:
  assumes "\<not> nullish schedule"
  shows "(\<exists>errs. validateSchedule tz schedule = Inr errs)
         \<longleftrightarrow> printable (getProp schedule ''startTime'')
              \<and> printable (getProp schedule ''endTime'')"
proof
  assume "printable (getProp schedule ''startTime'') \<and> printable (getProp schedule ''endTime'')"
  then show "\<exists>errs. validateSchedule tz schedule = Inr errs"
    using validateSchedule_returns[OF assms] by blast
next
  assume r: "\<exists>errs. validateSchedule tz schedule = Inr errs"
  have s: "printable (getProp schedule ''startTime'')"
  proof (rule ccontr)
    assume "\<not> printable (getProp schedule ''startTime'')"
    then obtain e where e: "toString (getProp schedule ''startTime'') = Inl e"
      "truthy (getProp schedule ''startTime'')"
      using falsy_printable[of "getProp schedule ''startTime''"]
      by (cases "toString (getProp schedule ''startTime'')") (auto simp: printable_def)
    with assms have "validateSchedule tz schedule = Inl e"
      by (simp add: validateSchedule_def startTimeInvalid_def Let_def)
    with r show False by simp
  qed
  have "printable (getProp schedule ''endTime'')"
  proof (rule ccontr)
    assume "\<not> printable (getProp schedule ''endTime'')"
    then obtain e where e: "toString (getProp schedule ''endTime'') = Inl e"
      "truthy (getProp schedule ''endTime'')"
      using falsy_printable[of "getProp schedule ''endTime''"]
      by (cases "toString (getProp schedule ''endTime'')") (auto simp: printable_def)
    from s obtain t where "toString (getProp schedule ''startTime'') = Inr t"
      unfolding printable_iff by blast
    with assms e have "validateSchedule tz schedule = Inl e"
      by (simp add: validateSchedule_def startTimeInvalid_def endTimeInvalid_def Let_def)
    with r show False by simp
  qed
  with s show "printable (getProp schedule ''startTime'')
      \<and> printable (getProp schedule ''endTime'')" by simp
qed

lemma twoDigits_pad: "n < 100 \<Longrightarrow> twoDigits (digitChar (n div 10)) (digitChar (n mod 10)) = Some n"
  by (simp add: twoDigits_def isDigit_digitChar digitVal_digitChar)

lemma twoDigits_00: "twoDigits CHR ''0'' CHR ''0'' = Some 0"
  using twoDigits_pad[of 0] by (simp add: digitChar_simps)

lemma newDate1970_hhmm:
  assumes "h \<le> 23" "m \<le> 59"
  shows "newDate1970 tz (hhmm h m @ '':00'') = Some (int ((h * 60 + m) * 60000) - tz)"
proof -
  have "h < 100" "m < 100" using assms by arith+
  then have "parseTimePart (hhmm h m @ '':00'') = Some (((h * 60 + m) * 60 + 0) * 1000 + 0, None)"
    using assms
    by (simp add: parseTimePart_def hhmm_def pad2_def twoDigits_pad twoDigits_00 finishTime_def
        parseOffset_def)
  then show ?thesis by (simp add: newDate1970_def)
qed

lemma dateLe_hhmm:
  assumes "h1 \<le> 23" "m1 \<le> 59" "h2 \<le> 23" "m2 \<le> 59"
  shows "dateLe (newDate1970 tz (hhmm h2 m2 @ '':00'')) (newDate1970 tz (hhmm h1 m1 @ '':00''))
         \<longleftrightarrow> h2 * 60 + m2 \<le> h1 * 60 + m1"
proof -
  have cmp: "(int (a * 60000) - c \<le> int (b * 60000) - c) = (a \<le> b)" for a b :: nat and c :: int
    by simp
  show ?thesis
    using assms by (simp only: newDate1970_hhmm dateLe_def cmp prod.case option.case)
qed

lemma hhmm_nonempty: "hhmm h m \<noteq> []" "hmm h m \<noteq> []"
  by (simp_all add: hhmm_def hmm_def pad2_def)

lemma timePattern_nonempty: "timePattern t \<Longrightarrow> t \<noteq> []"
  by (auto simp: timePattern_def)

lemma messages_in_order:
  "filter (\<lambda>m. m \<in> set
       ((if b1 then [msgClass] else []) @ (if b2 then [msgDay] else [])
        @ (if b3 then [msgSubject] else []) @ (if b4 then [msgTeacher] else [])
        @ (if b5 then [msgStart] else []) @ (if b6 then [msgEnd] else [])
        @ (if b7 then [msgOrder] else [])))
     [msgClass, msgDay, msgSubject, msgTeacher, msgStart, msgEnd, msgOrder]
   = (if b1 then [msgClass] else []) @ (if b2 then [msgDay] else [])
        @ (if b3 then [msgSubject] else []) @ (if b4 then [msgTeacher] else [])
        @ (if b5 then [msgStart] else []) @ (if b6 then [msgEnd] else [])
        @ (if b7 then [msgOrder] else [])"
  by (simp add: msg_neq msg_neq[symmetric])

lemma messages_mem:
  fixes b1 b2 b3 b4 b5 b6 b7 :: bool
  defines "L \<equiv> (if b1 then [msgClass] else []) @ (if b2 then [msgDay] else [])
        @ (if b3 then [msgSubject] else []) @ (if b4 then [msgTeacher] else [])
        @ (if b5 then [msgStart] else []) @ (if b6 then [msgEnd] else [])
        @ (if b7 then [msgOrder] else [])"
  shows "(msgClass \<in> set L) = b1" "(msgDay \<in> set L) = b2" "(msgSubject \<in> set L) = b3"
    "(msgTeacher \<in> set L) = b4" "(msgStart \<in> set L) = b5" "(msgEnd \<in> set L) = b6"
    "(msgOrder \<in> set L) = b7"
  unfolding L_def by (simp_all add: msg_neq msg_neq[symmetric])

lemma field_facts:
  "truthy (field t) \<longleftrightarrow> t \<noteq> None \<and> t \<noteq> Some []"
  "toString (field t) = Inr (case t of None \<Rightarrow> ''undefined'' | Some s \<Rightarrow> s)"
  "arrayIncludes [JStr a, JStr b] (field t) \<longleftrightarrow> t = Some a \<or> t = Some b"
  "arrayIncludes [JStr a, JStr b, JStr c, JStr d, JStr e] (field t)
     \<longleftrightarrow> t = Some a \<or> t = Some b \<or> t = Some c \<or> t = Some d \<or> t = Some e"
  by (auto simp: field_def arrayIncludes_def split: option.splits)

lemma timeField_bad:
  "(\<not> truthy (field t) \<or> \<not> timePattern (case t of None \<Rightarrow> ''undefined'' | Some s \<Rightarrow> s))
   \<longleftrightarrow> \<not> (\<exists>h m. h \<le> 23 \<and> m \<le> 59 \<and> (t = Some (hhmm h m) \<or> (h \<le> 9 \<and> t = Some (hmm h m))))"
proof (cases t)
  case None
  then show ?thesis by (simp add: field_def)
next
  case (Some s)
  have "(\<not> truthy (JStr s) \<or> \<not> timePattern s) = (\<not> timePattern s)"
    using timePattern_nonempty[of s] by auto
  then show ?thesis unfolding Some by (simp add: field_def timePattern_iff)
qed

text \<open>
  Claim C2, as amended. Take a record whose six fields are texts or missing.
  Validation returns messages of the seven rules in the order of the rules, each
  at most once, and every rule is judged whatever the others say:
  the class and the day message are there exactly when the field is not one of the
  labels, the subject and the teacher message exactly when the field is missing or
  empty, the two format messages exactly when the time is not an hour from 0 to 23
  in one or two digits, a colon and a minute from 00 to 59. For two times in the
  two-digit form the ordering message is there exactly when the end is not later
  than the start, and it is never there when a time is missing or empty.
\<close>

theorem validateSchedule_reports_every_violation:
  assumes "\<not> nullish schedule"
    and "getProp schedule ''class'' = field cls" and "getProp schedule ''day'' = field day"
    and "getProp schedule ''subject'' = field subject"
    and "getProp schedule ''teacher'' = field teacher"
    and "getProp schedule ''startTime'' = field start"
    and "getProp schedule ''endTime'' = field finish"
  shows "\<exists>errs. validateSchedule tz schedule = Inr errs
    \<and> errs = filter (\<lambda>m. m \<in> set errs)
               [msgClass, msgDay, msgSubject, msgTeacher, msgStart, msgEnd, msgOrder]
    \<and> (msgClass \<in> set errs) = (cls \<noteq> Some ''XI A'' \<and> cls \<noteq> Some ''XI B'')
    \<and> (msgDay \<in> set errs)
        = (day \<noteq> Some ''Senin'' \<and> day \<noteq> Some ''Selasa'' \<and> day \<noteq> Some ''Rabu''
           \<and> day \<noteq> Some ''Kamis'' \<and> day \<noteq> Some ''Jumat'')
    \<and> (msgSubject \<in> set errs) = (subject = None \<or> subject = Some [])
    \<and> (msgTeacher \<in> set errs) = (teacher = None \<or> teacher = Some [])
    \<and> (msgStart \<in> set errs)
        = (\<not> (\<exists>h m. h \<le> 23 \<and> m \<le> 59
                 \<and> (start = Some (hhmm h m) \<or> (h \<le> 9 \<and> start = Some (hmm h m)))))
    \<and> (msgEnd \<in> set errs)
        = (\<not> (\<exists>h m. h \<le> 23 \<and> m \<le> 59
                 \<and> (finish = Some (hhmm h m) \<or> (h \<le> 9 \<and> finish = Some (hmm h m)))))
    \<and> (\<forall>h1 m1 h2 m2.
          h1 \<le> 23 \<and> m1 \<le> 59 \<and> h2 \<le> 23 \<and> m2 \<le> 59
          \<and> start = Some (hhmm h1 m1) \<and> finish = Some (hhmm h2 m2) \<longrightarrow>
          (msgOrder \<in> set errs) = (h2 * 60 + m2 \<le> h1 * 60 + m1))
    \<and> (start = None \<or> start = Some [] \<or> finish = None \<or> finish = Some [] \<longrightarrow>
          msgOrder \<notin> set errs)"
proof -
  let ?s = "case start of None \<Rightarrow> ''undefined'' | Some s \<Rightarrow> s"
  let ?f = "case finish of None \<Rightarrow> ''undefined'' | Some s \<Rightarrow> s"
  let ?b5 = "\<not> truthy (field start) \<or> \<not> timePattern ?s"
  let ?b6 = "\<not> truthy (field finish) \<or> \<not> timePattern ?f"
  let ?b7 = "truthy (field start) \<and> truthy (field finish)
              \<and> dateLe (newDate1970 tz (?f @ '':00'')) (newDate1970 tz (?s @ '':00''))"
  let ?L = "(if classInvalid schedule then [msgClass] else [])
        @ (if dayInvalid schedule then [msgDay] else [])
        @ (if subjectInvalid schedule then [msgSubject] else [])
        @ (if teacherInvalid schedule then [msgTeacher] else [])
        @ (if ?b5 then [msgStart] else []) @ (if ?b6 then [msgEnd] else [])
        @ (if ?b7 then [msgOrder] else [])"
  have v: "validateSchedule tz schedule = Inr ?L"
    using validateSchedule_Inr[OF assms(1), of ?s ?f tz] by (simp add: assms(6,7) field_facts(2))
  have ord: "?L = filter (\<lambda>m. m \<in> set ?L)
               [msgClass, msgDay, msgSubject, msgTeacher, msgStart, msgEnd, msgOrder]"
    by (rule messages_in_order[symmetric])
  have c1: "(msgClass \<in> set ?L) = (cls \<noteq> Some ''XI A'' \<and> cls \<noteq> Some ''XI B'')"
  proof -
    have "(msgClass \<in> set ?L) = classInvalid schedule"
      by (rule messages_mem(1))
    also have "\<dots> = (cls \<noteq> Some ''XI A'' \<and> cls \<noteq> Some ''XI B'')"
      unfolding classInvalid_def assms(2) field_facts by auto
    finally show ?thesis .
  qed
  have c2: "(msgDay \<in> set ?L)
        = (day \<noteq> Some ''Senin'' \<and> day \<noteq> Some ''Selasa'' \<and> day \<noteq> Some ''Rabu''
           \<and> day \<noteq> Some ''Kamis'' \<and> day \<noteq> Some ''Jumat'')"
  proof -
    have "(msgDay \<in> set ?L) = dayInvalid schedule"
      by (rule messages_mem(2))
    also have "\<dots> = (day \<noteq> Some ''Senin'' \<and> day \<noteq> Some ''Selasa'' \<and> day \<noteq> Some ''Rabu''
           \<and> day \<noteq> Some ''Kamis'' \<and> day \<noteq> Some ''Jumat'')"
      unfolding dayInvalid_def assms(3) field_facts by auto
    finally show ?thesis .
  qed
  have c3: "(msgSubject \<in> set ?L) = (subject = None \<or> subject = Some [])"
  proof -
    have "(msgSubject \<in> set ?L) = subjectInvalid schedule"
      by (rule messages_mem(3))
    also have "\<dots> = (subject = None \<or> subject = Some [])"
      unfolding subjectInvalid_def assms(4) field_facts by auto
    finally show ?thesis .
  qed
  have c4: "(msgTeacher \<in> set ?L) = (teacher = None \<or> teacher = Some [])"
  proof -
    have "(msgTeacher \<in> set ?L) = teacherInvalid schedule"
      by (rule messages_mem(4))
    also have "\<dots> = (teacher = None \<or> teacher = Some [])"
      unfolding teacherInvalid_def assms(5) field_facts by auto
    finally show ?thesis .
  qed
  have c5: "(msgStart \<in> set ?L)
        = (\<not> (\<exists>h m. h \<le> 23 \<and> m \<le> 59
                 \<and> (start = Some (hhmm h m) \<or> (h \<le> 9 \<and> start = Some (hmm h m)))))"
  proof -
    have "(msgStart \<in> set ?L) = ?b5"
      by (rule messages_mem(5))
    then show ?thesis by (simp only: timeField_bad)
  qed
  have c6: "(msgEnd \<in> set ?L)
        = (\<not> (\<exists>h m. h \<le> 23 \<and> m \<le> 59
                 \<and> (finish = Some (hhmm h m) \<or> (h \<le> 9 \<and> finish = Some (hmm h m)))))"
  proof -
    have "(msgEnd \<in> set ?L) = ?b6"
      by (rule messages_mem(6))
    then show ?thesis by (simp only: timeField_bad)
  qed
  have m7: "(msgOrder \<in> set ?L) = ?b7"
    by (rule messages_mem(7))
  have c7: "\<forall>h1 m1 h2 m2.
          h1 \<le> 23 \<and> m1 \<le> 59 \<and> h2 \<le> 23 \<and> m2 \<le> 59
          \<and> start = Some (hhmm h1 m1) \<and> finish = Some (hhmm h2 m2) \<longrightarrow>
          (msgOrder \<in> set ?L) = (h2 * 60 + m2 \<le> h1 * 60 + m1)"
  proof (intro allI impI)
    fix h1 m1 h2 m2
    assume a: "h1 \<le> 23 \<and> m1 \<le> 59 \<and> h2 \<le> 23 \<and> m2 \<le> 59
          \<and> start = Some (hhmm h1 m1) \<and> finish = Some (hhmm h2 m2)"
    then have "?b7 = (h2 * 60 + m2 \<le> h1 * 60 + m1)"
      using dateLe_hhmm[of h1 m1 h2 m2 tz] by (simp add: field_facts(1) hhmm_nonempty)
    with m7 show "(msgOrder \<in> set ?L) = (h2 * 60 + m2 \<le> h1 * 60 + m1)" by simp
  qed
  have c8: "start = None \<or> start = Some [] \<or> finish = None \<or> finish = Some [] \<longrightarrow>
          msgOrder \<notin> set ?L"
    unfolding m7 by (auto simp: field_facts(1))
  show ?thesis
    by (intro exI[of _ ?L] conjI v ord c1 c2 c3 c4 c5 c6 c7 c8)
qed

lemma clock_samples:
  "hhmm 10 0 = ''10:00''" "hhmm 9 0 = ''09:00''" "hhmm 11 0 = ''11:00''"
  "hmm 9 30 = ''9:30''" "hmm 8 0 = ''8:00''"
  by (simp_all add: hhmm_def hmm_def pad2_def digitChar_simps)

text \<open>
  A record that breaks four rules gets the four messages, in the order of the
  rules.
\<close>

theorem validateSchedule_reports_every_violation_witness:
  "validateSchedule 0 badSchedule
     = Inr [''Kelas harus diisi dan harus '' @ [CHR 0x27] @ ''XI A'' @ [CHR 0x27]
              @ '' atau '' @ [CHR 0x27] @ ''XI B'' @ [CHR 0x27],
            ''Hari harus diisi dan harus Senin, Selasa, Rabu, Kamis, atau Jumat'',
            ''Mata pelajaran wajib diisi'',
            ''Waktu selesai harus setelah waktu mulai'']"
proof -
  have n: "\<not> nullish badSchedule" by (simp add: nullish_def badSchedule_def)
  have g: "getProp badSchedule ''class'' = field (Some ''XI C'')"
    "getProp badSchedule ''day'' = field (Some ''Minggu'')"
    "getProp badSchedule ''subject'' = field (Some [])"
    "getProp badSchedule ''teacher'' = field (Some ''Bu Sari'')"
    "getProp badSchedule ''startTime'' = field (Some ''10:00'')"
    "getProp badSchedule ''endTime'' = field (Some ''09:00'')"
    by (simp_all add: badSchedule_def field_def)
  from validateSchedule_reports_every_violation[OF n g, of 0]
  obtain errs where e: "validateSchedule 0 badSchedule = Inr errs"
    "errs = filter (\<lambda>m. m \<in> set errs)
               [msgClass, msgDay, msgSubject, msgTeacher, msgStart, msgEnd, msgOrder]"
    "(msgClass \<in> set errs) = (Some ''XI C'' \<noteq> Some ''XI A'' \<and> Some ''XI C'' \<noteq> Some ''XI B'')"
    "(msgDay \<in> set errs)
        = (Some ''Minggu'' \<noteq> Some ''Senin'' \<and> Some ''Minggu'' \<noteq> Some ''Selasa''
           \<and> Some ''Minggu'' \<noteq> Some ''Rabu'' \<and> Some ''Minggu'' \<noteq> Some ''Kamis''
           \<and> Some ''Minggu'' \<noteq> Some ''Jumat'')"
    "(msgSubject \<in> set errs) = (Some [] = (None :: string option) \<or> Some [] = Some ([] :: string))"
    "(msgTeacher \<in> set errs) = (Some ''Bu Sari'' = None \<or> Some ''Bu Sari'' = Some [])"
    "(msgStart \<in> set errs)
        = (\<not> (\<exists>h m. h \<le> 23 \<and> m \<le> 59
                 \<and> (Some ''10:00'' = Some (hhmm h m) \<or> (h \<le> 9 \<and> Some ''10:00'' = Some (hmm h m)))))"
    "(msgEnd \<in> set errs)
        = (\<not> (\<exists>h m. h \<le> 23 \<and> m \<le> 59
                 \<and> (Some ''09:00'' = Some (hhmm h m) \<or> (h \<le> 9 \<and> Some ''09:00'' = Some (hmm h m)))))"
    "\<forall>h1 m1 h2 m2.
          h1 \<le> 23 \<and> m1 \<le> 59 \<and> h2 \<le> 23 \<and> m2 \<le> 59
          \<and> Some ''10:00'' = Some (hhmm h1 m1) \<and> Some ''09:00'' = Some (hhmm h2 m2) \<longrightarrow>
          (msgOrder \<in> set errs) = (h2 * 60 + m2 \<le> h1 * 60 + m1)"
    by (elim exE conjE) (rule that)
  have k: "msgClass \<in> set errs" "msgDay \<in> set errs" "msgSubject \<in> set errs"
    "msgTeacher \<notin> set errs"
    using e(3,4,5,6) by simp_all
  have "\<exists>h m. h \<le> 23 \<and> m \<le> 59
           \<and> (Some ''10:00'' = Some (hhmm h m) \<or> (h \<le> 9 \<and> Some ''10:00'' = Some (hmm h m)))"
    by (intro exI[of _ 10] exI[of _ 0]) (simp add: clock_samples)
  with e(7) have s: "msgStart \<notin> set errs" by simp
  have "\<exists>h m. h \<le> 23 \<and> m \<le> 59
           \<and> (Some ''09:00'' = Some (hhmm h m) \<or> (h \<le> 9 \<and> Some ''09:00'' = Some (hmm h m)))"
    by (intro exI[of _ 9] exI[of _ 0]) (simp add: clock_samples)
  with e(8) have f: "msgEnd \<notin> set errs" by simp
  from e(9)[rule_format, of 10 0 9 0] have o: "msgOrder \<in> set errs" by (simp add: clock_samples)
  have "filter (\<lambda>m. m \<in> set errs)
               [msgClass, msgDay, msgSubject, msgTeacher, msgStart, msgEnd, msgOrder]
        = [msgClass, msgDay, msgSubject, msgOrder]"
    using k s f o by simp
  with e(2) have "errs = [msgClass, msgDay, msgSubject, msgOrder]" by simp
  with e(1) show ?thesis
    by (simp add: msgClass_def msgDay_def msgSubject_def msgOrder_def)
qed

lemma validate_scheduleAt:
  "validateSchedule tz (scheduleAt s e) =
     Inr ((if s = [] \<or> \<not> timePattern s then [msgStart] else [])
        @ (if e = [] \<or> \<not> timePattern e then [msgEnd] else [])
        @ (if s \<noteq> [] \<and> e \<noteq> []
              \<and> dateLe (newDate1970 tz (e @ '':00'')) (newDate1970 tz (s @ '':00''))
           then [msgOrder] else []))"
proof -
  have n: "\<not> nullish (scheduleAt s e)" by (simp add: nullish_def scheduleAt_def)
  have t: "toString (getProp (scheduleAt s e) ''startTime'') = Inr s"
    "toString (getProp (scheduleAt s e) ''endTime'') = Inr e"
    by (simp_all add: scheduleAt_def)
  have "\<not> classInvalid (scheduleAt s e)" "\<not> dayInvalid (scheduleAt s e)"
    "\<not> subjectInvalid (scheduleAt s e)" "\<not> teacherInvalid (scheduleAt s e)"
    by (simp_all add: classInvalid_def dayInvalid_def subjectInvalid_def teacherInvalid_def
        scheduleAt_def arrayIncludes_def)
  then show ?thesis
    unfolding validateSchedule_Inr[OF n t] by (simp add: scheduleAt_def)
qed

lemmas clock_eval =
  timePattern_def isDigit_def newDate1970_def parseTimePart_def twoDigits_def digitVal_def
  dateLe_def twoDigitTime_def finishTime_def parseOffset_def

text \<open>
  Claim C2 as stated fails: with the start \<^verbatim>\<open>9:30\<close> and the end \<^verbatim>\<open>8:00\<close> the end
  is before the start and neither time is of the two-digit form, yet validation
  returns no message at all.
\<close>

theorem one_digit_times_skip_the_order_rule:
  "validateSchedule 0 (scheduleAt ''9:30'' ''8:00'') = Inr []
   \<and> ''9:30'' = hmm 9 30 \<and> ''8:00'' = hmm 8 0 \<and> (8::nat) * 60 + 0 \<le> 9 * 60 + 30
   \<and> \<not> twoDigitTime ''9:30'' \<and> \<not> twoDigitTime ''8:00''"
  by (simp only: validate_scheduleAt) (simp add: clock_eval clock_samples)

lemma msg_mem:
  assumes "\<not> nullish schedule"
    and "toString (getProp schedule ''startTime'') = Inr s"
    and "toString (getProp schedule ''endTime'') = Inr f"
    and "validateSchedule tz schedule = Inr errs"
  shows "(msgStart \<in> set errs) = (\<not> truthy (getProp schedule ''startTime'') \<or> \<not> timePattern s)"
    and "(msgEnd \<in> set errs) = (\<not> truthy (getProp schedule ''endTime'') \<or> \<not> timePattern f)"
    and "(msgOrder \<in> set errs)
           = (truthy (getProp schedule ''startTime'') \<and> truthy (getProp schedule ''endTime'')
              \<and> dateLe (newDate1970 tz (f @ '':00'')) (newDate1970 tz (s @ '':00'')))"
proof -
  from assms(4) have e: "errs = (if classInvalid schedule then [msgClass] else [])
        @ (if dayInvalid schedule then [msgDay] else [])
        @ (if subjectInvalid schedule then [msgSubject] else [])
        @ (if teacherInvalid schedule then [msgTeacher] else [])
        @ (if \<not> truthy (getProp schedule ''startTime'') \<or> \<not> timePattern s then [msgStart] else [])
        @ (if \<not> truthy (getProp schedule ''endTime'') \<or> \<not> timePattern f then [msgEnd] else [])
        @ (if truthy (getProp schedule ''startTime'') \<and> truthy (getProp schedule ''endTime'')
              \<and> dateLe (newDate1970 tz (f @ '':00'')) (newDate1970 tz (s @ '':00''))
           then [msgOrder] else [])"
    unfolding validateSchedule_Inr[OF assms(1,2,3)] by simp
  show "(msgStart \<in> set errs) = (\<not> truthy (getProp schedule ''startTime'') \<or> \<not> timePattern s)"
    unfolding e by (rule messages_mem(5))
  show "(msgEnd \<in> set errs) = (\<not> truthy (getProp schedule ''endTime'') \<or> \<not> timePattern f)"
    unfolding e by (rule messages_mem(6))
  show "(msgOrder \<in> set errs)
           = (truthy (getProp schedule ''startTime'') \<and> truthy (getProp schedule ''endTime'')
              \<and> dateLe (newDate1970 tz (f @ '':00'')) (newDate1970 tz (s @ '':00'')))"
    unfolding e by (rule messages_mem(7))
qed

text \<open>
  Claim C3, as amended. For a record whose two times can be turned into strings
  (every text, number, boolean and missing value can) and whose \<^verbatim>\<open>startTime\<close> is a
  string, validation leaves the start-format message out exactly when the string is
  an hour from 0 to 23 written with one or two digits (the leading zero is
  optional), a colon, and a minute from 00 to 59 in two digits; every other string
  gets the message. The same holds for \<^verbatim>\<open>endTime\<close> and its message.
\<close>

theorem time_format_accepted_iff:
  assumes "\<not> nullish schedule"
    and "printable (getProp schedule ''startTime'')"
    and "printable (getProp schedule ''endTime'')"
  shows "\<exists>errs. validateSchedule tz schedule = Inr errs
    \<and> (getProp schedule ''startTime'' = JStr s \<longrightarrow>
         (msgStart \<notin> set errs) =
           (\<exists>h m. h \<le> 23 \<and> m \<le> 59 \<and> (s = hhmm h m \<or> (h \<le> 9 \<and> s = hmm h m))))
    \<and> (getProp schedule ''endTime'' = JStr e \<longrightarrow>
         (msgEnd \<notin> set errs) =
           (\<exists>h m. h \<le> 23 \<and> m \<le> 59 \<and> (e = hhmm h m \<or> (h \<le> 9 \<and> e = hmm h m))))"
proof -
  from assms(2,3) obtain s' f' where p: "toString (getProp schedule ''startTime'') = Inr s'"
    "toString (getProp schedule ''endTime'') = Inr f'"
    unfolding printable_iff by blast
  obtain errs where errs: "validateSchedule tz schedule = Inr errs"
    using validateSchedule_Inr[OF assms(1) p] by blast
  note m = msg_mem[OF assms(1) p errs]
  have a: "(msgStart \<notin> set errs) = timePattern s" if "getProp schedule ''startTime'' = JStr s"
    using m(1) p(1) that timePattern_nonempty[of s] by auto
  have b: "(msgEnd \<notin> set errs) = timePattern e" if "getProp schedule ''endTime'' = JStr e"
    using m(2) p(2) that timePattern_nonempty[of e] by auto
  show ?thesis
    using errs a b by (simp add: timePattern_iff)
qed

text \<open>
  At \<^verbatim>\<open>9:30\<close> and \<^verbatim>\<open>25:00\<close>: the first is such a text, the second is not.
\<close>

theorem time_format_accepted_iff_witness:
  "(\<exists>h m. h \<le> 23 \<and> m \<le> 59 \<and> (''9:30'' = hhmm h m \<or> (h \<le> 9 \<and> ''9:30'' = hmm h m)))
   \<and> \<not> (\<exists>h m. h \<le> 23 \<and> m \<le> 59 \<and> (''25:00'' = hhmm h m \<or> (h \<le> 9 \<and> ''25:00'' = hmm h m)))"
proof -
  have n: "\<not> nullish (scheduleAt ''9:30'' ''25:00'')" by (simp add: nullish_def scheduleAt_def)
  have v: "validateSchedule 0 (scheduleAt ''9:30'' ''25:00'') = Inr [msgEnd]"
    by (simp only: validate_scheduleAt) (simp add: clock_eval)
  have g: "getProp (scheduleAt ''9:30'' ''25:00'') ''startTime'' = JStr ''9:30''"
    "getProp (scheduleAt ''9:30'' ''25:00'') ''endTime'' = JStr ''25:00''"
    by (simp_all add: scheduleAt_def)
  have p: "printable (getProp (scheduleAt ''9:30'' ''25:00'') ''startTime'')"
    "printable (getProp (scheduleAt ''9:30'' ''25:00'') ''endTime'')"
    unfolding g by (simp_all add: printable_simps)
  have "(msgStart \<notin> set [msgEnd]) =
          (\<exists>h m. h \<le> 23 \<and> m \<le> 59 \<and> (''9:30'' = hhmm h m \<or> (h \<le> 9 \<and> ''9:30'' = hmm h m)))
      \<and> (msgEnd \<notin> set [msgEnd]) =
          (\<exists>h m. h \<le> 23 \<and> m \<le> 59 \<and> (''25:00'' = hhmm h m \<or> (h \<le> 9 \<and> ''25:00'' = hmm h m)))"
    using time_format_accepted_iff[OF n p, of 0 "''9:30''" "''25:00''"] unfolding v g by simp
  then show ?thesis by (simp add: msg_neq)
qed

text \<open>
  Claim C3 as stated fails: \<^verbatim>\<open>9:30\<close> is not of the two-digit form, and a record
  with this start time passes validation with no message at all.
\<close>

theorem one_digit_hour_passes_validation:
  "\<not> twoDigitTime ''9:30'' \<and> validateSchedule 0 (scheduleAt ''9:30'' ''10:30'') = Inr []"
  by (simp only: validate_scheduleAt) (simp add: clock_eval)

text \<open>
  Claim C4, as amended. Take a record whose two times can be turned into strings.
  When both times are two-digit \<^verbatim>\<open>HH:MM\<close> texts (hours 00 to 23, minutes 00 to 59),
  the ordering message is in the result exactly when the end is not strictly later
  than the start, so equal times are rejected. When either time is missing or
  empty, the ordering message is not in the result.
\<close>

theorem time_order_checked_for_two_digit_times:
  assumes "\<not> nullish schedule"
    and "printable (getProp schedule ''startTime'')"
    and "printable (getProp schedule ''endTime'')"
  shows "\<exists>errs. validateSchedule tz schedule = Inr errs
    \<and> (h1 \<le> 23 \<and> m1 \<le> 59 \<and> h2 \<le> 23 \<and> m2 \<le> 59
        \<and> getProp schedule ''startTime'' = JStr (hhmm h1 m1)
        \<and> getProp schedule ''endTime'' = JStr (hhmm h2 m2) \<longrightarrow>
         (msgOrder \<in> set errs) = (\<not> h1 * 60 + m1 < h2 * 60 + m2))
    \<and> (\<not> truthy (getProp schedule ''startTime'') \<or> \<not> truthy (getProp schedule ''endTime'') \<longrightarrow>
         msgOrder \<notin> set errs)"
proof -
  from assms(2,3) obtain s' f' where p: "toString (getProp schedule ''startTime'') = Inr s'"
    "toString (getProp schedule ''endTime'') = Inr f'"
    unfolding printable_iff by blast
  obtain errs where errs: "validateSchedule tz schedule = Inr errs"
    using validateSchedule_Inr[OF assms(1) p] by blast
  note m = msg_mem(3)[OF assms(1) p errs]
  have "(msgOrder \<in> set errs) = (\<not> h1 * 60 + m1 < h2 * 60 + m2)"
    if t: "h1 \<le> 23" "m1 \<le> 59" "h2 \<le> 23" "m2 \<le> 59"
      "getProp schedule ''startTime'' = JStr (hhmm h1 m1)"
      "getProp schedule ''endTime'' = JStr (hhmm h2 m2)"
  proof -
    from p t(5,6) have "s' = hhmm h1 m1" "f' = hhmm h2 m2" by simp_all
    then show ?thesis
      using m t dateLe_hhmm[OF t(1-4), of tz] by (simp add: hhmm_nonempty not_less)
  qed
  moreover have "msgOrder \<notin> set errs"
    if "\<not> truthy (getProp schedule ''startTime'') \<or> \<not> truthy (getProp schedule ''endTime'')"
    using m that by auto
  ultimately show ?thesis using errs by blast
qed

text \<open>Start \<^verbatim>\<open>10:00\<close>, end \<^verbatim>\<open>09:00\<close>: the ordering message is there.\<close>

theorem time_order_checked_for_two_digit_times_witness:
  "\<exists>errs. validateSchedule 0 (scheduleAt ''10:00'' ''09:00'') = Inr errs \<and> msgOrder \<in> set errs"
proof -
  have n: "\<not> nullish (scheduleAt ''10:00'' ''09:00'')" by (simp add: nullish_def scheduleAt_def)
  have p: "printable (getProp (scheduleAt ''10:00'' ''09:00'') ''startTime'')"
    "printable (getProp (scheduleAt ''10:00'' ''09:00'') ''endTime'')"
    by (simp_all add: scheduleAt_def printable_simps)
  show ?thesis
    using time_order_checked_for_two_digit_times[OF n p, of 0 10 0 9 0]
    by (auto simp: scheduleAt_def clock_samples)
qed

text \<open>
  Claim C4 as stated fails: the start time \<^verbatim>\<open>12\<close> is malformed (and gets the format
  message), yet the ordering message is added as well, because the guard only asks
  that both times be given and the date \<^verbatim>\<open>1970-01-01T12:00\<close> is a valid one.
\<close>

theorem order_error_despite_malformed_start:
  "\<not> timePattern ''12'' \<and> \<not> twoDigitTime ''12''
   \<and> validateSchedule 0 (scheduleAt ''12'' ''10:00'') = Inr [msgStart, msgOrder]"
  by (simp only: validate_scheduleAt) (simp add: clock_eval)

subsection \<open>The handler and the store\<close>

lemma getCurrentSchedules_eq:
  "getCurrentSchedules env =
     Request (requestOptions env getPath ''GET'' None) (\<lambda>out. Done (readResult env out))"
  by (simp add: getCurrentSchedules_def githubRequest_def readResult_def)

lemma getCurrentSchedules_part000_eq:
  "getCurrentSchedules_part000 env =
     Request (requestOptions env getPath ''GET'' None) (\<lambda>out. Done (readResult_part000 env out))"
  by (simp add: getCurrentSchedules_part000_def githubRequest_part000_def readResult_part000_def)

lemma updateGitHubFile_eq:
  "updateGitHubFile env xs msg tok =
     Request (requestOptions env putPath ''PUT'' (Some (updatePayload env xs msg tok)))
       (\<lambda>out. Done (settle env out))"
  by (simp add: updateGitHubFile_def githubRequest_def)

lemma catchAll_native: "status (catchAll (TypeError m)) = 500"
  by (simp add: catchAll_def jsonResponse_def)

lemma handlePost_invalid:
  "validateSchedule (tzOffset env) body \<noteq> Inr [] \<Longrightarrow>
   \<exists>resp. handlePost env body = Done (body, resp) \<and> 400 \<le> status resp
     \<and> (\<forall>errs. validateSchedule (tzOffset env) body = Inr errs \<longrightarrow>
            resp = jsonResponse 400 (errorReply (joinWith '', '' errs)))
     \<and> (\<forall>e. validateSchedule (tzOffset env) body = Inl e \<longrightarrow> status resp = 500)"
proof (cases "validateSchedule (tzOffset env) body")
  case (Inl e)
  from validateSchedule_throws[OF Inl] obtain m where "e = TypeError m" by blast
  with Inl show ?thesis by (simp add: handlePost_def catchAll_native)
next
  case (Inr errs)
  assume "validateSchedule (tzOffset env) body \<noteq> Inr []"
  with Inr have "errs \<noteq> []" by simp
  with Inr show ?thesis by (simp add: handlePost_def jsonResponse_def)
qed

lemma handlePut_invalid:
  assumes "\<not> truthy (getProp body ''id'') \<or> validateSchedule (tzOffset env) body \<noteq> Inr []"
  shows "\<exists>resp. handlePut env body = Done (body, resp) \<and> 400 \<le> status resp
     \<and> (\<not> nullish body \<and> \<not> truthy (getProp body ''id'') \<longrightarrow>
            resp = jsonResponse 400 (errorReply ''ID jadwal wajib diisi''))
     \<and> (truthy (getProp body ''id'') \<longrightarrow>
          (\<forall>errs. validateSchedule (tzOffset env) body = Inr errs \<longrightarrow>
            resp = jsonResponse 400 (errorReply (joinWith '', '' errs)))
          \<and> (\<forall>e. validateSchedule (tzOffset env) body = Inl e \<longrightarrow> status resp = 500))"
proof (cases "nullish body")
  case True
  then have "\<not> truthy (getProp body ''id'')" by (auto simp: nullish_def)
  with True show ?thesis
    by (simp add: handlePut_def cannotRead_def catchAll_native)
next
  case False
  show ?thesis
  proof (cases "truthy (getProp body ''id'')")
    case no: False
    with False show ?thesis by (simp add: handlePut_def jsonResponse_def)
  next
    case yes: True
    with assms have v: "validateSchedule (tzOffset env) body \<noteq> Inr []" by simp
    show ?thesis
    proof (cases "validateSchedule (tzOffset env) body")
      case (Inl e)
      from validateSchedule_throws[OF Inl] obtain m where "e = TypeError m" by blast
      with Inl False yes show ?thesis by (simp add: handlePut_def catchAll_native)
    next
      case (Inr errs)
      with v have "errs \<noteq> []" by simp
      with Inr False yes show ?thesis by (simp add: handlePut_def jsonResponse_def)
    qed
  qed
qed

lemma handler_dispatch:
  assumes "TOKEN env \<noteq> None" "TOKEN env \<noteq> Some []"
  shows "httpMethod req = ''GET'' \<Longrightarrow> handler env req = handleGet env (reqBody req)"
    and "httpMethod req = ''POST'' \<Longrightarrow> handler env req = handlePost env (reqBody req)"
    and "httpMethod req = ''PUT'' \<Longrightarrow> handler env req = handlePut env (reqBody req)"
    and "httpMethod req = ''DELETE'' \<Longrightarrow>
           handler env req = handleDelete env (reqBody req) (reqQuery req)"
  using assms by (auto simp: handler_def)

text \<open>
  Claim C5. A create whose input fails validation, and an update that has no id or
  whose input fails validation, is answered without any request to the store: the
  handler is done at once, so whatever the store would answer, the list of requests
  sent is empty and the stored collection is untouched. With the token set and a
  body that is not nullish, the answer is the 400 response with the missing-id
  message or the joined validation messages; it is a 500 response when validation
  itself throws, which it does for a time that has no string.
\<close>

theorem invalid_input_returns_before_any_request:
  assumes "(httpMethod req = ''POST'' \<and> validateSchedule (tzOffset env) (reqBody req) \<noteq> Inr [])
    \<or> (httpMethod req = ''PUT''
         \<and> (\<not> truthy (getProp (reqBody req) ''id'')
             \<or> validateSchedule (tzOffset env) (reqBody req) \<noteq> Inr []))"
  shows "\<exists>resp. handler env req = Done (reqBody req, resp)
    \<and> runIO (handler env req) outs = ([], Some (reqBody req, resp))
    \<and> 400 \<le> status resp
    \<and> (TOKEN env \<noteq> None \<and> TOKEN env \<noteq> Some [] \<and> \<not> nullish (reqBody req) \<longrightarrow>
         ((httpMethod req = ''PUT'' \<and> \<not> truthy (getProp (reqBody req) ''id''))
            \<or> (\<exists>errs. validateSchedule (tzOffset env) (reqBody req) = Inr errs) \<longrightarrow>
              status resp = 400)
         \<and> (httpMethod req = ''PUT'' \<and> \<not> truthy (getProp (reqBody req) ''id'') \<longrightarrow>
              resp = jsonResponse 400 (errorReply ''ID jadwal wajib diisi''))
         \<and> (httpMethod req = ''POST'' \<or> truthy (getProp (reqBody req) ''id'') \<longrightarrow>
              (\<forall>errs. validateSchedule (tzOffset env) (reqBody req) = Inr errs \<longrightarrow>
                 resp = jsonResponse 400 (errorReply (joinWith '', '' errs)))
              \<and> (\<forall>e. validateSchedule (tzOffset env) (reqBody req) = Inl e \<longrightarrow>
                    status resp = 500)))"
proof (cases "TOKEN env = None \<or> TOKEN env = Some []")
  case True
  with assms show ?thesis by (auto simp: handler_def jsonResponse_def)
next
  case False
  from assms show ?thesis
  proof
    assume a: "httpMethod req = ''POST'' \<and> validateSchedule (tzOffset env) (reqBody req) \<noteq> Inr []"
    then obtain resp where r: "handlePost env (reqBody req) = Done (reqBody req, resp)"
      "400 \<le> status resp"
      "\<forall>errs. validateSchedule (tzOffset env) (reqBody req) = Inr errs \<longrightarrow>
            resp = jsonResponse 400 (errorReply (joinWith '', '' errs))"
      "\<forall>e. validateSchedule (tzOffset env) (reqBody req) = Inl e \<longrightarrow> status resp = 500"
      using handlePost_invalid[of env "reqBody req"] by blast
    have h: "handler env req = Done (reqBody req, resp)"
      using a False r(1) by (auto simp: handler_def)
    have "(\<exists>errs. validateSchedule (tzOffset env) (reqBody req) = Inr errs) \<Longrightarrow> status resp = 400"
      using r(3) by (auto simp: jsonResponse_def)
    with h r a show ?thesis by auto
  next
    assume a: "httpMethod req = ''PUT''
         \<and> (\<not> truthy (getProp (reqBody req) ''id'')
             \<or> validateSchedule (tzOffset env) (reqBody req) \<noteq> Inr [])"
    then obtain resp where r: "handlePut env (reqBody req) = Done (reqBody req, resp)"
      "400 \<le> status resp"
      "\<not> nullish (reqBody req) \<and> \<not> truthy (getProp (reqBody req) ''id'') \<longrightarrow>
            resp = jsonResponse 400 (errorReply ''ID jadwal wajib diisi'')"
      "truthy (getProp (reqBody req) ''id'') \<longrightarrow>
          (\<forall>errs. validateSchedule (tzOffset env) (reqBody req) = Inr errs \<longrightarrow>
            resp = jsonResponse 400 (errorReply (joinWith '', '' errs)))
          \<and> (\<forall>e. validateSchedule (tzOffset env) (reqBody req) = Inl e \<longrightarrow> status resp = 500)"
      using handlePut_invalid[of "reqBody req" env] by blast
    have h: "handler env req = Done (reqBody req, resp)"
      using a False r(1) by (auto simp: handler_def)
    have "\<not> nullish (reqBody req) \<Longrightarrow>
          \<not> truthy (getProp (reqBody req) ''id'')
            \<or> (\<exists>errs. validateSchedule (tzOffset env) (reqBody req) = Inr errs)
          \<Longrightarrow> status resp = 400"
      using r(3,4) by (auto simp: jsonResponse_def)
    with h r a show ?thesis by auto
  qed
qed

text \<open>A create with the record that breaks four rules: no request, status 400.\<close>

theorem invalid_input_returns_before_any_request_witness:
  "\<exists>resp. runIO (handler sampleEnv postBad) [fileAnswer, committedAnswer]
            = ([], Some (badSchedule, resp))
     \<and> status resp = 400"
proof -
  have n: "\<not> nullish badSchedule" by (simp add: nullish_def badSchedule_def)
  have t: "toString (getProp badSchedule ''startTime'') = Inr ''10:00''"
    "toString (getProp badSchedule ''endTime'') = Inr ''09:00''"
    by (simp_all add: badSchedule_def)
  have "classInvalid badSchedule"
    by (simp add: classInvalid_def badSchedule_def arrayIncludes_def)
  then have v: "validateSchedule (tzOffset sampleEnv) (reqBody postBad) \<noteq> Inr []"
    "\<exists>errs. validateSchedule (tzOffset sampleEnv) (reqBody postBad) = Inr errs"
    by (simp_all add: postBad_def validateSchedule_Inr[OF n t])
  have k: "TOKEN sampleEnv \<noteq> None" "TOKEN sampleEnv \<noteq> Some []" by (simp_all add: sampleEnv_def)
  have "httpMethod postBad = ''POST''" "reqBody postBad = badSchedule" by (simp_all add: postBad_def)
  with v n k show ?thesis
    using invalid_input_returns_before_any_request[of postBad sampleEnv
        "[fileAnswer, committedAnswer]"]
    by auto
qed

lemma readResult_404:
  assumes "jsonParse env (if body = [] then ''{}'' else body) = Inr json" "\<not> nullish json"
  shows "readResult env (HttpResponse 404 ctype body) = Inr emptySnapshot"
  using assms
  by (simp add: readResult_def settle_def onEnd_def snapshotOf_def catchNotFound_def)

lemma readResult_no_content:
  assumes "jsonParse env (if body = [] then ''{}'' else body) = Inr json" "\<not> nullish json"
    "200 \<le> st" "st < 300" "\<not> truthy (getProp json ''content'')"
  shows "readResult env (HttpResponse st ctype body) = Inr emptySnapshot"
  using assms
  by (simp add: readResult_def settle_def onEnd_def snapshotOf_def readFile_def)

lemma readResult_part000_no_content:
  assumes "jsonParse env (if body = [] then ''{}'' else body) = Inr json" "\<not> nullish json"
    "\<not> truthy (getProp json ''content'')"
  shows "readResult_part000 env (HttpResponse st (Some ct) body) = Inr emptySnapshot"
  using assms
  by (auto simp: readResult_part000_def settle_part000_def onEnd_part000_def
      snapshotOf_part000_def readFile_def split: jsval.splits)

text \<open>
  Claim C6. When the store answers the read with status 404, or with a success
  status and no content, and the body of the answer is JSON (an empty body counts
  as \<^verbatim>\<open>{}\<close>), \<^verbatim>\<open>getCurrentSchedules\<close> returns the empty collection and no token, as
  a result and not as an error, and a list request answers 200 with the empty
  list. The second source file returns the same for an answer with no content,
  whatever its status.
\<close>

theorem never_written_blob_reads_as_empty:
  assumes "jsonParse env (if body = [] then ''{}'' else body) = Inr json" and "\<not> nullish json"
    and "st = 404 \<or> (200 \<le> st \<and> st < 300 \<and> \<not> truthy (getProp json ''content''))"
  shows "runIO (getCurrentSchedules env) [HttpResponse st ctype body]
           = ([requestOptions env getPath ''GET'' None],
              Some (Inr \<lparr>schedules = JArr [], sha = JNull\<rparr>))
    \<and> (TOKEN env \<noteq> None \<and> TOKEN env \<noteq> Some [] \<and> httpMethod req = ''GET'' \<longrightarrow>
         runIO (handler env req) [HttpResponse st ctype body]
           = ([requestOptions env getPath ''GET'' None],
              Some (reqBody req, jsonResponse 200 (JArr []))))
    \<and> (\<not> truthy (getProp json ''content'') \<longrightarrow>
         runIO (getCurrentSchedules_part000 env) [HttpResponse st (Some ct) body]
           = ([requestOptions env getPath ''GET'' None],
              Some (Inr \<lparr>schedules = JArr [], sha = JNull\<rparr>)))"
proof -
  have r: "readResult env (HttpResponse st ctype body) = Inr emptySnapshot"
    using assms readResult_404 readResult_no_content by blast
  have "handler env req = handleGet env (reqBody req)"
    if "TOKEN env \<noteq> None" "TOKEN env \<noteq> Some []" "httpMethod req = ''GET''"
    using that by (simp add: handler_dispatch)
  then show ?thesis
    using r readResult_part000_no_content[OF assms(1,2), of st ct]
    by (simp add: getCurrentSchedules_eq getCurrentSchedules_part000_eq handleGet_def
        emptySnapshot_def orElse_def)
qed

lemma render_notFound_ne: "render notFoundJson \<noteq> []"
  by (simp add: notFoundJson_def quoted_def)

lemmas sample_values =
  knownValues_def notFoundJson_def committedJson_def fileJson_def emptyFileJson_def
  reducedFileJson_def storedList_def storedFirst_def storedSecond_def scheduleAt_def
  quoted_def sampleEncode_def

lemma parse_notFound: "sampleParse (render notFoundJson) = Inr notFoundJson"
  by (simp add: sampleParse_def sample_values)

text \<open>The not-found answer of the sample store, status 404 with a JSON message.\<close>

theorem never_written_blob_reads_as_empty_witness:
  "runIO (getCurrentSchedules sampleEnv) [notFoundAnswer]
     = ([requestOptions sampleEnv getPath ''GET'' None],
        Some (Inr \<lparr>schedules = JArr [], sha = JNull\<rparr>))"
proof -
  have "jsonParse sampleEnv (if render notFoundJson = [] then ''{}'' else render notFoundJson)
          = Inr notFoundJson"
    using parse_notFound render_notFound_ne by (simp add: sampleEnv_def)
  moreover have "\<not> nullish notFoundJson" by (simp add: nullish_def notFoundJson_def)
  ultimately show ?thesis
    using never_written_blob_reads_as_empty[of sampleEnv "render notFoundJson" notFoundJson 404
        jsonType]
    by (simp add: notFoundAnswer_def)
qed

text \<open>
  Claim C9, as amended. When the body of the answer cannot be parsed as JSON,
  \<^verbatim>\<open>githubRequest\<close> does not crash: the promise is rejected with the object of
  status code 500, message \<^verbatim>\<open>JSON parse error\<close> and, as \<^verbatim>\<open>details\<close>, the message of
  the parser's exception. In the second source file this holds for an answer whose
  content type is JSON.
\<close>

theorem undecodable_response_is_rejected_with_parser_message:
  assumes "jsonParse env (if body = [] then ''{}'' else body) = Inl e"
  shows "runIO (githubRequest env path method data) [HttpResponse st ctype body]
           = ([requestOptions env path method data],
              Some (Inl (Rejected \<lparr>statusCode = 500, message = JStr ''JSON parse error'',
                                    details = errorMessage e, errors = JUndefined\<rparr>)))
    \<and> (isInfixOf ''application/json'' ct \<longrightarrow>
         runIO (githubRequest_part000 env path method data) [HttpResponse st (Some ct) body]
           = ([requestOptions env path method data],
              Some (Inl (Rejected \<lparr>statusCode = 500, message = JStr ''JSON parse error'',
                                    details = errorMessage e, errors = JUndefined\<rparr>))))"
  using assms
  by (simp add: githubRequest_def githubRequest_part000_def settle_def settle_part000_def
      onEnd_def onEnd_part000_def parseErrorRejection_def)

lemma parse_html: "sampleParse htmlBody = Inl (SyntaxError htmlMessage)"
  by (simp add: sampleParse_def sample_values htmlBody_def unexpectedToken_def htmlMessage_def)

text \<open>An HTML error page as the answer.\<close>

theorem undecodable_response_is_rejected_with_parser_message_witness:
  "runIO (githubRequest sampleEnv getPath ''GET'' None) [htmlAnswer]
     = ([requestOptions sampleEnv getPath ''GET'' None],
        Some (Inl (Rejected \<lparr>statusCode = 500, message = JStr ''JSON parse error'',
                 details = JStr htmlMessage, errors = JUndefined\<rparr>)))"
proof -
  have "jsonParse sampleEnv (if htmlBody = [] then ''{}'' else htmlBody)
        = Inl (SyntaxError htmlMessage)"
    using parse_html by (simp add: sampleEnv_def htmlBody_def)
  then show ?thesis
    using undecodable_response_is_rejected_with_parser_message[of sampleEnv
        "htmlBody" "SyntaxError htmlMessage" getPath "''GET''" None 502
        "Some ''text/html''" "''text/html''"]
    by (simp add: htmlAnswer_def errorMessage_def)
qed

text \<open>
  Claim C9 as stated fails: for an HTML page of 52 characters the parser's message
  quotes the first ten, and the rejection holds this message and no text that
  contains the page.
\<close>

theorem rejection_does_not_carry_raw_body:
  "settle sampleEnv htmlAnswer
     = Inl (Rejected \<lparr>statusCode = 500, message = JStr ''JSON parse error'',
              details = JStr htmlMessage, errors = JUndefined\<rparr>)
   \<and> \<not> carriesBody
         (Rejected \<lparr>statusCode = 500, message = JStr ''JSON parse error'',
            details = JStr htmlMessage, errors = JUndefined\<rparr>) htmlBody"
proof -
  have "jsonParse sampleEnv htmlBody = Inl (SyntaxError htmlMessage)"
    using parse_html by (simp add: sampleEnv_def)
  moreover have "htmlBody \<noteq> []" by (simp add: htmlBody_def)
  ultimately have "settle sampleEnv htmlAnswer
     = Inl (Rejected \<lparr>statusCode = 500, message = JStr ''JSON parse error'',
              details = JStr htmlMessage, errors = JUndefined\<rparr>)"
    by (simp add: settle_def htmlAnswer_def onEnd_def parseErrorRejection_def errorMessage_def)
  moreover have "\<not> carriesBody
         (Rejected \<lparr>statusCode = 500, message = JStr ''JSON parse error'',
            details = JStr htmlMessage, errors = JUndefined\<rparr>) htmlBody"
    by (simp add: carriesBody_def htmlBody_def htmlMessage_def)
  ultimately show ?thesis by simp
qed

subsection \<open>Reading, then writing\<close>

lemma readResult_file:
  assumes "200 \<le> st" "st < 300"
    and "jsonParse env (if body = [] then ''{}'' else body) = Inr file"
    and "truthy (getProp file ''content'')"
    and "base64Decode env (getProp file ''content'') = Inr decoded"
    and "jsonParse env decoded = Inr v"
  shows "readResult env (HttpResponse st ctype body)
           = Inr \<lparr>schedules = v, sha = getProp file ''sha''\<rparr>"
proof -
  have "\<not> nullish file" using assms(4) by (auto simp: nullish_def)
  then show ?thesis
    using assms by (simp add: readResult_def settle_def onEnd_def snapshotOf_def readFile_def)
qed

lemma readResult_absent:
  assumes "jsonParse env (if body = [] then ''{}'' else body) = Inr json" "\<not> nullish json"
    and "st = 404 \<or> (200 \<le> st \<and> st < 300 \<and> \<not> truthy (getProp json ''content''))"
  shows "readResult env (HttpResponse st ctype body) = Inr \<lparr>schedules = JArr [], sha = JNull\<rparr>"
  using assms readResult_404[of env body json ctype] readResult_no_content[of env body json st ctype]
  by (auto simp: emptySnapshot_def)

lemma settle_ok:
  assumes "200 \<le> st" "st < 300" "jsonParse env (if body = [] then ''{}'' else body) = Inr ok"
  shows "settle env (HttpResponse st ctype body) = Inr ok"
  using assms by (simp add: settle_def onEnd_def)

lemma updatePayload_explicit:
  "updatePayload env xs msg tok =
     JObj ([(''message'', JStr msg),
            (''content'', JStr (base64Encode env (jsonStringify env (JArr xs)))),
            (''branch'', JStr ''main'')]
           @ (if truthy tok then [(''sha'', tok)] else []))"
  by (simp add: updatePayload_def BRANCH_def Let_def)

lemma payload_sha:
  "getProp (JObj ([(''message'', m), (''content'', c), (''branch'', b)]
                  @ (if truthy tok then [(''sha'', tok)] else []))) ''sha''
     = (if truthy tok then tok else JUndefined)"
  "hasOwn (JObj ([(''message'', m), (''content'', c), (''branch'', b)]
                  @ (if truthy tok then [(''sha'', tok)] else []))) ''sha'' = truthy tok"
  by simp_all

text \<open>The method, the path and the data of the read and of a write.\<close>

lemma calls_view:
  "map (\<lambda>c. (apiMethod c, apiPath c, apiData c))
     [requestOptions env getPath ''GET'' None, requestOptions env putPath ''PUT'' (Some p)]
   = [(''GET'', ''/repos/klandestin-s/api-school.man3/contents/jadwal.json?ref=main'', None),
      (''PUT'', ''/repos/klandestin-s/api-school.man3/contents/jadwal.json'', Some p)]"
  "map (\<lambda>c. (apiMethod c, apiPath c, apiData c)) [requestOptions env getPath ''GET'' None]
   = [(''GET'', ''/repos/klandestin-s/api-school.man3/contents/jadwal.json?ref=main'', None)]"
  by (simp_all add: requestOptions_def getPath_def putPath_def REPO_def FILEPATH_def BRANCH_def)

lemma strictEq_text: "strictEq v (JStr a) = (v = JStr a)"
  by (cases v) auto

lemma sameId_text: "sameId (JStr a) r = (getProp r ''id'' = JStr a)"
  by (simp add: sameId_def strictEq_text)

lemma valid_facts:
  assumes "validateSchedule tz body = Inr []"
  shows "\<exists>kvs. body = JObj kvs"
    and "getProp body ''class'' = JStr ''XI A'' \<or> getProp body ''class'' = JStr ''XI B''"
proof -
  have n: "\<not> nullish body" using assms by (auto simp: validateSchedule_def)
  have c: "\<not> classInvalid body"
    using assms n
    by (auto simp: validateSchedule_def Let_def split: sum.splits if_splits)
  then have "truthy (getProp body ''class'')" by (simp add: classInvalid_def)
  then show "\<exists>kvs. body = JObj kvs" by (cases body) simp_all
  from c show "getProp body ''class'' = JStr ''XI A'' \<or> getProp body ''class'' = JStr ''XI B''"
    by (auto simp: classInvalid_def arrayIncludes_def strictEq_text
        elim!: strictEq.elims)
qed

lemma getProp_setProp:
  "getProp (setProp (JObj kvs) k v) k' = (if k' = k then v else getProp (JObj kvs) k')"
  by (simp add: update_conv')

lemma findIndexById_Some:
  "findIndexById ident xs = Inr (Some i) \<Longrightarrow>
   i < length xs \<and> sameId ident (xs ! i) \<and> (\<forall>j<i. \<not> sameId ident (xs ! j))"
proof (induction xs arbitrary: i)
  case Nil
  then show ?case by simp
next
  case (Cons x xs)
  show ?case
  proof (cases "sameId ident x")
    case True
    with Cons.prems show ?thesis by (simp split: if_splits)
  next
    case False
    with Cons.prems obtain i' where i': "findIndexById ident xs = Inr (Some i')" "i = Suc i'"
      by (auto split: if_splits sum.splits option.splits)
    from Cons.IH[OF i'(1)] False i'(2) show ?thesis
      by (auto simp: nth_Cons' less_Suc_eq_0_disj)
  qed
qed

lemma findIndexById_records:
  "\<forall>r\<in>set xs. \<not> nullish r \<Longrightarrow>
   findIndexById ident xs = Inr None \<and> (\<forall>r\<in>set xs. \<not> sameId ident r)
   \<or> (\<exists>i. findIndexById ident xs = Inr (Some i) \<and> (\<exists>r\<in>set xs. sameId ident r))"
  by (induction xs) auto

text \<open>
  The runs of the three operations that write, once the read has returned the
  collection \<open>xs\<close> under the token \<open>tok\<close>: the requests sent, and the result when
  the store answers the write as well.
\<close>

lemma handlePost_run:
  assumes "validateSchedule (tzOffset env) body = Inr []"
    and "readResult env out = Inr \<lparr>schedules = JArr xs, sha = tok\<rparr>"
    and "toString (getProp body ''subject'') = Inr s"
    and "getProp body ''class'' = JStr c"
    and "created = setProp body ''id''
                     (JStr (''jadwal_'' @ decimal (dateNow env) @ ''_'' @ randomSuffix env))"
  shows "runIO (handlePost env body) (out # outs)
    = ([requestOptions env getPath ''GET'' None,
        requestOptions env putPath ''PUT''
          (Some (JObj ([(''message'', JStr (''Tambah jadwal: '' @ s @ '' untuk '' @ c)),
                        (''content'',
                           JStr (base64Encode env (jsonStringify env (JArr (xs @ [created]))))),
                        (''branch'', JStr ''main'')]
                       @ (if truthy tok then [(''sha'', tok)] else []))))],
       case outs of
         [] \<Rightarrow> None
       | out2 # rest \<Rightarrow>
           Some (created,
                 case settle env out2 of
                   Inl e \<Rightarrow> catchAll e
                 | Inr ok \<Rightarrow>
                     \<lparr>status = 201,
                      sent = Some (JObj [(''success'', JBool True),
                                         (''message'', JStr ''Jadwal berhasil ditambahkan''),
                                         (''schedule'', created)])\<rparr>))"
proof -
  from valid_facts(1)[OF assms(1)] obtain kvs where b: "body = JObj kvs" by blast
  have g: "setProp body ''id'' (JStr (generateScheduleId env)) = created"
    by (simp add: generateScheduleId_def assms(5))
  have "getProp created ''subject'' = getProp body ''subject''"
    "getProp created ''class'' = getProp body ''class''"
    unfolding assms(5) b getProp_setProp by simp_all
  then have m: "commitMessage ''Tambah'' created = Inr (''Tambah jadwal: '' @ s @ '' untuk '' @ c)"
    by (simp add: commitMessage_def assms(3,4))
  show ?thesis
    by (cases outs)
      (simp_all add: handlePost_def assms(1,2) g m getCurrentSchedules_eq updateGitHubFile_eq
        updatePayload_explicit spread_def Let_def successReply_def jsonResponse_def
        split: sum.splits)
qed

lemma handlePut_run:
  assumes "truthy (getProp body ''id'')"
    and "validateSchedule (tzOffset env) body = Inr []"
    and "readResult env out = Inr \<lparr>schedules = JArr xs, sha = tok\<rparr>"
    and "findIndexById (getProp body ''id'') xs = Inr (Some i)"
    and "toString (getProp body ''subject'') = Inr s"
    and "getProp body ''class'' = JStr c"
  shows "runIO (handlePut env body) (out # outs)
    = ([requestOptions env getPath ''GET'' None,
        requestOptions env putPath ''PUT''
          (Some (JObj ([(''message'', JStr (''Update jadwal: '' @ s @ '' untuk '' @ c)),
                        (''content'',
                           JStr (base64Encode env (jsonStringify env (JArr (xs[i := body]))))),
                        (''branch'', JStr ''main'')]
                       @ (if truthy tok then [(''sha'', tok)] else []))))],
       case outs of
         [] \<Rightarrow> None
       | out2 # rest \<Rightarrow>
           Some (body,
                 case settle env out2 of
                   Inl e \<Rightarrow> catchAll e
                 | Inr ok \<Rightarrow>
                     \<lparr>status = 200,
                      sent = Some (JObj [(''success'', JBool True),
                                         (''message'', JStr ''Jadwal berhasil diperbarui''),
                                         (''schedule'', body)])\<rparr>))"
proof -
  have n: "\<not> nullish body" using assms(1) by (auto simp: nullish_def)
  have m: "commitMessage ''Update'' body = Inr (''Update jadwal: '' @ s @ '' untuk '' @ c)"
    by (simp add: commitMessage_def assms(5,6))
  show ?thesis
    by (cases outs)
      (simp_all add: handlePut_def n assms(1,2,3,4) m getCurrentSchedules_eq updateGitHubFile_eq
        updatePayload_explicit findIndex_def successReply_def jsonResponse_def
        split: sum.splits)
qed

lemma handlePut_run_missing:
  assumes "truthy (getProp body ''id'')"
    and "validateSchedule (tzOffset env) body = Inr []"
    and "readResult env out = Inr \<lparr>schedules = JArr xs, sha = tok\<rparr>"
    and "findIndexById (getProp body ''id'') xs = Inr None"
  shows "runIO (handlePut env body) (out # outs)
    = ([requestOptions env getPath ''GET'' None],
       Some (body, \<lparr>status = 404, sent = Some (JObj [(''error'', JStr ''Jadwal tidak ditemukan'')])\<rparr>))"
proof -
  have n: "\<not> nullish body" using assms(1) by (auto simp: nullish_def)
  show ?thesis
    by (simp add: handlePut_def n assms getCurrentSchedules_eq findIndex_def jsonResponse_def
        errorReply_def)
qed

lemma handleDelete_run:
  assumes "truthy (getProp query ''id'')"
    and "readResult env out = Inr \<lparr>schedules = JArr xs, sha = tok\<rparr>"
    and "findIndexById (getProp query ''id'') xs = Inr (Some i)"
    and "toString (getProp (xs ! i) ''subject'') = Inr s"
    and "toString (getProp (xs ! i) ''class'') = Inr c"
  shows "runIO (handleDelete env body query) (out # outs)
    = ([requestOptions env getPath ''GET'' None,
        requestOptions env putPath ''PUT''
          (Some (JObj ([(''message'', JStr (''Hapus jadwal: '' @ s @ '' untuk '' @ c)),
                        (''content'',
                           JStr (base64Encode env
                                   (jsonStringify env (JArr (take i xs @ drop (Suc i) xs))))),
                        (''branch'', JStr ''main'')]
                       @ (if truthy tok then [(''sha'', tok)] else []))))],
       case outs of
         [] \<Rightarrow> None
       | out2 # rest \<Rightarrow>
           Some (body,
                 case settle env out2 of
                   Inl e \<Rightarrow> catchAll e
                 | Inr ok \<Rightarrow>
                     \<lparr>status = 200,
                      sent = Some (JObj [(''success'', JBool True),
                                         (''message'', JStr ''Jadwal berhasil dihapus''),
                                         (''schedule'', xs ! i)])\<rparr>))"
proof -
  have n: "\<not> nullish query" using assms(1) by (auto simp: nullish_def)
  have m: "commitMessage ''Hapus'' (xs ! i) = Inr (''Hapus jadwal: '' @ s @ '' untuk '' @ c)"
    by (simp add: commitMessage_def assms(4,5))
  show ?thesis
    by (cases outs)
      (simp_all add: handleDelete_def n assms(1,2,3) m getCurrentSchedules_eq updateGitHubFile_eq
        updatePayload_explicit findIndex_def Let_def successReply_def jsonResponse_def
        split: sum.splits)
qed

lemma handleDelete_run_missing:
  assumes "truthy (getProp query ''id'')"
    and "readResult env out = Inr \<lparr>schedules = JArr xs, sha = tok\<rparr>"
    and "findIndexById (getProp query ''id'') xs = Inr None"
  shows "runIO (handleDelete env body query) (out # outs)
    = ([requestOptions env getPath ''GET'' None],
       Some (body, \<lparr>status = 404, sent = Some (JObj [(''error'', JStr ''Jadwal tidak ditemukan'')])\<rparr>))"
proof -
  have n: "\<not> nullish query" using assms(1) by (auto simp: nullish_def)
  show ?thesis
    by (simp add: handleDelete_def n assms getCurrentSchedules_eq findIndex_def Let_def
        jsonResponse_def errorReply_def)
qed

text \<open>
  A subject that has no string stops a create after the read: nothing is written
  and the answer is the 500 response of the \<^verbatim>\<open>catch\<close> block.
\<close>

lemma handlePost_unprintable_subject:
  assumes "validateSchedule (tzOffset env) body = Inr []"
    and "readResult env out = Inr \<lparr>schedules = JArr xs, sha = tok\<rparr>"
    and "\<not> printable (getProp body ''subject'')"
  shows "\<exists>created resp. runIO (handlePost env body) (out # outs)
           = ([requestOptions env getPath ''GET'' None], Some (created, resp))
         \<and> status resp = 500"
proof -
  from valid_facts(1)[OF assms(1)] obtain kvs where b: "body = JObj kvs" by blast
  let ?created = "setProp body ''id'' (JStr (generateScheduleId env))"
  have "getProp ?created ''subject'' = getProp body ''subject''"
    unfolding b getProp_setProp by simp
  moreover from assms(3) obtain e where "toString (getProp body ''subject'') = Inl e"
    by (cases "toString (getProp body ''subject'')") (simp_all add: printable_def)
  moreover from this have "e = cannotConvert" by (rule toString_failure)
  ultimately have m: "commitMessage ''Tambah'' ?created = Inl (TypeError ''Cannot convert object to primitive value'')"
    by (simp add: commitMessage_def cannotConvert_def)
  show ?thesis
    by (simp add: handlePost_def assms(1,2) m getCurrentSchedules_eq spread_def Let_def
        catchAll_native)
qed

lemma findIndexById_first:
  assumes "\<forall>r\<in>set xs. \<not> nullish r"
    and "i < length xs" and "sameId ident (xs ! i)" and "\<forall>j<i. \<not> sameId ident (xs ! j)"
  shows "findIndexById ident xs = Inr (Some i)"
proof -
  have "\<exists>r\<in>set xs. sameId ident r" using assms(2,3) nth_mem by blast
  with findIndexById_records[OF assms(1), of ident]
  obtain k where k: "findIndexById ident xs = Inr (Some k)" by blast
  from findIndexById_Some[OF k] have f: "k < length xs" "sameId ident (xs ! k)"
    "\<forall>j<k. \<not> sameId ident (xs ! j)" by simp_all
  have "\<not> k < i" using assms(4) f(2) by blast
  moreover have "\<not> i < k" using f(3) assms(3) by blast
  ultimately have "k = i" by simp
  with k show ?thesis by simp
qed

lemma findIndexById_text:
  assumes "\<forall>r\<in>set xs. \<not> nullish r"
  shows "(\<exists>r\<in>set xs. getProp r ''id'' = JStr ident) \<Longrightarrow>
           \<exists>i. findIndexById (JStr ident) xs = Inr (Some i) \<and> i < length xs
               \<and> getProp (xs ! i) ''id'' = JStr ident"
    and "\<not> (\<exists>r\<in>set xs. getProp r ''id'' = JStr ident) \<Longrightarrow>
           findIndexById (JStr ident) xs = Inr None"
proof -
  assume "\<exists>r\<in>set xs. getProp r ''id'' = JStr ident"
  with findIndexById_records[OF assms, of "JStr ident"]
  obtain i where i: "findIndexById (JStr ident) xs = Inr (Some i)"
    by (auto simp: sameId_text)
  from findIndexById_Some[OF i] i
  show "\<exists>i. findIndexById (JStr ident) xs = Inr (Some i) \<and> i < length xs
               \<and> getProp (xs ! i) ''id'' = JStr ident"
    by (auto simp: sameId_text)
next
  assume "\<not> (\<exists>r\<in>set xs. getProp r ''id'' = JStr ident)"
  with findIndexById_records[OF assms, of "JStr ident"]
  show "findIndexById (JStr ident) xs = Inr None"
    by (auto simp: sameId_text)
qed

lemma write_with_token:
  assumes t: "TOKEN env \<noteq> None" "TOKEN env \<noteq> Some []"
    and rr: "readResult env out = Inr \<lparr>schedules = JArr xs, sha = tok\<rparr>"
    and recs: "\<forall>r\<in>set xs. \<not> nullish r \<and> printable (getProp r ''subject'')
                   \<and> printable (getProp r ''class'')"
    and op: "(httpMethod req = ''POST''
                \<and> validateSchedule (tzOffset env) (reqBody req) = Inr []
                \<and> printable (getProp (reqBody req) ''subject''))
           \<or> (httpMethod req = ''PUT''
                \<and> getProp (reqBody req) ''id'' = JStr ident \<and> ident \<noteq> []
                \<and> validateSchedule (tzOffset env) (reqBody req) = Inr []
                \<and> printable (getProp (reqBody req) ''subject''))
           \<or> (httpMethod req = ''DELETE''
                \<and> getProp (reqQuery req) ''id'' = JStr ident \<and> ident \<noteq> [])"
    and found: "httpMethod req = ''POST'' \<or> (\<exists>r\<in>set xs. getProp r ''id'' = JStr ident)"
  shows "\<exists>m c. map (\<lambda>c. (apiMethod c, apiPath c, apiData c))
                  (fst (runIO (handler env req) (out # outs)))
      = [(''GET'', ''/repos/klandestin-s/api-school.man3/contents/jadwal.json?ref=main'', None),
         (''PUT'', ''/repos/klandestin-s/api-school.man3/contents/jadwal.json'',
          Some (JObj ([(''message'', m), (''content'', c), (''branch'', JStr ''main'')]
                      @ (if truthy tok then [(''sha'', tok)] else []))))]"
proof -
  have nn: "\<forall>r\<in>set xs. \<not> nullish r" using recs by blast
  from op consider
    (post) "httpMethod req = ''POST''" "validateSchedule (tzOffset env) (reqBody req) = Inr []"
      "printable (getProp (reqBody req) ''subject'')"
    | (put) "httpMethod req = ''PUT''" "getProp (reqBody req) ''id'' = JStr ident" "ident \<noteq> []"
      "validateSchedule (tzOffset env) (reqBody req) = Inr []"
      "printable (getProp (reqBody req) ''subject'')"
    | (del) "httpMethod req = ''DELETE''" "getProp (reqQuery req) ''id'' = JStr ident" "ident \<noteq> []"
    by blast
  then show ?thesis
  proof cases
    case post
    from post(3) obtain s where s: "toString (getProp (reqBody req) ''subject'') = Inr s"
      unfolding printable_iff by blast
    from valid_facts(2)[OF post(2)] obtain c where c: "getProp (reqBody req) ''class'' = JStr c"
      by blast
    show ?thesis
      unfolding handler_dispatch(2)[OF t post(1)] handlePost_run[OF post(2) rr s c refl]
      by (simp only: fst_conv calls_view) blast
  next
    case put
    from put(1,2) found findIndexById_text(1)[OF nn, of ident]
    obtain i where i: "findIndexById (getProp (reqBody req) ''id'') xs = Inr (Some i)" by auto
    have tr: "truthy (getProp (reqBody req) ''id'')" using put(2,3) by simp
    from put(5) obtain s where s: "toString (getProp (reqBody req) ''subject'') = Inr s"
      unfolding printable_iff by blast
    from valid_facts(2)[OF put(4)] obtain c where c: "getProp (reqBody req) ''class'' = JStr c"
      by blast
    show ?thesis
      unfolding handler_dispatch(3)[OF t put(1)] handlePut_run[OF tr put(4) rr i s c]
      by (simp only: fst_conv calls_view) blast
  next
    case del
    from del(1,2) found findIndexById_text(1)[OF nn, of ident]
    obtain i where i: "findIndexById (getProp (reqQuery req) ''id'') xs = Inr (Some i)"
      "i < length xs" by auto
    have tr: "truthy (getProp (reqQuery req) ''id'')" using del(2,3) by simp
    from i(2) recs have "printable (getProp (xs ! i) ''subject'')"
      "printable (getProp (xs ! i) ''class'')" by simp_all
    then obtain s c where sc: "toString (getProp (xs ! i) ''subject'') = Inr s"
      "toString (getProp (xs ! i) ''class'') = Inr c"
      unfolding printable_iff by blast
    show ?thesis
      unfolding handler_dispatch(4)[OF t del(1)] handleDelete_run[OF tr rr i(1) sc]
      by (simp only: fst_conv calls_view) blast
  qed
qed

lemma write_without_token:
  assumes t: "TOKEN env \<noteq> None" "TOKEN env \<noteq> Some []"
    and rr: "readResult env out = Inr \<lparr>schedules = JArr [], sha = JNull\<rparr>"
    and op: "(httpMethod req = ''POST''
                \<and> validateSchedule (tzOffset env) (reqBody req) = Inr []
                \<and> printable (getProp (reqBody req) ''subject''))
           \<or> (httpMethod req = ''PUT''
                \<and> getProp (reqBody req) ''id'' = JStr ident \<and> ident \<noteq> []
                \<and> validateSchedule (tzOffset env) (reqBody req) = Inr []
                \<and> printable (getProp (reqBody req) ''subject''))
           \<or> (httpMethod req = ''DELETE''
                \<and> getProp (reqQuery req) ''id'' = JStr ident \<and> ident \<noteq> [])"
  shows "if httpMethod req = ''POST'' then
           \<exists>m c. map (\<lambda>c. (apiMethod c, apiPath c, apiData c))
                    (fst (runIO (handler env req) (out # outs)))
             = [(''GET'', ''/repos/klandestin-s/api-school.man3/contents/jadwal.json?ref=main'',
                 None),
                (''PUT'', ''/repos/klandestin-s/api-school.man3/contents/jadwal.json'',
                 Some (JObj [(''message'', m), (''content'', c), (''branch'', JStr ''main'')]))]
         else
           map (\<lambda>c. (apiMethod c, apiPath c, apiData c))
             (fst (runIO (handler env req) (out # outs)))
             = [(''GET'', ''/repos/klandestin-s/api-school.man3/contents/jadwal.json?ref=main'',
                 None)]"
proof -
  from op consider
    (post) "httpMethod req = ''POST''" "validateSchedule (tzOffset env) (reqBody req) = Inr []"
      "printable (getProp (reqBody req) ''subject'')"
    | (put) "httpMethod req = ''PUT''" "getProp (reqBody req) ''id'' = JStr ident" "ident \<noteq> []"
      "validateSchedule (tzOffset env) (reqBody req) = Inr []"
    | (del) "httpMethod req = ''DELETE''" "getProp (reqQuery req) ''id'' = JStr ident" "ident \<noteq> []"
    by blast
  then show ?thesis
  proof cases
    case post
    from post(3) obtain s where s: "toString (getProp (reqBody req) ''subject'') = Inr s"
      unfolding printable_iff by blast
    from valid_facts(2)[OF post(2)] obtain c where c: "getProp (reqBody req) ''class'' = JStr c"
      by blast
    have "\<exists>m c. map (\<lambda>c. (apiMethod c, apiPath c, apiData c))
                    (fst (runIO (handler env req) (out # outs)))
             = [(''GET'', ''/repos/klandestin-s/api-school.man3/contents/jadwal.json?ref=main'',
                 None),
                (''PUT'', ''/repos/klandestin-s/api-school.man3/contents/jadwal.json'',
                 Some (JObj [(''message'', m), (''content'', c), (''branch'', JStr ''main'')]))]"
      unfolding handler_dispatch(2)[OF t post(1)] handlePost_run[OF post(2) rr s c refl]
      by (simp only: fst_conv calls_view truthy.simps if_False append_Nil2) blast
    with post(1) show ?thesis by simp
  next
    case put
    have tr: "truthy (getProp (reqBody req) ''id'')" using put(2,3) by simp
    have f: "findIndexById (getProp (reqBody req) ''id'') [] = Inr None" by simp
    have np: "httpMethod req \<noteq> ''POST''" using put(1) by simp
    show ?thesis
      unfolding handler_dispatch(3)[OF t put(1)] handlePut_run_missing[OF tr put(4) rr f]
        if_not_P[OF np] fst_conv
      by (rule calls_view(2))
  next
    case del
    have tr: "truthy (getProp (reqQuery req) ''id'')" using del(2,3) by simp
    have f: "findIndexById (getProp (reqQuery req) ''id'') [] = Inr None" by simp
    have np: "httpMethod req \<noteq> ''POST''" using del(1) by simp
    show ?thesis
      unfolding handler_dispatch(4)[OF t del(1)] handleDelete_run_missing[OF tr rr f]
        if_not_P[OF np] fst_conv
      by (rule calls_view(2))
  qed
qed

text \<open>
  Claim C1, as amended. Take a create with a valid input, an update with an id and
  a valid input, or a delete with an id (the subject of a record has a string).
  When the store answers the read with a file object that has content, holding a
  collection of records (for an update or a delete, one of them with the id), the
  operation sends the read and then one write, and the payload of the write has
  as \<^verbatim>\<open>sha\<close> the \<^verbatim>\<open>sha\<close> of that file object; it has no \<^verbatim>\<open>sha\<close> exactly when the file
  object has none. When the store answers not-found, or with an object that has no
  content, a create sends its write with no \<^verbatim>\<open>sha\<close>, whatever \<^verbatim>\<open>sha\<close> the object
  without content carried, and an update or a delete sends no write at all.
\<close>

theorem write_carries_token_of_same_read:
  assumes "TOKEN env \<noteq> None" and "TOKEN env \<noteq> Some []"
    and "jsonParse env (if body = [] then ''{}'' else body) = Inr file"
    and "(httpMethod req = ''POST''
            \<and> validateSchedule (tzOffset env) (reqBody req) = Inr []
            \<and> printable (getProp (reqBody req) ''subject''))
       \<or> (httpMethod req = ''PUT''
            \<and> getProp (reqBody req) ''id'' = JStr ident \<and> ident \<noteq> []
            \<and> validateSchedule (tzOffset env) (reqBody req) = Inr []
            \<and> printable (getProp (reqBody req) ''subject''))
       \<or> (httpMethod req = ''DELETE''
            \<and> getProp (reqQuery req) ''id'' = JStr ident \<and> ident \<noteq> [])"
  shows "(200 \<le> st \<and> st < 300 \<and> truthy (getProp file ''content'')
          \<and> base64Decode env (getProp file ''content'') = Inr decoded
          \<and> jsonParse env decoded = Inr (JArr xs)
          \<and> (\<forall>r\<in>set xs. \<not> nullish r \<and> printable (getProp r ''subject'')
                           \<and> printable (getProp r ''class''))
          \<and> (httpMethod req = ''POST'' \<or> (\<exists>r\<in>set xs. getProp r ''id'' = JStr ident)) \<longrightarrow>
          (\<exists>m c. map (\<lambda>c. (apiMethod c, apiPath c, apiData c))
                    (fst (runIO (handler env req) (HttpResponse st ctype body # outs)))
             = [(''GET'', ''/repos/klandestin-s/api-school.man3/contents/jadwal.json?ref=main'',
                 None),
                (''PUT'', ''/repos/klandestin-s/api-school.man3/contents/jadwal.json'',
                 Some (JObj ([(''message'', m), (''content'', c), (''branch'', JStr ''main'')]
                             @ (if truthy (getProp file ''sha'')
                                then [(''sha'', getProp file ''sha'')] else []))))]))
    \<and> (\<not> nullish file
          \<and> (st = 404 \<or> (200 \<le> st \<and> st < 300 \<and> \<not> truthy (getProp file ''content''))) \<longrightarrow>
          (if httpMethod req = ''POST'' then
             \<exists>m c. map (\<lambda>c. (apiMethod c, apiPath c, apiData c))
                      (fst (runIO (handler env req) (HttpResponse st ctype body # outs)))
               = [(''GET'',
                   ''/repos/klandestin-s/api-school.man3/contents/jadwal.json?ref=main'', None),
                  (''PUT'', ''/repos/klandestin-s/api-school.man3/contents/jadwal.json'',
                   Some (JObj [(''message'', m), (''content'', c),
                               (''branch'', JStr ''main'')]))]
           else
             map (\<lambda>c. (apiMethod c, apiPath c, apiData c))
               (fst (runIO (handler env req) (HttpResponse st ctype body # outs)))
               = [(''GET'',
                   ''/repos/klandestin-s/api-school.man3/contents/jadwal.json?ref=main'',
                   None)]))"
proof (intro conjI impI)
  assume a: "200 \<le> st \<and> st < 300 \<and> truthy (getProp file ''content'')
          \<and> base64Decode env (getProp file ''content'') = Inr decoded
          \<and> jsonParse env decoded = Inr (JArr xs)
          \<and> (\<forall>r\<in>set xs. \<not> nullish r \<and> printable (getProp r ''subject'')
                           \<and> printable (getProp r ''class''))
          \<and> (httpMethod req = ''POST'' \<or> (\<exists>r\<in>set xs. getProp r ''id'' = JStr ident))"
  then have rr: "readResult env (HttpResponse st ctype body)
           = Inr \<lparr>schedules = JArr xs, sha = getProp file ''sha''\<rparr>"
    using readResult_file[OF _ _ assms(3), of st decoded "JArr xs" ctype] by blast
  from a have recs: "\<forall>r\<in>set xs. \<not> nullish r \<and> printable (getProp r ''subject'')
                           \<and> printable (getProp r ''class'')"
    and found: "httpMethod req = ''POST'' \<or> (\<exists>r\<in>set xs. getProp r ''id'' = JStr ident)"
    by blast+
  show "\<exists>m c. map (\<lambda>c. (apiMethod c, apiPath c, apiData c))
                    (fst (runIO (handler env req) (HttpResponse st ctype body # outs)))
             = [(''GET'', ''/repos/klandestin-s/api-school.man3/contents/jadwal.json?ref=main'',
                 None),
                (''PUT'', ''/repos/klandestin-s/api-school.man3/contents/jadwal.json'',
                 Some (JObj ([(''message'', m), (''content'', c), (''branch'', JStr ''main'')]
                             @ (if truthy (getProp file ''sha'')
                                then [(''sha'', getProp file ''sha'')] else []))))]"
    by (rule write_with_token[OF assms(1,2) rr recs assms(4) found])
next
  assume b: "\<not> nullish file
          \<and> (st = 404 \<or> (200 \<le> st \<and> st < 300 \<and> \<not> truthy (getProp file ''content'')))"
  then have rr: "readResult env (HttpResponse st ctype body)
      = Inr \<lparr>schedules = JArr [], sha = JNull\<rparr>"
    using readResult_absent[OF assms(3), of st ctype] by blast
  show "if httpMethod req = ''POST'' then
             \<exists>m c. map (\<lambda>c. (apiMethod c, apiPath c, apiData c))
                      (fst (runIO (handler env req) (HttpResponse st ctype body # outs)))
               = [(''GET'',
                   ''/repos/klandestin-s/api-school.man3/contents/jadwal.json?ref=main'', None),
                  (''PUT'', ''/repos/klandestin-s/api-school.man3/contents/jadwal.json'',
                   Some (JObj [(''message'', m), (''content'', c),
                               (''branch'', JStr ''main'')]))]
           else
             map (\<lambda>c. (apiMethod c, apiPath c, apiData c))
               (fst (runIO (handler env req) (HttpResponse st ctype body # outs)))
               = [(''GET'',
                   ''/repos/klandestin-s/api-school.man3/contents/jadwal.json?ref=main'',
                   None)]"
    by (rule write_without_token[OF assms(1,2) rr assms(4)])
qed

subsection \<open>The sample store\<close>

lemma sample_token: "TOKEN sampleEnv \<noteq> None" "TOKEN sampleEnv \<noteq> Some []"
  by (simp_all add: sampleEnv_def)

lemma sample_parse:
  "jsonParse sampleEnv (render fileJson) = Inr fileJson"
  "jsonParse sampleEnv (render (JArr storedList)) = Inr (JArr storedList)"
  "jsonParse sampleEnv (render committedJson) = Inr committedJson"
  "jsonParse sampleEnv (render emptyFileJson) = Inr emptyFileJson"
  "jsonParse sampleEnv (render reducedFileJson) = Inr reducedFileJson"
  "jsonParse sampleEnv (render (JArr [storedSecond])) = Inr (JArr [storedSecond])"
  "jsonParse sampleEnv (render notFoundJson) = Inr notFoundJson"
  by (simp_all add: sampleEnv_def sampleParse_def sample_values)

lemma sample_bodies:
  "jsonParse sampleEnv (if render fileJson = [] then ''{}'' else render fileJson) = Inr fileJson"
  "jsonParse sampleEnv (if render committedJson = [] then ''{}'' else render committedJson)
     = Inr committedJson"
  "jsonParse sampleEnv (if render emptyFileJson = [] then ''{}'' else render emptyFileJson)
     = Inr emptyFileJson"
  "jsonParse sampleEnv (if render reducedFileJson = [] then ''{}'' else render reducedFileJson)
     = Inr reducedFileJson"
  "jsonParse sampleEnv (if render notFoundJson = [] then ''{}'' else render notFoundJson)
     = Inr notFoundJson"
proof -
  have "render fileJson \<noteq> []" "render committedJson \<noteq> []" "render emptyFileJson \<noteq> []"
    "render reducedFileJson \<noteq> []" "render notFoundJson \<noteq> []"
    by (simp_all add: fileJson_def committedJson_def emptyFileJson_def reducedFileJson_def
        notFoundJson_def)
  then show
    "jsonParse sampleEnv (if render fileJson = [] then ''{}'' else render fileJson) = Inr fileJson"
    "jsonParse sampleEnv (if render committedJson = [] then ''{}'' else render committedJson)
       = Inr committedJson"
    "jsonParse sampleEnv (if render emptyFileJson = [] then ''{}'' else render emptyFileJson)
       = Inr emptyFileJson"
    "jsonParse sampleEnv (if render reducedFileJson = [] then ''{}'' else render reducedFileJson)
       = Inr reducedFileJson"
    "jsonParse sampleEnv (if render notFoundJson = [] then ''{}'' else render notFoundJson)
       = Inr notFoundJson"
    by (simp_all only: if_False sample_parse)
qed

lemma sample_file:
  "truthy (getProp fileJson ''content'')"
  "base64Decode sampleEnv (getProp fileJson ''content'') = Inr (render (JArr storedList))"
  "getProp fileJson ''sha'' = JStr ''abc123''"
  by (simp_all add: fileJson_def sampleEnv_def sampleDecode_def sampleEncode_def)

lemma sample_reduced:
  "truthy (getProp reducedFileJson ''content'')"
  "base64Decode sampleEnv (getProp reducedFileJson ''content'')
     = Inr (render (JArr [storedSecond]))"
  by (simp_all add: reducedFileJson_def sampleEnv_def sampleDecode_def sampleEncode_def)

lemma sample_records:
  "\<forall>r\<in>set storedList. \<not> nullish r \<and> printable (getProp r ''subject'')
      \<and> printable (getProp r ''class'')"
  "\<forall>r\<in>set storedList. \<not> nullish r"
  "distinct (map (\<lambda>r. getProp r ''id'') storedList)"
  "getProp storedFirst ''id'' = JStr ''jadwal_1_a''"
  "getProp storedSecond ''id'' = JStr ''jadwal_2_b''"
  "toString (getProp storedFirst ''subject'') = Inr ''Matematika''"
  "toString (getProp storedFirst ''class'') = Inr ''XI A''"
  by (simp_all add: storedList_def storedFirst_def storedSecond_def scheduleAt_def nullish_def
      printable_def)

lemma sample_valid:
  "validateSchedule (tzOffset sampleEnv) (scheduleAt ''10:00'' ''11:00'') = Inr []"
  by (simp only: validate_scheduleAt) (simp add: clock_eval sampleEnv_def)

lemma sample_valid_put:
  "validateSchedule (tzOffset sampleEnv) (reqBody putSecond) = Inr []"
proof -
  let ?b = "reqBody putSecond"
  have n: "\<not> nullish ?b" by (simp add: putSecond_def scheduleAt_def nullish_def)
  have t: "toString (getProp ?b ''startTime'') = Inr ''10:00''"
    "toString (getProp ?b ''endTime'') = Inr ''11:00''"
    by (simp_all add: putSecond_def scheduleAt_def)
  have "\<not> classInvalid ?b" "\<not> dayInvalid ?b" "\<not> subjectInvalid ?b" "\<not> teacherInvalid ?b"
    by (simp_all add: classInvalid_def dayInvalid_def subjectInvalid_def teacherInvalid_def
        putSecond_def scheduleAt_def arrayIncludes_def)
  then show ?thesis
    unfolding validateSchedule_Inr[OF n t]
    by (simp add: putSecond_def scheduleAt_def clock_eval sampleEnv_def)
qed

lemma sample_requests:
  "httpMethod postGood = ''POST''" "reqBody postGood = scheduleAt ''10:00'' ''11:00''"
  "httpMethod putSecond = ''PUT''" "getProp (reqBody putSecond) ''id'' = JStr ''jadwal_2_b''"
  "httpMethod deleteFirst = ''DELETE''" "getProp (reqQuery deleteFirst) ''id'' = JStr ''jadwal_1_a''"
  "reqBody deleteFirst = JUndefined"
  "toString (getProp (reqBody postGood) ''subject'') = Inr ''Matematika''"
  "toString (getProp (reqBody putSecond) ''subject'') = Inr ''Matematika''"
  by (simp_all add: postGood_def putSecond_def deleteFirst_def scheduleAt_def)

lemma sample_id: "''jadwal_'' @ decimal (dateNow sampleEnv) @ ''_'' @ randomSuffix sampleEnv
        = ''jadwal_17000_k3x9q2m1z''"
  by (simp add: sampleEnv_def digitChar_def decimal.simps)

text \<open>
  A create, an update and a delete against the sample store, whose blob has the
  token \<^verbatim>\<open>abc123\<close>: each write carries it. A create when the store answers
  not-found: the payload has no \<^verbatim>\<open>sha\<close>.
\<close>

theorem write_carries_token_of_same_read_witness:
  "(\<exists>m c. map (\<lambda>c. (apiMethod c, apiPath c, apiData c))
             (fst (runIO (handler sampleEnv postGood) [fileAnswer]))
      = [(''GET'', ''/repos/klandestin-s/api-school.man3/contents/jadwal.json?ref=main'', None),
         (''PUT'', ''/repos/klandestin-s/api-school.man3/contents/jadwal.json'',
          Some (JObj [(''message'', m), (''content'', c), (''branch'', JStr ''main''),
                      (''sha'', JStr ''abc123'')]))])
   \<and> (\<exists>m c. map (\<lambda>c. (apiMethod c, apiPath c, apiData c))
             (fst (runIO (handler sampleEnv putSecond) [fileAnswer]))
      = [(''GET'', ''/repos/klandestin-s/api-school.man3/contents/jadwal.json?ref=main'', None),
         (''PUT'', ''/repos/klandestin-s/api-school.man3/contents/jadwal.json'',
          Some (JObj [(''message'', m), (''content'', c), (''branch'', JStr ''main''),
                      (''sha'', JStr ''abc123'')]))])
   \<and> (\<exists>m c. map (\<lambda>c. (apiMethod c, apiPath c, apiData c))
             (fst (runIO (handler sampleEnv deleteFirst) [fileAnswer]))
      = [(''GET'', ''/repos/klandestin-s/api-school.man3/contents/jadwal.json?ref=main'', None),
         (''PUT'', ''/repos/klandestin-s/api-school.man3/contents/jadwal.json'',
          Some (JObj [(''message'', m), (''content'', c), (''branch'', JStr ''main''),
                      (''sha'', JStr ''abc123'')]))])
   \<and> (\<exists>m c. map (\<lambda>c. (apiMethod c, apiPath c, apiData c))
             (fst (runIO (handler sampleEnv postGood) [notFoundAnswer]))
      = [(''GET'', ''/repos/klandestin-s/api-school.man3/contents/jadwal.json?ref=main'', None),
         (''PUT'', ''/repos/klandestin-s/api-school.man3/contents/jadwal.json'',
          Some (JObj [(''message'', m), (''content'', c), (''branch'', JStr ''main'')]))])"
proof -
  have post: "(httpMethod postGood = ''POST''
            \<and> validateSchedule (tzOffset sampleEnv) (reqBody postGood) = Inr []
            \<and> printable (getProp (reqBody postGood) ''subject''))
       \<or> (httpMethod postGood = ''PUT''
            \<and> getProp (reqBody postGood) ''id'' = JStr [] \<and> [] \<noteq> ([] :: string)
            \<and> validateSchedule (tzOffset sampleEnv) (reqBody postGood) = Inr []
            \<and> printable (getProp (reqBody postGood) ''subject''))
       \<or> (httpMethod postGood = ''DELETE''
            \<and> getProp (reqQuery postGood) ''id'' = JStr [] \<and> [] \<noteq> ([] :: string))"
    using sample_valid sample_requests(8) by (simp add: sample_requests(1,2) printable_iff)
  have put: "(httpMethod putSecond = ''POST''
            \<and> validateSchedule (tzOffset sampleEnv) (reqBody putSecond) = Inr []
            \<and> printable (getProp (reqBody putSecond) ''subject''))
       \<or> (httpMethod putSecond = ''PUT''
            \<and> getProp (reqBody putSecond) ''id'' = JStr ''jadwal_2_b'' \<and> ''jadwal_2_b'' \<noteq> []
            \<and> validateSchedule (tzOffset sampleEnv) (reqBody putSecond) = Inr []
            \<and> printable (getProp (reqBody putSecond) ''subject''))
       \<or> (httpMethod putSecond = ''DELETE''
            \<and> getProp (reqQuery putSecond) ''id'' = JStr ''jadwal_2_b'' \<and> ''jadwal_2_b'' \<noteq> [])"
    using sample_valid_put sample_requests(9) by (simp add: sample_requests(3,4) printable_iff)
  have del: "(httpMethod deleteFirst = ''POST''
            \<and> validateSchedule (tzOffset sampleEnv) (reqBody deleteFirst) = Inr []
            \<and> printable (getProp (reqBody deleteFirst) ''subject''))
       \<or> (httpMethod deleteFirst = ''PUT''
            \<and> getProp (reqBody deleteFirst) ''id'' = JStr ''jadwal_1_a'' \<and> ''jadwal_1_a'' \<noteq> []
            \<and> validateSchedule (tzOffset sampleEnv) (reqBody deleteFirst) = Inr []
            \<and> printable (getProp (reqBody deleteFirst) ''subject''))
       \<or> (httpMethod deleteFirst = ''DELETE''
            \<and> getProp (reqQuery deleteFirst) ''id'' = JStr ''jadwal_1_a'' \<and> ''jadwal_1_a'' \<noteq> [])"
    by (simp add: sample_requests)
  have in1: "\<exists>r\<in>set storedList. getProp r ''id'' = JStr ''jadwal_1_a''"
    and in2: "\<exists>r\<in>set storedList. getProp r ''id'' = JStr ''jadwal_2_b''"
    by (simp_all add: storedList_def sample_records)
  have blob1: "(200::nat) \<le> 200 \<and> (200::nat) < 300 \<and> truthy (getProp fileJson ''content'')
          \<and> base64Decode sampleEnv (getProp fileJson ''content'') = Inr (render (JArr storedList))
          \<and> jsonParse sampleEnv (render (JArr storedList)) = Inr (JArr storedList)
          \<and> (\<forall>r\<in>set storedList. \<not> nullish r \<and> printable (getProp r ''subject'')
                           \<and> printable (getProp r ''class''))
          \<and> (httpMethod postGood = ''POST'' \<or> (\<exists>r\<in>set storedList. getProp r ''id'' = JStr []))"
    by (intro conjI disjI1 sample_file(1,2) sample_parse(2) sample_records(1) sample_requests(1))
      simp_all
  have blob2: "(200::nat) \<le> 200 \<and> (200::nat) < 300 \<and> truthy (getProp fileJson ''content'')
          \<and> base64Decode sampleEnv (getProp fileJson ''content'') = Inr (render (JArr storedList))
          \<and> jsonParse sampleEnv (render (JArr storedList)) = Inr (JArr storedList)
          \<and> (\<forall>r\<in>set storedList. \<not> nullish r \<and> printable (getProp r ''subject'')
                           \<and> printable (getProp r ''class''))
          \<and> (httpMethod putSecond = ''POST'' \<or> (\<exists>r\<in>set storedList. getProp r ''id'' = JStr ''jadwal_2_b''))"
    by (intro conjI disjI2 sample_file(1,2) sample_parse(2) sample_records(1) in2) simp_all
  have blob3: "(200::nat) \<le> 200 \<and> (200::nat) < 300 \<and> truthy (getProp fileJson ''content'')
          \<and> base64Decode sampleEnv (getProp fileJson ''content'') = Inr (render (JArr storedList))
          \<and> jsonParse sampleEnv (render (JArr storedList)) = Inr (JArr storedList)
          \<and> (\<forall>r\<in>set storedList. \<not> nullish r \<and> printable (getProp r ''subject'')
                           \<and> printable (getProp r ''class''))
          \<and> (httpMethod deleteFirst = ''POST'' \<or> (\<exists>r\<in>set storedList. getProp r ''id'' = JStr ''jadwal_1_a''))"
    by (intro conjI disjI2 sample_file(1,2) sample_parse(2) sample_records(1) in1) simp_all
  have absent: "\<not> nullish notFoundJson
          \<and> ((404::nat) = 404
              \<or> (200 \<le> (404::nat) \<and> (404::nat) < 300 \<and> \<not> truthy (getProp notFoundJson ''content'')))"
    by (simp add: nullish_def notFoundJson_def)
  note T = write_carries_token_of_same_read[OF sample_token]
  have "\<exists>m c. map (\<lambda>c. (apiMethod c, apiPath c, apiData c))
             (fst (runIO (handler sampleEnv postGood) (HttpResponse 200 jsonType (render fileJson) # [])))
      = [(''GET'', ''/repos/klandestin-s/api-school.man3/contents/jadwal.json?ref=main'', None),
         (''PUT'', ''/repos/klandestin-s/api-school.man3/contents/jadwal.json'',
          Some (JObj ([(''message'', m), (''content'', c), (''branch'', JStr ''main'')]
                      @ (if truthy (getProp fileJson ''sha'')
                         then [(''sha'', getProp fileJson ''sha'')] else []))))]"
    by (rule T[OF sample_bodies(1) post, THEN conjunct1, THEN mp, OF blob1])
  then have one: "\<exists>m c. map (\<lambda>c. (apiMethod c, apiPath c, apiData c))
             (fst (runIO (handler sampleEnv postGood) [fileAnswer]))
      = [(''GET'', ''/repos/klandestin-s/api-school.man3/contents/jadwal.json?ref=main'', None),
         (''PUT'', ''/repos/klandestin-s/api-school.man3/contents/jadwal.json'',
          Some (JObj [(''message'', m), (''content'', c), (''branch'', JStr ''main''),
                      (''sha'', JStr ''abc123'')]))]"
    by (simp add: fileAnswer_def sample_file)
  have "\<exists>m c. map (\<lambda>c. (apiMethod c, apiPath c, apiData c))
             (fst (runIO (handler sampleEnv putSecond) (HttpResponse 200 jsonType (render fileJson) # [])))
      = [(''GET'', ''/repos/klandestin-s/api-school.man3/contents/jadwal.json?ref=main'', None),
         (''PUT'', ''/repos/klandestin-s/api-school.man3/contents/jadwal.json'',
          Some (JObj ([(''message'', m), (''content'', c), (''branch'', JStr ''main'')]
                      @ (if truthy (getProp fileJson ''sha'')
                         then [(''sha'', getProp fileJson ''sha'')] else []))))]"
    by (rule T[OF sample_bodies(1) put, THEN conjunct1, THEN mp, OF blob2])
  then have two: "\<exists>m c. map (\<lambda>c. (apiMethod c, apiPath c, apiData c))
             (fst (runIO (handler sampleEnv putSecond) [fileAnswer]))
      = [(''GET'', ''/repos/klandestin-s/api-school.man3/contents/jadwal.json?ref=main'', None),
         (''PUT'', ''/repos/klandestin-s/api-school.man3/contents/jadwal.json'',
          Some (JObj [(''message'', m), (''content'', c), (''branch'', JStr ''main''),
                      (''sha'', JStr ''abc123'')]))]"
    by (simp add: fileAnswer_def sample_file)
  have "\<exists>m c. map (\<lambda>c. (apiMethod c, apiPath c, apiData c))
             (fst (runIO (handler sampleEnv deleteFirst) (HttpResponse 200 jsonType (render fileJson) # [])))
      = [(''GET'', ''/repos/klandestin-s/api-school.man3/contents/jadwal.json?ref=main'', None),
         (''PUT'', ''/repos/klandestin-s/api-school.man3/contents/jadwal.json'',
          Some (JObj ([(''message'', m), (''content'', c), (''branch'', JStr ''main'')]
                      @ (if truthy (getProp fileJson ''sha'')
                         then [(''sha'', getProp fileJson ''sha'')] else []))))]"
    by (rule T[OF sample_bodies(1) del, THEN conjunct1, THEN mp, OF blob3])
  then have three: "\<exists>m c. map (\<lambda>c. (apiMethod c, apiPath c, apiData c))
             (fst (runIO (handler sampleEnv deleteFirst) [fileAnswer]))
      = [(''GET'', ''/repos/klandestin-s/api-school.man3/contents/jadwal.json?ref=main'', None),
         (''PUT'', ''/repos/klandestin-s/api-school.man3/contents/jadwal.json'',
          Some (JObj [(''message'', m), (''content'', c), (''branch'', JStr ''main''),
                      (''sha'', JStr ''abc123'')]))]"
    by (simp add: fileAnswer_def sample_file)
  have "if httpMethod postGood = ''POST'' then
             \<exists>m c. map (\<lambda>c. (apiMethod c, apiPath c, apiData c))
                      (fst (runIO (handler sampleEnv postGood)
                              (HttpResponse 404 jsonType (render notFoundJson) # [])))
               = [(''GET'',
                   ''/repos/klandestin-s/api-school.man3/contents/jadwal.json?ref=main'', None),
                  (''PUT'', ''/repos/klandestin-s/api-school.man3/contents/jadwal.json'',
                   Some (JObj [(''message'', m), (''content'', c),
                               (''branch'', JStr ''main'')]))]
           else
             map (\<lambda>c. (apiMethod c, apiPath c, apiData c))
               (fst (runIO (handler sampleEnv postGood)
                       (HttpResponse 404 jsonType (render notFoundJson) # [])))
               = [(''GET'',
                   ''/repos/klandestin-s/api-school.man3/contents/jadwal.json?ref=main'',
                   None)]"
    by (rule T[OF sample_bodies(5) post, THEN conjunct2, THEN mp, OF absent])
  then have four: "\<exists>m c. map (\<lambda>c. (apiMethod c, apiPath c, apiData c))
             (fst (runIO (handler sampleEnv postGood) [notFoundAnswer]))
      = [(''GET'', ''/repos/klandestin-s/api-school.man3/contents/jadwal.json?ref=main'', None),
         (''PUT'', ''/repos/klandestin-s/api-school.man3/contents/jadwal.json'',
          Some (JObj [(''message'', m), (''content'', c), (''branch'', JStr ''main'')]))]"
    by (simp add: notFoundAnswer_def sample_requests)
  from one two three four show ?thesis by (intro conjI)
qed

text \<open>
  Claim C1 as stated fails for a blob that exists and is empty: the store answers
  the read with no content and the token of the blob, the read drops that token,
  and the write of a create goes out with no \<^verbatim>\<open>sha\<close>.
\<close>

theorem empty_blob_is_written_without_its_token:
  "settle sampleEnv emptyBlobAnswer
     = Inr (JObj [(''content'', JStr []),
                  (''sha'', JStr ''e69de29bb2d1d6434b8b29ae775ad8c2e48c5391'')])
   \<and> fst (runIO (handler sampleEnv postGood) [emptyBlobAnswer, committedAnswer])
     = [requestOptions sampleEnv getPath ''GET'' None,
        requestOptions sampleEnv putPath ''PUT''
          (Some (JObj [(''message'', JStr ''Tambah jadwal: Matematika untuk XI A''),
                       (''content'',
                          JStr (sampleEncode (render (JArr
                            [setProp (scheduleAt ''10:00'' ''11:00'') ''id''
                               (JStr ''jadwal_17000_k3x9q2m1z'')])))),
                       (''branch'', JStr ''main'')]))]"
proof -
  have s: "settle sampleEnv emptyBlobAnswer = Inr emptyFileJson"
    using sample_bodies(3) by (simp add: settle_def emptyBlobAnswer_def onEnd_def)
  have n: "\<not> nullish emptyFileJson" "\<not> truthy (getProp emptyFileJson ''content'')"
    by (simp_all add: nullish_def emptyFileJson_def)
  have rr: "readResult sampleEnv emptyBlobAnswer = Inr \<lparr>schedules = JArr [], sha = JNull\<rparr>"
    unfolding emptyBlobAnswer_def
    using readResult_absent[OF sample_bodies(3) n(1), of 200 jsonType] n(2) by simp
  have c: "getProp (scheduleAt ''10:00'' ''11:00'') ''class'' = JStr ''XI A''"
    "toString (getProp (scheduleAt ''10:00'' ''11:00'') ''subject'') = Inr ''Matematika''"
    by (simp_all add: scheduleAt_def)
  have "fst (runIO (handler sampleEnv postGood) [emptyBlobAnswer, committedAnswer])
     = [requestOptions sampleEnv getPath ''GET'' None,
        requestOptions sampleEnv putPath ''PUT''
          (Some (JObj [(''message'', JStr ''Tambah jadwal: Matematika untuk XI A''),
                       (''content'',
                          JStr (sampleEncode (render (JArr
                            [setProp (scheduleAt ''10:00'' ''11:00'') ''id''
                               (JStr ''jadwal_17000_k3x9q2m1z'')])))),
                       (''branch'', JStr ''main'')]))]"
    unfolding handler_dispatch(2)[OF sample_token sample_requests(1)] sample_requests(2)
      handlePost_run[OF sample_valid rr c(2,1) refl] sample_id
    by (simp add: sampleEnv_def)
  with s show ?thesis by (simp add: emptyFileJson_def)
qed

subsection \<open>Create, update and delete\<close>

text \<open>
  Claim C10. A create that passes validation (and whose subject has a string)
  changes the request body: the body is an object, and after the call it is that
  object with \<^verbatim>\<open>id\<close> set to the generated id and every other property, whatever it
  is, as supplied. This one object is the last element of the collection that is
  written, after the records that were read, and it is the \<^verbatim>\<open>schedule\<close> of the 201
  response once the store has accepted the write. References are values here: the
  same object is the same value in all three places. The read is either of a blob
  that is absent or has no content, or of one that holds the collection \<open>xs\<close>.
\<close>

theorem create_stores_and_returns_the_mutated_body:
  assumes "TOKEN env \<noteq> None" and "TOKEN env \<noteq> Some []" and "httpMethod req = ''POST''"
    and "validateSchedule (tzOffset env) (reqBody req) = Inr []"
    and "toString (getProp (reqBody req) ''subject'') = Inr s"
    and "jsonParse env (if body = [] then ''{}'' else body) = Inr file"
    and "(\<not> nullish file
           \<and> (st = 404 \<or> (200 \<le> st \<and> st < 300 \<and> \<not> truthy (getProp file ''content'')))
           \<and> xs = [] \<and> tok = JNull)
       \<or> (200 \<le> st \<and> st < 300 \<and> truthy (getProp file ''content'')
           \<and> base64Decode env (getProp file ''content'') = Inr decoded
           \<and> jsonParse env decoded = Inr (JArr xs) \<and> tok = getProp file ''sha'')"
    and "200 \<le> st2" and "st2 < 300"
    and "jsonParse env (if body2 = [] then ''{}'' else body2) = Inr ok"
  shows "\<exists>kvs c created.
      reqBody req = JObj kvs
      \<and> created = JObj (AList.update ''id''
                         (JStr (''jadwal_'' @ decimal (dateNow env) @ ''_'' @ randomSuffix env))
                         kvs)
      \<and> getProp created ''id''
          = JStr (''jadwal_'' @ decimal (dateNow env) @ ''_'' @ randomSuffix env)
      \<and> (\<forall>k. k \<noteq> ''id'' \<longrightarrow> getProp created k = getProp (reqBody req) k)
      \<and> getProp (reqBody req) ''class'' = JStr c
      \<and> map (\<lambda>c. (apiMethod c, apiPath c, apiData c))
           (fst (runIO (handler env req)
                   [HttpResponse st ctype body, HttpResponse st2 ctype2 body2]))
          = [(''GET'', ''/repos/klandestin-s/api-school.man3/contents/jadwal.json?ref=main'',
              None),
             (''PUT'', ''/repos/klandestin-s/api-school.man3/contents/jadwal.json'',
              Some (JObj ([(''message'', JStr (''Tambah jadwal: '' @ s @ '' untuk '' @ c)),
                           (''content'',
                              JStr (base64Encode env
                                      (jsonStringify env (JArr (xs @ [created]))))),
                           (''branch'', JStr ''main'')]
                          @ (if truthy tok then [(''sha'', tok)] else []))))]
      \<and> snd (runIO (handler env req)
                [HttpResponse st ctype body, HttpResponse st2 ctype2 body2])
          = Some (created,
                  \<lparr>status = 201,
                   sent = Some (JObj [(''success'', JBool True),
                                      (''message'', JStr ''Jadwal berhasil ditambahkan''),
                                      (''schedule'', created)])\<rparr>)"
proof -
  let ?ident = "''jadwal_'' @ decimal (dateNow env) @ ''_'' @ randomSuffix env"
  from valid_facts[OF assms(4)] obtain kvs c where b: "reqBody req = JObj kvs"
    and c: "getProp (reqBody req) ''class'' = JStr c" by blast
  let ?created = "JObj (AList.update ''id'' (JStr ?ident) kvs)"
  have cr: "?created = setProp (reqBody req) ''id'' (JStr ?ident)" by (simp add: b)
  have rr: "readResult env (HttpResponse st ctype body) = Inr \<lparr>schedules = JArr xs, sha = tok\<rparr>"
    using assms(7)
  proof
    assume "\<not> nullish file
           \<and> (st = 404 \<or> (200 \<le> st \<and> st < 300 \<and> \<not> truthy (getProp file ''content'')))
           \<and> xs = [] \<and> tok = JNull"
    then show ?thesis using readResult_absent[OF assms(6), of st ctype] by blast
  next
    assume "200 \<le> st \<and> st < 300 \<and> truthy (getProp file ''content'')
           \<and> base64Decode env (getProp file ''content'') = Inr decoded
           \<and> jsonParse env decoded = Inr (JArr xs) \<and> tok = getProp file ''sha''"
    then show ?thesis
      using readResult_file[OF _ _ assms(6), of st decoded "JArr xs" ctype] by blast
  qed
  note ok = settle_ok[OF assms(8,9,10), of ctype2]
  note run = handlePost_run[OF assms(4) rr assms(5) c cr,
      of "[HttpResponse st2 ctype2 body2]"]
  have p1: "getProp ?created ''id'' = JStr ?ident"
    unfolding cr b getProp_setProp by simp
  have p2: "\<forall>k. k \<noteq> ''id'' \<longrightarrow> getProp ?created k = getProp (reqBody req) k"
    unfolding cr b getProp_setProp by simp
  have calls: "map (\<lambda>c. (apiMethod c, apiPath c, apiData c))
           (fst (runIO (handler env req)
                   [HttpResponse st ctype body, HttpResponse st2 ctype2 body2]))
          = [(''GET'', ''/repos/klandestin-s/api-school.man3/contents/jadwal.json?ref=main'',
              None),
             (''PUT'', ''/repos/klandestin-s/api-school.man3/contents/jadwal.json'',
              Some (JObj ([(''message'', JStr (''Tambah jadwal: '' @ s @ '' untuk '' @ c)),
                           (''content'',
                              JStr (base64Encode env
                                      (jsonStringify env (JArr (xs @ [?created]))))),
                           (''branch'', JStr ''main'')]
                          @ (if truthy tok then [(''sha'', tok)] else []))))]"
    unfolding handler_dispatch(2)[OF assms(1,2,3)] run fst_conv by (rule calls_view(1))
  have res: "snd (runIO (handler env req)
                [HttpResponse st ctype body, HttpResponse st2 ctype2 body2])
          = Some (?created,
                  \<lparr>status = 201,
                   sent = Some (JObj [(''success'', JBool True),
                                      (''message'', JStr ''Jadwal berhasil ditambahkan''),
                                      (''schedule'', ?created)])\<rparr>)"
    unfolding handler_dispatch(2)[OF assms(1,2,3)] run by (simp add: ok)
  show ?thesis
    by (intro exI[of _ kvs] exI[of _ c] exI[of _ ?created] conjI b refl p1 p2 c calls res)
qed

text \<open>
  A create against the sample store: the body comes back with the generated id,
  the same object is appended to the two stored records and returned.
\<close>

theorem create_stores_and_returns_the_mutated_body_witness:
  "map (\<lambda>c. (apiMethod c, apiPath c, apiData c))
     (fst (runIO (handler sampleEnv postGood) [fileAnswer, committedAnswer]))
     = [(''GET'', ''/repos/klandestin-s/api-school.man3/contents/jadwal.json?ref=main'', None),
        (''PUT'', ''/repos/klandestin-s/api-school.man3/contents/jadwal.json'',
         Some (JObj [(''message'', JStr ''Tambah jadwal: Matematika untuk XI A''),
                     (''content'',
                        JStr (sampleEncode (render (JArr
                          [storedFirst, storedSecond,
                           JObj [(''class'', JStr ''XI A''), (''day'', JStr ''Senin''),
                    (''subject'', JStr ''Matematika''), (''teacher'', JStr ''Bu Sari''),
                    (''startTime'', JStr ''10:00''), (''endTime'', JStr ''11:00''),
                    (''id'', JStr ''jadwal_17000_k3x9q2m1z'')]])))),
                     (''branch'', JStr ''main''), (''sha'', JStr ''abc123'')]))]
   \<and> snd (runIO (handler sampleEnv postGood) [fileAnswer, committedAnswer])
     = Some (JObj [(''class'', JStr ''XI A''), (''day'', JStr ''Senin''),
                    (''subject'', JStr ''Matematika''), (''teacher'', JStr ''Bu Sari''),
                    (''startTime'', JStr ''10:00''), (''endTime'', JStr ''11:00''),
                    (''id'', JStr ''jadwal_17000_k3x9q2m1z'')],
             \<lparr>status = 201,
              sent = Some (JObj [(''success'', JBool True),
                                 (''message'', JStr ''Jadwal berhasil ditambahkan''),
                                 (''schedule'',
                                    JObj [(''class'', JStr ''XI A''), (''day'', JStr ''Senin''),
                    (''subject'', JStr ''Matematika''), (''teacher'', JStr ''Bu Sari''),
                    (''startTime'', JStr ''10:00''), (''endTime'', JStr ''11:00''),
                    (''id'', JStr ''jadwal_17000_k3x9q2m1z'')])])\<rparr>)"
proof -
  let ?run = "runIO (handler sampleEnv postGood)
      [HttpResponse 200 jsonType (render fileJson), HttpResponse 200 jsonType (render committedJson)]"
  have v: "validateSchedule (tzOffset sampleEnv) (reqBody postGood) = Inr []"
    using sample_valid by (simp add: sample_requests(2))
  have blob: "(\<not> nullish fileJson
           \<and> ((200::nat) = 404
               \<or> (200 \<le> (200::nat) \<and> (200::nat) < 300 \<and> \<not> truthy (getProp fileJson ''content'')))
           \<and> storedList = [] \<and> JStr ''abc123'' = JNull)
       \<or> (200 \<le> (200::nat) \<and> (200::nat) < 300 \<and> truthy (getProp fileJson ''content'')
           \<and> base64Decode sampleEnv (getProp fileJson ''content'') = Inr (render (JArr storedList))
           \<and> jsonParse sampleEnv (render (JArr storedList)) = Inr (JArr storedList)
           \<and> JStr ''abc123'' = getProp fileJson ''sha'')"
    by (intro disjI2 conjI sample_file(1,2) sample_parse(2) sample_file(3)[symmetric]) simp_all
  have le: "(200::nat) \<le> 200" "(200::nat) < 300" by simp_all
  from create_stores_and_returns_the_mutated_body[where ctype = jsonType and ?ctype2.0 = jsonType,
      OF sample_token sample_requests(1) v sample_requests(8) sample_bodies(1) blob le
        sample_bodies(2)]
  obtain kvs c created where k: "reqBody postGood = JObj kvs"
    "created = JObj (AList.update ''id''
                 (JStr (''jadwal_'' @ decimal (dateNow sampleEnv) @ ''_'' @ randomSuffix sampleEnv))
                 kvs)"
    "getProp (reqBody postGood) ''class'' = JStr c"
    "map (\<lambda>c. (apiMethod c, apiPath c, apiData c)) (fst ?run)
          = [(''GET'', ''/repos/klandestin-s/api-school.man3/contents/jadwal.json?ref=main'',
              None),
             (''PUT'', ''/repos/klandestin-s/api-school.man3/contents/jadwal.json'',
              Some (JObj ([(''message'', JStr (''Tambah jadwal: '' @ ''Matematika'' @ '' untuk '' @ c)),
                           (''content'',
                              JStr (base64Encode sampleEnv
                                      (jsonStringify sampleEnv (JArr (storedList @ [created]))))),
                           (''branch'', JStr ''main'')]
                          @ (if truthy (JStr ''abc123'') then [(''sha'', JStr ''abc123'')] else []))))]"
    "snd ?run
          = Some (created,
                  \<lparr>status = 201,
                   sent = Some (JObj [(''success'', JBool True),
                                      (''message'', JStr ''Jadwal berhasil ditambahkan''),
                                      (''schedule'', created)])\<rparr>)"
    by (elim exE conjE) (rule that, simp_all)
  from k(1) have kvs: "kvs = [(''class'', JStr ''XI A''), (''day'', JStr ''Senin''),
                    (''subject'', JStr ''Matematika''), (''teacher'', JStr ''Bu Sari''),
                    (''startTime'', JStr ''10:00''), (''endTime'', JStr ''11:00'')]"
    by (simp add: sample_requests(2) scheduleAt_def)
  from k(3) have c: "c = ''XI A''" by (simp add: sample_requests(2) scheduleAt_def)
  have cr: "created = JObj [(''class'', JStr ''XI A''), (''day'', JStr ''Senin''),
                    (''subject'', JStr ''Matematika''), (''teacher'', JStr ''Bu Sari''),
                    (''startTime'', JStr ''10:00''), (''endTime'', JStr ''11:00''),
                    (''id'', JStr ''jadwal_17000_k3x9q2m1z'')]"
    unfolding k(2) sample_id kvs by simp
  from k(4) have calls: "map (\<lambda>c. (apiMethod c, apiPath c, apiData c)) (fst ?run)
     = [(''GET'', ''/repos/klandestin-s/api-school.man3/contents/jadwal.json?ref=main'', None),
        (''PUT'', ''/repos/klandestin-s/api-school.man3/contents/jadwal.json'',
         Some (JObj [(''message'', JStr ''Tambah jadwal: Matematika untuk XI A''),
                     (''content'',
                        JStr (sampleEncode (render (JArr [storedFirst, storedSecond, created])))),
                     (''branch'', JStr ''main''), (''sha'', JStr ''abc123'')]))]"
    unfolding c by (simp add: sampleEnv_def storedList_def)
  from calls k(5) show ?thesis
    unfolding cr fileAnswer_def committedAnswer_def by (rule conjI)
qed

text \<open>
  Claim C7. An update with an id and a valid input (whose subject has a
  string), on a collection of records read from the store, where \<open>i\<close> is the place
  of the first record with that id: the write goes out with the collection in
  which place \<open>i\<close> holds the request body as it was supplied (nothing of the old
  record is kept), every other place holds the record it held, and the length,
  hence the order, is the same. Once the store has accepted the write, the 200
  response returns the same body.
\<close>

theorem update_replaces_one_record_in_place:
  assumes "TOKEN env \<noteq> None" and "TOKEN env \<noteq> Some []" and "httpMethod req = ''PUT''"
    and "getProp (reqBody req) ''id'' = JStr ident" and "ident \<noteq> []"
    and "validateSchedule (tzOffset env) (reqBody req) = Inr []"
    and "toString (getProp (reqBody req) ''subject'') = Inr s"
    and "200 \<le> st" and "st < 300"
    and "jsonParse env (if body = [] then ''{}'' else body) = Inr file"
    and "truthy (getProp file ''content'')"
    and "base64Decode env (getProp file ''content'') = Inr decoded"
    and "jsonParse env decoded = Inr (JArr xs)"
    and "\<forall>r\<in>set xs. \<not> nullish r"
    and "i < length xs" and "getProp (xs ! i) ''id'' = JStr ident"
    and "\<forall>j<i. getProp (xs ! j) ''id'' \<noteq> JStr ident"
    and "200 \<le> st2" and "st2 < 300"
    and "jsonParse env (if body2 = [] then ''{}'' else body2) = Inr ok"
  shows "\<exists>c written.
      getProp (reqBody req) ''class'' = JStr c
      \<and> map (\<lambda>c. (apiMethod c, apiPath c, apiData c))
           (fst (runIO (handler env req)
                   [HttpResponse st ctype body, HttpResponse st2 ctype2 body2]))
          = [(''GET'', ''/repos/klandestin-s/api-school.man3/contents/jadwal.json?ref=main'',
              None),
             (''PUT'', ''/repos/klandestin-s/api-school.man3/contents/jadwal.json'',
              Some (JObj ([(''message'', JStr (''Update jadwal: '' @ s @ '' untuk '' @ c)),
                           (''content'',
                              JStr (base64Encode env (jsonStringify env (JArr written)))),
                           (''branch'', JStr ''main'')]
                          @ (if truthy (getProp file ''sha'')
                             then [(''sha'', getProp file ''sha'')] else []))))]
      \<and> snd (runIO (handler env req)
                [HttpResponse st ctype body, HttpResponse st2 ctype2 body2])
          = Some (reqBody req,
                  \<lparr>status = 200,
                   sent = Some (JObj [(''success'', JBool True),
                                      (''message'', JStr ''Jadwal berhasil diperbarui''),
                                      (''schedule'', reqBody req)])\<rparr>)
      \<and> length written = length xs \<and> written ! i = reqBody req
      \<and> (\<forall>j<length xs. j \<noteq> i \<longrightarrow> written ! j = xs ! j)"
proof -
  from valid_facts(2)[OF assms(6)] obtain c where c: "getProp (reqBody req) ''class'' = JStr c"
    by blast
  have tr: "truthy (getProp (reqBody req) ''id'')" using assms(4,5) by simp
  have f: "findIndexById (getProp (reqBody req) ''id'') xs = Inr (Some i)"
    unfolding assms(4)
    using findIndexById_first[OF assms(14,15), of "JStr ident"] assms(16,17)
    by (simp add: sameId_text)
  note rr = readResult_file[OF assms(8,9,10,11,12,13), of ctype]
  note ok = settle_ok[OF assms(18,19,20), of ctype2]
  note run = handlePut_run[OF tr assms(6) rr f assms(7) c, of "[HttpResponse st2 ctype2 body2]"]
  let ?written = "xs[i := reqBody req]"
  have calls: "map (\<lambda>c. (apiMethod c, apiPath c, apiData c))
           (fst (runIO (handler env req)
                   [HttpResponse st ctype body, HttpResponse st2 ctype2 body2]))
          = [(''GET'', ''/repos/klandestin-s/api-school.man3/contents/jadwal.json?ref=main'',
              None),
             (''PUT'', ''/repos/klandestin-s/api-school.man3/contents/jadwal.json'',
              Some (JObj ([(''message'', JStr (''Update jadwal: '' @ s @ '' untuk '' @ c)),
                           (''content'',
                              JStr (base64Encode env (jsonStringify env (JArr ?written)))),
                           (''branch'', JStr ''main'')]
                          @ (if truthy (getProp file ''sha'')
                             then [(''sha'', getProp file ''sha'')] else []))))]"
    unfolding handler_dispatch(3)[OF assms(1,2,3)] run fst_conv by (rule calls_view(1))
  have res: "snd (runIO (handler env req)
                [HttpResponse st ctype body, HttpResponse st2 ctype2 body2])
          = Some (reqBody req,
                  \<lparr>status = 200,
                   sent = Some (JObj [(''success'', JBool True),
                                      (''message'', JStr ''Jadwal berhasil diperbarui''),
                                      (''schedule'', reqBody req)])\<rparr>)"
    unfolding handler_dispatch(3)[OF assms(1,2,3)] run by (simp add: ok)
  have w: "length ?written = length xs" "?written ! i = reqBody req"
    "\<forall>j<length xs. j \<noteq> i \<longrightarrow> ?written ! j = xs ! j"
    using assms(15) by simp_all
  show ?thesis
    by (intro exI[of _ c] exI[of _ ?written] conjI c calls res w)
qed

lemma two_elements: "length w = 2 \<Longrightarrow> w = [w ! 0, w ! 1]"
  by (cases w; cases "tl w") auto

lemma sample_put_body:
  "reqBody putSecond
     = JObj [(''class'', JStr ''XI A''), (''day'', JStr ''Senin''),
             (''subject'', JStr ''Matematika''), (''teacher'', JStr ''Bu Sari''),
             (''startTime'', JStr ''10:00''), (''endTime'', JStr ''11:00''),
             (''id'', JStr ''jadwal_2_b'')]"
  by (simp add: putSecond_def scheduleAt_def)

text \<open>
  An update of the second record of the sample store: the first record stays, the
  second is the body with its new times.
\<close>

theorem update_replaces_one_record_in_place_witness:
  "map (\<lambda>c. (apiMethod c, apiPath c, apiData c))
     (fst (runIO (handler sampleEnv putSecond) [fileAnswer, committedAnswer]))
     = [(''GET'', ''/repos/klandestin-s/api-school.man3/contents/jadwal.json?ref=main'', None),
        (''PUT'', ''/repos/klandestin-s/api-school.man3/contents/jadwal.json'',
         Some (JObj [(''message'', JStr ''Update jadwal: Matematika untuk XI A''),
                     (''content'',
                        JStr (sampleEncode (render (JArr
                          [storedFirst,
                           JObj [(''class'', JStr ''XI A''), (''day'', JStr ''Senin''),
                                 (''subject'', JStr ''Matematika''),
                                 (''teacher'', JStr ''Bu Sari''),
                                 (''startTime'', JStr ''10:00''), (''endTime'', JStr ''11:00''),
                                 (''id'', JStr ''jadwal_2_b'')]])))),
                     (''branch'', JStr ''main''), (''sha'', JStr ''abc123'')]))]
   \<and> snd (runIO (handler sampleEnv putSecond) [fileAnswer, committedAnswer])
     = Some (JObj [(''class'', JStr ''XI A''), (''day'', JStr ''Senin''),
                   (''subject'', JStr ''Matematika''), (''teacher'', JStr ''Bu Sari''),
                   (''startTime'', JStr ''10:00''), (''endTime'', JStr ''11:00''),
                   (''id'', JStr ''jadwal_2_b'')],
             \<lparr>status = 200,
              sent = Some (JObj [(''success'', JBool True),
                                 (''message'', JStr ''Jadwal berhasil diperbarui''),
                                 (''schedule'',
                                    JObj [(''class'', JStr ''XI A''), (''day'', JStr ''Senin''),
                                          (''subject'', JStr ''Matematika''),
                                          (''teacher'', JStr ''Bu Sari''),
                                          (''startTime'', JStr ''10:00''),
                                          (''endTime'', JStr ''11:00''),
                                          (''id'', JStr ''jadwal_2_b'')])])\<rparr>)"
proof -
  let ?run = "runIO (handler sampleEnv putSecond)
      [HttpResponse 200 jsonType (render fileJson), HttpResponse 200 jsonType (render committedJson)]"
  have le: "(200::nat) \<le> 200" "(200::nat) < 300" by simp_all
  have ne: "''jadwal_2_b'' \<noteq> []" by simp
  have i: "1 < length storedList" "getProp (storedList ! 1) ''id'' = JStr ''jadwal_2_b''"
    "\<forall>j<1. getProp (storedList ! j) ''id'' \<noteq> JStr ''jadwal_2_b''"
    by (simp_all add: storedList_def sample_records(4,5))
  from update_replaces_one_record_in_place[where ctype = jsonType and ?ctype2.0 = jsonType,
      OF sample_token sample_requests(3,4) ne sample_valid_put sample_requests(9) le
        sample_bodies(1) sample_file(1,2) sample_parse(2) sample_records(2) i le sample_bodies(2)]
  obtain c written where k: "getProp (reqBody putSecond) ''class'' = JStr c"
    "map (\<lambda>c. (apiMethod c, apiPath c, apiData c)) (fst ?run)
          = [(''GET'', ''/repos/klandestin-s/api-school.man3/contents/jadwal.json?ref=main'',
              None),
             (''PUT'', ''/repos/klandestin-s/api-school.man3/contents/jadwal.json'',
              Some (JObj ([(''message'', JStr (''Update jadwal: '' @ ''Matematika'' @ '' untuk '' @ c)),
                           (''content'',
                              JStr (base64Encode sampleEnv (jsonStringify sampleEnv (JArr written)))),
                           (''branch'', JStr ''main'')]
                          @ (if truthy (getProp fileJson ''sha'')
                             then [(''sha'', getProp fileJson ''sha'')] else []))))]"
    "snd ?run
          = Some (reqBody putSecond,
                  \<lparr>status = 200,
                   sent = Some (JObj [(''success'', JBool True),
                                      (''message'', JStr ''Jadwal berhasil diperbarui''),
                                      (''schedule'', reqBody putSecond)])\<rparr>)"
    "length written = length storedList" "written ! 1 = reqBody putSecond"
    "\<forall>j<length storedList. j \<noteq> 1 \<longrightarrow> written ! j = storedList ! j"
    by (elim exE conjE) (rule that)
  from k(1) have c: "c = ''XI A''" by (simp add: sample_put_body)
  from k(4) have "length written = 2" by (simp add: storedList_def)
  from two_elements[OF this] k(5) k(6)[rule_format, of 0]
  have w: "written = [storedFirst, reqBody putSecond]" by (simp add: storedList_def)
  from k(2) have calls: "map (\<lambda>c. (apiMethod c, apiPath c, apiData c)) (fst ?run)
     = [(''GET'', ''/repos/klandestin-s/api-school.man3/contents/jadwal.json?ref=main'', None),
        (''PUT'', ''/repos/klandestin-s/api-school.man3/contents/jadwal.json'',
         Some (JObj [(''message'', JStr ''Update jadwal: Matematika untuk XI A''),
                     (''content'',
                        JStr (sampleEncode (render (JArr [storedFirst, reqBody putSecond])))),
                     (''branch'', JStr ''main''), (''sha'', JStr ''abc123'')]))]"
    unfolding c w sample_file(3) by (simp add: sampleEnv_def)
  from calls k(3) show ?thesis
    unfolding sample_put_body fileAnswer_def committedAnswer_def by (rule conjI)
qed

lemma remove_by_key:
  assumes "distinct (map f xs)" "i < length xs" "f (xs ! i) = a"
  shows "take i xs @ drop (Suc i) xs = filter (\<lambda>r. f r \<noteq> a) xs"
  using assms
proof (induction xs arbitrary: i)
  case Nil
  then show ?case by simp
next
  case (Cons x xs)
  show ?case
  proof (cases i)
    case 0
    with Cons.prems have "f x = a" "\<forall>r\<in>set xs. f r \<noteq> a"
      by (auto simp: image_iff)
    then have "filter (\<lambda>r. f r \<noteq> a) (x # xs) = xs" by (simp add: filter_id_conv)
    with 0 show ?thesis by simp
  next
    case (Suc j)
    with Cons.prems have j: "j < length xs" "f (xs ! j) = a" "distinct (map f xs)" by simp_all
    from j(1,2) have "a \<in> f ` set xs" by (metis imageI nth_mem)
    with Cons.prems(1) have "f x \<noteq> a" by auto
    with Cons.IH[OF j(3,1,2)] Suc show ?thesis by simp
  qed
qed

text \<open>
  Claim C8. A delete with an id, on a collection of records read from the store
  whose ids are distinct and whose subjects and classes have strings. If a record
  has the id, the write goes out with the collection without that record and with
  every other record in its place, and once the store has accepted the write the
  200 response returns the removed record; a delete of the same id that reads the
  collection just written is answered 404 with nothing written. If no record has
  the id, the answer is 404 and nothing is written.
\<close>

theorem delete_removes_the_matching_record:
  assumes "TOKEN env \<noteq> None" and "TOKEN env \<noteq> Some []" and "httpMethod req = ''DELETE''"
    and "getProp (reqQuery req) ''id'' = JStr ident" and "ident \<noteq> []"
    and "200 \<le> st" and "st < 300"
    and "jsonParse env (if body = [] then ''{}'' else body) = Inr file"
    and "truthy (getProp file ''content'')"
    and "base64Decode env (getProp file ''content'') = Inr decoded"
    and "jsonParse env decoded = Inr (JArr xs)"
    and "\<forall>r\<in>set xs. \<not> nullish r \<and> printable (getProp r ''subject'')
                     \<and> printable (getProp r ''class'')"
    and "distinct (map (\<lambda>r. getProp r ''id'') xs)"
    and "200 \<le> st2" and "st2 < 300"
    and "jsonParse env (if body2 = [] then ''{}'' else body2) = Inr ok"
  shows "if (\<exists>r\<in>set xs. getProp r ''id'' = JStr ident) then
      \<exists>removed s c.
        removed \<in> set xs \<and> getProp removed ''id'' = JStr ident
        \<and> toString (getProp removed ''subject'') = Inr s
        \<and> toString (getProp removed ''class'') = Inr c
        \<and> map (\<lambda>c. (apiMethod c, apiPath c, apiData c))
             (fst (runIO (handler env req)
                     [HttpResponse st ctype body, HttpResponse st2 ctype2 body2]))
            = [(''GET'', ''/repos/klandestin-s/api-school.man3/contents/jadwal.json?ref=main'',
                None),
               (''PUT'', ''/repos/klandestin-s/api-school.man3/contents/jadwal.json'',
                Some (JObj ([(''message'', JStr (''Hapus jadwal: '' @ s @ '' untuk '' @ c)),
                             (''content'',
                                JStr (base64Encode env
                                        (jsonStringify env
                                           (JArr (filter (\<lambda>r. getProp r ''id'' \<noteq> JStr ident)
                                                    xs))))),
                             (''branch'', JStr ''main'')]
                            @ (if truthy (getProp file ''sha'')
                               then [(''sha'', getProp file ''sha'')] else []))))]
        \<and> snd (runIO (handler env req)
                  [HttpResponse st ctype body, HttpResponse st2 ctype2 body2])
            = Some (reqBody req,
                    \<lparr>status = 200,
                     sent = Some (JObj [(''success'', JBool True),
                                        (''message'', JStr ''Jadwal berhasil dihapus''),
                                        (''schedule'', removed)])\<rparr>)
        \<and> Suc (length (filter (\<lambda>r. getProp r ''id'' \<noteq> JStr ident) xs)) = length xs
        \<and> (\<forall>st3 ctype3 body3 file3 decoded3 outs.
              200 \<le> st3 \<and> st3 < 300
              \<and> jsonParse env (if body3 = [] then ''{}'' else body3) = Inr file3
              \<and> truthy (getProp file3 ''content'')
              \<and> base64Decode env (getProp file3 ''content'') = Inr decoded3
              \<and> jsonParse env decoded3
                  = Inr (JArr (filter (\<lambda>r. getProp r ''id'' \<noteq> JStr ident) xs)) \<longrightarrow>
              map (\<lambda>c. (apiMethod c, apiPath c, apiData c))
                (fst (runIO (handler env req) (HttpResponse st3 ctype3 body3 # outs)))
                = [(''GET'',
                    ''/repos/klandestin-s/api-school.man3/contents/jadwal.json?ref=main'',
                    None)]
              \<and> snd (runIO (handler env req) (HttpResponse st3 ctype3 body3 # outs))
                = Some (reqBody req,
                        \<lparr>status = 404,
                         sent = Some (JObj [(''error'', JStr ''Jadwal tidak ditemukan'')])\<rparr>))
    else
      map (\<lambda>c. (apiMethod c, apiPath c, apiData c))
        (fst (runIO (handler env req) (HttpResponse st ctype body # outs)))
        = [(''GET'', ''/repos/klandestin-s/api-school.man3/contents/jadwal.json?ref=main'',
            None)]
      \<and> snd (runIO (handler env req) (HttpResponse st ctype body # outs))
        = Some (reqBody req,
                \<lparr>status = 404,
                 sent = Some (JObj [(''error'', JStr ''Jadwal tidak ditemukan'')])\<rparr>)"
proof -
  let ?keep = "\<lambda>r. getProp r ''id'' \<noteq> JStr ident"
  have nn: "\<forall>r\<in>set xs. \<not> nullish r" using assms(12) by blast
  have tr: "truthy (getProp (reqQuery req) ''id'')" using assms(4,5) by simp
  note h = handler_dispatch(4)[OF assms(1,2,3)]
  note rr = readResult_file[OF assms(6,7,8,9,10,11), of ctype]
  have missing: "map (\<lambda>c. (apiMethod c, apiPath c, apiData c))
        (fst (runIO (handler env req) (out # rest)))
        = [(''GET'', ''/repos/klandestin-s/api-school.man3/contents/jadwal.json?ref=main'',
            None)]
      \<and> snd (runIO (handler env req) (out # rest))
        = Some (reqBody req,
                \<lparr>status = 404,
                 sent = Some (JObj [(''error'', JStr ''Jadwal tidak ditemukan'')])\<rparr>)"
    if r: "readResult env out = Inr \<lparr>schedules = JArr ys, sha = t\<rparr>"
      and n: "\<forall>r\<in>set ys. \<not> nullish r"
      and no: "\<not> (\<exists>r\<in>set ys. getProp r ''id'' = JStr ident)"
    for out rest ys t
  proof -
    have f: "findIndexById (getProp (reqQuery req) ''id'') ys = Inr None"
      unfolding assms(4) by (rule findIndexById_text(2)[OF n no])
    show ?thesis
      unfolding h handleDelete_run_missing[OF tr r f] fst_conv snd_conv
      by (intro conjI calls_view(2) refl)
  qed
  show ?thesis
  proof (cases "\<exists>r\<in>set xs. getProp r ''id'' = JStr ident")
    case False
    from missing[OF rr nn False, of outs] False show ?thesis by (simp only: if_False)
  next
    case True
    from findIndexById_text(1)[OF nn True]
    obtain i where i: "findIndexById (JStr ident) xs = Inr (Some i)" "i < length xs"
      "getProp (xs ! i) ''id'' = JStr ident" by blast
    from i(2) have mem: "xs ! i \<in> set xs" by simp
    with assms(12) have "printable (getProp (xs ! i) ''subject'')"
      "printable (getProp (xs ! i) ''class'')" by blast+
    then obtain s c where sc: "toString (getProp (xs ! i) ''subject'') = Inr s"
      "toString (getProp (xs ! i) ''class'') = Inr c"
      unfolding printable_iff by blast
    have f: "findIndexById (getProp (reqQuery req) ''id'') xs = Inr (Some i)"
      unfolding assms(4) by (rule i(1))
    have left: "take i xs @ drop (Suc i) xs = filter ?keep xs"
      by (rule remove_by_key[OF assms(13) i(2,3)])
    note ok = settle_ok[OF assms(14,15,16), of ctype2]
    note run = handleDelete_run[OF tr rr f sc, of "reqBody req" "[HttpResponse st2 ctype2 body2]"]
    have calls: "map (\<lambda>c. (apiMethod c, apiPath c, apiData c))
             (fst (runIO (handler env req)
                     [HttpResponse st ctype body, HttpResponse st2 ctype2 body2]))
            = [(''GET'', ''/repos/klandestin-s/api-school.man3/contents/jadwal.json?ref=main'',
                None),
               (''PUT'', ''/repos/klandestin-s/api-school.man3/contents/jadwal.json'',
                Some (JObj ([(''message'', JStr (''Hapus jadwal: '' @ s @ '' untuk '' @ c)),
                             (''content'',
                                JStr (base64Encode env
                                        (jsonStringify env (JArr (filter ?keep xs))))),
                             (''branch'', JStr ''main'')]
                            @ (if truthy (getProp file ''sha'')
                               then [(''sha'', getProp file ''sha'')] else []))))]"
      unfolding h run fst_conv left by (rule calls_view(1))
    have res: "snd (runIO (handler env req)
                  [HttpResponse st ctype body, HttpResponse st2 ctype2 body2])
            = Some (reqBody req,
                    \<lparr>status = 200,
                     sent = Some (JObj [(''success'', JBool True),
                                        (''message'', JStr ''Jadwal berhasil dihapus''),
                                        (''schedule'', xs ! i)])\<rparr>)"
      unfolding h run by (simp add: ok)
    have len: "Suc (length (filter ?keep xs)) = length xs"
      unfolding left[symmetric] using i(2) by (simp add: min_def)
    have again: "\<forall>st3 ctype3 body3 file3 decoded3 outs.
              200 \<le> st3 \<and> st3 < 300
              \<and> jsonParse env (if body3 = [] then ''{}'' else body3) = Inr file3
              \<and> truthy (getProp file3 ''content'')
              \<and> base64Decode env (getProp file3 ''content'') = Inr decoded3
              \<and> jsonParse env decoded3 = Inr (JArr (filter ?keep xs)) \<longrightarrow>
              map (\<lambda>c. (apiMethod c, apiPath c, apiData c))
                (fst (runIO (handler env req) (HttpResponse st3 ctype3 body3 # outs)))
                = [(''GET'',
                    ''/repos/klandestin-s/api-school.man3/contents/jadwal.json?ref=main'',
                    None)]
              \<and> snd (runIO (handler env req) (HttpResponse st3 ctype3 body3 # outs))
                = Some (reqBody req,
                        \<lparr>status = 404,
                         sent = Some (JObj [(''error'', JStr ''Jadwal tidak ditemukan'')])\<rparr>)"
    proof (intro allI impI)
      fix st3 :: nat and ctype3 :: "string option" and body3 :: string and file3 :: jsval
        and decoded3 :: string and outs :: "httpOutcome list"
      assume a: "200 \<le> st3 \<and> st3 < 300
              \<and> jsonParse env (if body3 = [] then ''{}'' else body3) = Inr file3
              \<and> truthy (getProp file3 ''content'')
              \<and> base64Decode env (getProp file3 ''content'') = Inr decoded3
              \<and> jsonParse env decoded3 = Inr (JArr (filter ?keep xs))"
      then have r3: "readResult env (HttpResponse st3 ctype3 body3)
          = Inr \<lparr>schedules = JArr (filter ?keep xs), sha = getProp file3 ''sha''\<rparr>"
        using readResult_file[of st3 env body3 file3 decoded3 "JArr (filter ?keep xs)" ctype3]
        by blast
      have n3: "\<forall>r\<in>set (filter ?keep xs). \<not> nullish r" using nn by simp
      have no3: "\<not> (\<exists>r\<in>set (filter ?keep xs). getProp r ''id'' = JStr ident)" by simp
      show "map (\<lambda>c. (apiMethod c, apiPath c, apiData c))
                (fst (runIO (handler env req) (HttpResponse st3 ctype3 body3 # outs)))
                = [(''GET'',
                    ''/repos/klandestin-s/api-school.man3/contents/jadwal.json?ref=main'',
                    None)]
              \<and> snd (runIO (handler env req) (HttpResponse st3 ctype3 body3 # outs))
                = Some (reqBody req,
                        \<lparr>status = 404,
                         sent = Some (JObj [(''error'', JStr ''Jadwal tidak ditemukan'')])\<rparr>)"
        by (rule missing[OF r3 n3 no3])
    qed
    show ?thesis
      unfolding if_P[OF True]
      by (intro exI[of _ "xs ! i"] exI[of _ s] exI[of _ c] conjI mem i(3) sc calls res len again)
  qed
qed

text \<open>
  A delete of the first record of the sample store, and the same delete again on
  the blob as the first one wrote it.
\<close>

theorem delete_removes_the_matching_record_witness:
  "map (\<lambda>c. (apiMethod c, apiPath c, apiData c))
     (fst (runIO (handler sampleEnv deleteFirst) [fileAnswer, committedAnswer]))
     = [(''GET'', ''/repos/klandestin-s/api-school.man3/contents/jadwal.json?ref=main'', None),
        (''PUT'', ''/repos/klandestin-s/api-school.man3/contents/jadwal.json'',
         Some (JObj [(''message'', JStr ''Hapus jadwal: Matematika untuk XI A''),
                     (''content'', JStr (sampleEncode (render (JArr [storedSecond])))),
                     (''branch'', JStr ''main''), (''sha'', JStr ''abc123'')]))]
   \<and> snd (runIO (handler sampleEnv deleteFirst) [fileAnswer, committedAnswer])
     = Some (JUndefined,
             \<lparr>status = 200,
              sent = Some (JObj [(''success'', JBool True),
                                 (''message'', JStr ''Jadwal berhasil dihapus''),
                                 (''schedule'', storedFirst)])\<rparr>)
   \<and> getProp reducedFileJson ''content'' = JStr (sampleEncode (render (JArr [storedSecond])))
   \<and> map (\<lambda>c. (apiMethod c, apiPath c, apiData c))
        (fst (runIO (handler sampleEnv deleteFirst) [reducedAnswer]))
     = [(''GET'', ''/repos/klandestin-s/api-school.man3/contents/jadwal.json?ref=main'', None)]
   \<and> snd (runIO (handler sampleEnv deleteFirst) [reducedAnswer])
     = Some (JUndefined,
             \<lparr>status = 404,
              sent = Some (JObj [(''error'', JStr ''Jadwal tidak ditemukan'')])\<rparr>)"
proof -
  let ?run = "runIO (handler sampleEnv deleteFirst)
      [HttpResponse 200 jsonType (render fileJson), HttpResponse 200 jsonType (render committedJson)]"
  let ?keep = "\<lambda>r. getProp r ''id'' \<noteq> JStr ''jadwal_1_a''"
  have le: "(200::nat) \<le> 200" "(200::nat) < 300" by simp_all
  have ne: "''jadwal_1_a'' \<noteq> []" by simp
  have found: "\<exists>r\<in>set storedList. getProp r ''id'' = JStr ''jadwal_1_a''"
    by (simp add: storedList_def sample_records(4))
  have keep: "filter ?keep storedList = [storedSecond]"
    by (simp add: storedList_def sample_records(4,5))
  from delete_removes_the_matching_record[where ctype = jsonType and ?ctype2.0 = jsonType,
      OF sample_token sample_requests(5,6) ne le sample_bodies(1) sample_file(1,2) sample_parse(2)
        sample_records(1,3) le sample_bodies(2)]
  have "\<exists>removed s c.
        removed \<in> set storedList \<and> getProp removed ''id'' = JStr ''jadwal_1_a''
        \<and> toString (getProp removed ''subject'') = Inr s
        \<and> toString (getProp removed ''class'') = Inr c
        \<and> map (\<lambda>c. (apiMethod c, apiPath c, apiData c)) (fst ?run)
            = [(''GET'', ''/repos/klandestin-s/api-school.man3/contents/jadwal.json?ref=main'',
                None),
               (''PUT'', ''/repos/klandestin-s/api-school.man3/contents/jadwal.json'',
                Some (JObj ([(''message'', JStr (''Hapus jadwal: '' @ s @ '' untuk '' @ c)),
                             (''content'',
                                JStr (base64Encode sampleEnv
                                        (jsonStringify sampleEnv (JArr (filter ?keep storedList))))),
                             (''branch'', JStr ''main'')]
                            @ (if truthy (getProp fileJson ''sha'')
                               then [(''sha'', getProp fileJson ''sha'')] else []))))]
        \<and> snd ?run
            = Some (reqBody deleteFirst,
                    \<lparr>status = 200,
                     sent = Some (JObj [(''success'', JBool True),
                                        (''message'', JStr ''Jadwal berhasil dihapus''),
                                        (''schedule'', removed)])\<rparr>)
        \<and> Suc (length (filter ?keep storedList)) = length storedList
        \<and> (\<forall>st3 ctype3 body3 file3 decoded3 outs.
              200 \<le> st3 \<and> st3 < 300
              \<and> jsonParse sampleEnv (if body3 = [] then ''{}'' else body3) = Inr file3
              \<and> truthy (getProp file3 ''content'')
              \<and> base64Decode sampleEnv (getProp file3 ''content'') = Inr decoded3
              \<and> jsonParse sampleEnv decoded3 = Inr (JArr (filter ?keep storedList)) \<longrightarrow>
              map (\<lambda>c. (apiMethod c, apiPath c, apiData c))
                (fst (runIO (handler sampleEnv deleteFirst) (HttpResponse st3 ctype3 body3 # outs)))
                = [(''GET'',
                    ''/repos/klandestin-s/api-school.man3/contents/jadwal.json?ref=main'',
                    None)]
              \<and> snd (runIO (handler sampleEnv deleteFirst) (HttpResponse st3 ctype3 body3 # outs))
                = Some (reqBody deleteFirst,
                        \<lparr>status = 404,
                         sent = Some (JObj [(''error'', JStr ''Jadwal tidak ditemukan'')])\<rparr>))"
    unfolding if_P[OF found] .
  then obtain removed s c where k: "removed \<in> set storedList"
    "getProp removed ''id'' = JStr ''jadwal_1_a''"
    "toString (getProp removed ''subject'') = Inr s"
    "toString (getProp removed ''class'') = Inr c"
    "map (\<lambda>c. (apiMethod c, apiPath c, apiData c)) (fst ?run)
            = [(''GET'', ''/repos/klandestin-s/api-school.man3/contents/jadwal.json?ref=main'',
                None),
               (''PUT'', ''/repos/klandestin-s/api-school.man3/contents/jadwal.json'',
                Some (JObj ([(''message'', JStr (''Hapus jadwal: '' @ s @ '' untuk '' @ c)),
                             (''content'',
                                JStr (base64Encode sampleEnv
                                        (jsonStringify sampleEnv (JArr (filter ?keep storedList))))),
                             (''branch'', JStr ''main'')]
                            @ (if truthy (getProp fileJson ''sha'')
                               then [(''sha'', getProp fileJson ''sha'')] else []))))]"
    "snd ?run
            = Some (reqBody deleteFirst,
                    \<lparr>status = 200,
                     sent = Some (JObj [(''success'', JBool True),
                                        (''message'', JStr ''Jadwal berhasil dihapus''),
                                        (''schedule'', removed)])\<rparr>)"
    "\<forall>st3 ctype3 body3 file3 decoded3 outs.
              200 \<le> st3 \<and> st3 < 300
              \<and> jsonParse sampleEnv (if body3 = [] then ''{}'' else body3) = Inr file3
              \<and> truthy (getProp file3 ''content'')
              \<and> base64Decode sampleEnv (getProp file3 ''content'') = Inr decoded3
              \<and> jsonParse sampleEnv decoded3 = Inr (JArr (filter ?keep storedList)) \<longrightarrow>
              map (\<lambda>c. (apiMethod c, apiPath c, apiData c))
                (fst (runIO (handler sampleEnv deleteFirst) (HttpResponse st3 ctype3 body3 # outs)))
                = [(''GET'',
                    ''/repos/klandestin-s/api-school.man3/contents/jadwal.json?ref=main'',
                    None)]
              \<and> snd (runIO (handler sampleEnv deleteFirst) (HttpResponse st3 ctype3 body3 # outs))
                = Some (reqBody deleteFirst,
                        \<lparr>status = 404,
                         sent = Some (JObj [(''error'', JStr ''Jadwal tidak ditemukan'')])\<rparr>)"
    by (elim exE conjE) (rule that)
  from k(1,2) have r: "removed = storedFirst"
    by (auto simp: storedList_def sample_records(5))
  from k(3,4) have sc: "s = ''Matematika''" "c = ''XI A''"
    unfolding r by (simp_all add: sample_records(6,7))
  from k(5) have calls: "map (\<lambda>c. (apiMethod c, apiPath c, apiData c)) (fst ?run)
     = [(''GET'', ''/repos/klandestin-s/api-school.man3/contents/jadwal.json?ref=main'', None),
        (''PUT'', ''/repos/klandestin-s/api-school.man3/contents/jadwal.json'',
         Some (JObj [(''message'', JStr ''Hapus jadwal: Matematika untuk XI A''),
                     (''content'', JStr (sampleEncode (render (JArr [storedSecond])))),
                     (''branch'', JStr ''main''), (''sha'', JStr ''abc123'')]))]"
    unfolding sc keep sample_file(3) by (simp add: sampleEnv_def)
  from k(6) have res: "snd ?run
     = Some (JUndefined,
             \<lparr>status = 200,
              sent = Some (JObj [(''success'', JBool True),
                                 (''message'', JStr ''Jadwal berhasil dihapus''),
                                 (''schedule'', storedFirst)])\<rparr>)"
    unfolding r sample_requests(7) .
  have content: "getProp reducedFileJson ''content''
      = JStr (sampleEncode (render (JArr [storedSecond])))"
    by (simp add: reducedFileJson_def)
  have second: "200 \<le> (200::nat) \<and> (200::nat) < 300
              \<and> jsonParse sampleEnv
                   (if render reducedFileJson = [] then ''{}'' else render reducedFileJson)
                  = Inr reducedFileJson
              \<and> truthy (getProp reducedFileJson ''content'')
              \<and> base64Decode sampleEnv (getProp reducedFileJson ''content'')
                  = Inr (render (JArr [storedSecond]))
              \<and> jsonParse sampleEnv (render (JArr [storedSecond]))
                  = Inr (JArr (filter ?keep storedList))"
    unfolding keep
    by (intro conjI le sample_bodies(4) sample_reduced sample_parse(6))
  from k(7)[rule_format, OF second, of jsonType "[]"]
  have again: "map (\<lambda>c. (apiMethod c, apiPath c, apiData c))
        (fst (runIO (handler sampleEnv deleteFirst) [reducedAnswer]))
     = [(''GET'', ''/repos/klandestin-s/api-school.man3/contents/jadwal.json?ref=main'', None)]
   \<and> snd (runIO (handler sampleEnv deleteFirst) [reducedAnswer])
     = Some (JUndefined,
             \<lparr>status = 404,
              sent = Some (JObj [(''error'', JStr ''Jadwal tidak ditemukan'')])\<rparr>)"
    unfolding reducedAnswer_def sample_requests(7) .
  from calls res content again show ?thesis
    unfolding fileAnswer_def committedAnswer_def by (intro conjI) simp_all
qed

end
